theory Spec2Isabelle
  imports Complex_Main "HOL-Library.Word" "HOL-Library.Code_Target_Numeral"
begin

unbundle bit_operations_syntax

section \<open>AAF audio mapping module (openavb\_map\_aaf\_audio.c)\<close>

text \<open>
  A shallow embedding of the AVTP Audio Format mapping module of Open-AVB.
  Bytes are \<open>8 word\<close>, the 32-bit header words are \<open>32 word\<close>. A C buffer is a list of
  bytes and a pointer into it is an offset into the list; \<open>U32\<close> counters and sizes are
  natural numbers, with the wrap-around of the C arithmetic written out where a value can
  leave the 32-bit range.
\<close>

type_synonym u8 = "8 word"
type_synonym u32 = "32 word"

subsection \<open>Memory helpers\<close>

text \<open>
  \<open>memcpy(buf + off, src, length src)\<close>. The model is exact when the written range lies
  inside \<open>buf\<close>; the C code has undefined behaviour otherwise.
\<close>

definition write_at :: "nat \<Rightarrow> u8 list \<Rightarrow> u8 list \<Rightarrow> u8 list" where
  "write_at off src buf = take off buf @ src @ drop (off + length src) buf"

text \<open>The \<open>n\<close> bytes at \<open>buf + off\<close>.\<close>

definition read_at :: "nat \<Rightarrow> nat \<Rightarrow> u8 list \<Rightarrow> u8 list" where
  "read_at off n buf = take n (drop off buf)"

subsection \<open>Circular byte queue\<close>

text \<open>
  \<open>circular_queue_t\<close>. \<open>queueStorage\<close> is the allocation (the empty list stands for
  \<open>NULL\<close>); \<open>queueHead\<close> and \<open>queueTail\<close> are the distances of the two pointers from
  \<open>queueStorage\<close>.
\<close>

record circular_queue_t =
  queueStorage :: "u8 list"
  queueHead :: nat
  queueTail :: nat
  queueSize :: nat

text \<open>
  \<open>AllocateCircularQueue\<close>. \<open>malloc\<close> is a parameter: \<open>None\<close> when it fails, otherwise
  the contents of the \<open>nQueueSize\<close> bytes it returned (byte \<open>i\<close> of the allocation is
  \<open>f i\<close>), which C leaves indeterminate. On failure the head and tail pointers keep their
  old values.
\<close>

type_synonym malloc_t = "(nat \<Rightarrow> u8) option"

definition AllocateCircularQueue ::
  "circular_queue_t \<Rightarrow> nat \<Rightarrow> malloc_t \<Rightarrow> bool \<times> circular_queue_t" where
  "AllocateCircularQueue pQueue nQueueSize mallocd =
     (case mallocd of
        None \<Rightarrow> (False, pQueue\<lparr>queueSize := nQueueSize, queueStorage := []\<rparr>)
      | Some f \<Rightarrow>
          (True, pQueue\<lparr>queueSize := nQueueSize, queueStorage := map f [0..<nQueueSize],
                        queueHead := 0, queueTail := 0\<rparr>))"

definition FreeCircularQueue :: "circular_queue_t \<Rightarrow> circular_queue_t" where
  "FreeCircularQueue pQueue =
     pQueue\<lparr>queueStorage := [], queueSize := 0, queueHead := 0, queueTail := 0\<rparr>"

definition CircularQueueIsValid :: "circular_queue_t \<Rightarrow> bool" where
  "CircularQueueIsValid pQueue \<longleftrightarrow> queueStorage pQueue \<noteq> [] \<and> queueSize pQueue \<noteq> 0"

definition CircularQueueBytesQueued :: "circular_queue_t \<Rightarrow> nat" where
  "CircularQueueBytesQueued pQueue =
     (if queueTail pQueue > queueHead pQueue
      then queueHead pQueue + queueSize pQueue - queueTail pQueue
      else queueHead pQueue - queueTail pQueue)"

text \<open>
  \<open>PushBufferToCircularQueue\<close>. \<open>pData = None\<close> is the \<open>NULL\<close> source, for which the
  code writes zeros with \<open>memset\<close>.
\<close>

definition PushBufferToCircularQueue ::
  "circular_queue_t \<Rightarrow> u8 list option \<Rightarrow> nat \<Rightarrow> circular_queue_t" where
  "PushBufferToCircularQueue pQueue pData nDataSize =
     (let bytesToCopyPhase1 = min (queueSize pQueue - queueHead pQueue) nDataSize;
          src = (case pData of Some d \<Rightarrow> d | None \<Rightarrow> replicate nDataSize 0);
          st1 = write_at (queueHead pQueue) (take bytesToCopyPhase1 src) (queueStorage pQueue);
          head1 = queueHead pQueue + bytesToCopyPhase1
      in if head1 \<ge> queueSize pQueue then
           (if bytesToCopyPhase1 < nDataSize then
              (let bytesToCopyPhase2 = nDataSize - bytesToCopyPhase1
               in pQueue\<lparr>queueStorage :=
                             write_at 0 (take bytesToCopyPhase2 (drop bytesToCopyPhase1 src)) st1,
                          queueHead := bytesToCopyPhase2\<rparr>)
            else pQueue\<lparr>queueStorage := st1, queueHead := 0\<rparr>)
         else pQueue\<lparr>queueStorage := st1, queueHead := head1\<rparr>)"

text \<open>
  \<open>PullBufferFromCircularQueue\<close>. The result carries the bytes that the code copies to
  \<open>pData\<close> (phase 1, then phase 2); a caller that passes \<open>NULL\<close> drops them.
\<close>

definition PullBufferFromCircularQueue ::
  "circular_queue_t \<Rightarrow> nat \<Rightarrow> circular_queue_t \<times> u8 list" where
  "PullBufferFromCircularQueue pQueue nDataSize =
     (let bytesToCopyPhase1 = min (queueSize pQueue - queueTail pQueue) nDataSize;
          out1 = read_at (queueTail pQueue) bytesToCopyPhase1 (queueStorage pQueue);
          tail1 = queueTail pQueue + bytesToCopyPhase1
      in if tail1 \<ge> queueSize pQueue then
           (if bytesToCopyPhase1 < nDataSize then
              (let bytesToCopyPhase2 = nDataSize - bytesToCopyPhase1
               in (pQueue\<lparr>queueTail := bytesToCopyPhase2\<rparr>,
                   out1 @ read_at 0 bytesToCopyPhase2 (queueStorage pQueue)))
            else (pQueue\<lparr>queueTail := 0\<rparr>, out1))
         else (pQueue\<lparr>queueTail := tail1\<rparr>, out1))"

text \<open>
  \<open>CompareBufferToCircularQueue\<close>. \<open>memcmp(a, b, n) != 0\<close> is the inequality of the two
  \<open>n\<close>-byte ranges. The second \<open>memcmp\<close> reads the caller's buffer at
  \<open>pData + bytesToComparePhase2\<close>, as the source does.
\<close>

definition CompareBufferToCircularQueue ::
  "circular_queue_t \<Rightarrow> u8 list option \<Rightarrow> nat \<Rightarrow> bool" where
  "CompareBufferToCircularQueue pQueue pData nDataSize =
     (case pData of
        None \<Rightarrow> False
      | Some d \<Rightarrow>
          (let bytesToComparePhase1 = min (queueSize pQueue - queueTail pQueue) nDataSize
           in if read_at 0 bytesToComparePhase1 d
                 \<noteq> read_at (queueTail pQueue) bytesToComparePhase1 (queueStorage pQueue)
              then False
              else if bytesToComparePhase1 < nDataSize then
                (let bytesToComparePhase2 = nDataSize - bytesToComparePhase1
                 in if read_at bytesToComparePhase2 bytesToComparePhase2 d
                       \<noteq> read_at 0 bytesToComparePhase2 (queueStorage pQueue)
                    then False else True)
              else True))"

text \<open>
  The specification's reading of the queue: the next \<open>n\<close> bytes starting at the tail,
  continuing at the start of the storage after its end (for \<open>n\<close> up to the capacity).
\<close>

definition cq_next_bytes :: "circular_queue_t \<Rightarrow> nat \<Rightarrow> u8 list" where
  "cq_next_bytes pQueue n =
     take n (drop (queueTail pQueue) (queueStorage pQueue) @ queueStorage pQueue)"

text \<open>
  Push and pull take the storage for granted. When \<open>queueStorage\<close> is \<open>NULL\<close> (the
  queue was never allocated, was freed, or \<open>malloc\<close> failed), a push, or a pull into a
  buffer, of one byte or more calls \<open>memcpy\<close> or \<open>memset\<close> on an address at or next to
  \<open>NULL\<close>: in phase 1 when \<open>queueSize\<close> says that there is room after the head or tail,
  otherwise in phase 2 at \<open>queueStorage\<close> itself. The call does not survive that access.
  A pull with \<open>pData == NULL\<close> only moves the tail and touches no memory.
\<close>

definition cq_null_access :: "circular_queue_t \<Rightarrow> nat \<Rightarrow> bool" where
  "cq_null_access pQueue nDataSize \<longleftrightarrow> queueStorage pQueue = [] \<and> 0 < nDataSize"

subsection \<open>Logging\<close>

text \<open>
  A call of \<open>AVB_LOG_ERROR\<close>, \<open>AVB_LOG_WARNING\<close> or \<open>AVB_LOG_INFO\<close> (and their
  \<open>LOGF\<close> forms) appends one event: the level and the message text as written in the
  source, its format arguments left out. Debug, verbose and trace output, which the build
  can compile out, and the rate-limited \<open>IF_LOG_INTERVAL\<close> messages are not recorded.
\<close>

datatype log_level_t = AVB_LOG_ERROR | AVB_LOG_WARNING | AVB_LOG_INFO

type_synonym log_t = "log_level_t \<times> string"

subsection \<open>Enumerations\<close>

text \<open>
  C enumerations are integers; the constants are abbreviations of their values, in the
  order of the declarations in the source.
\<close>

abbreviation (input) AAF_RATE_UNSPEC :: nat where "AAF_RATE_UNSPEC \<equiv> 0"
abbreviation (input) AAF_RATE_8K :: nat where "AAF_RATE_8K \<equiv> 1"
abbreviation (input) AAF_RATE_16K :: nat where "AAF_RATE_16K \<equiv> 2"
abbreviation (input) AAF_RATE_32K :: nat where "AAF_RATE_32K \<equiv> 3"
abbreviation (input) AAF_RATE_44K1 :: nat where "AAF_RATE_44K1 \<equiv> 4"
abbreviation (input) AAF_RATE_48K :: nat where "AAF_RATE_48K \<equiv> 5"
abbreviation (input) AAF_RATE_88K2 :: nat where "AAF_RATE_88K2 \<equiv> 6"
abbreviation (input) AAF_RATE_96K :: nat where "AAF_RATE_96K \<equiv> 7"
abbreviation (input) AAF_RATE_176K4 :: nat where "AAF_RATE_176K4 \<equiv> 8"
abbreviation (input) AAF_RATE_192K :: nat where "AAF_RATE_192K \<equiv> 9"
abbreviation (input) AAF_RATE_24K :: nat where "AAF_RATE_24K \<equiv> 10"

abbreviation (input) AAF_FORMAT_UNSPEC :: nat where "AAF_FORMAT_UNSPEC \<equiv> 0"
abbreviation (input) AAF_FORMAT_FLOAT_32 :: nat where "AAF_FORMAT_FLOAT_32 \<equiv> 1"
abbreviation (input) AAF_FORMAT_INT_32 :: nat where "AAF_FORMAT_INT_32 \<equiv> 2"
abbreviation (input) AAF_FORMAT_INT_24 :: nat where "AAF_FORMAT_INT_24 \<equiv> 3"
abbreviation (input) AAF_FORMAT_INT_16 :: nat where "AAF_FORMAT_INT_16 \<equiv> 4"
abbreviation (input) AAF_FORMAT_AES3_32 :: nat where "AAF_FORMAT_AES3_32 \<equiv> 5"

abbreviation (input) AAF_STATIC_CHANNELS_LAYOUT :: nat where "AAF_STATIC_CHANNELS_LAYOUT \<equiv> 0"

datatype avb_audio_sparse_mode_t = TS_SPARSE_MODE_DISABLED | TS_SPARSE_MODE_ENABLED

text \<open>
  The audio constants of \<open>openavb_audio_pub.h\<close>, which is not among the sources at hand:
  a rate constant is the rate in Hz (the size calculation divides it by the transmit
  interval and scales the redundancy offset by the same number), a bit-depth constant is
  the number of bits.
\<close>

abbreviation (input) AVB_AUDIO_RATE_8KHZ :: nat where "AVB_AUDIO_RATE_8KHZ \<equiv> 8000"
abbreviation (input) AVB_AUDIO_RATE_16KHZ :: nat where "AVB_AUDIO_RATE_16KHZ \<equiv> 16000"
abbreviation (input) AVB_AUDIO_RATE_24KHZ :: nat where "AVB_AUDIO_RATE_24KHZ \<equiv> 24000"
abbreviation (input) AVB_AUDIO_RATE_32KHZ :: nat where "AVB_AUDIO_RATE_32KHZ \<equiv> 32000"
abbreviation (input) AVB_AUDIO_RATE_44_1KHZ :: nat where "AVB_AUDIO_RATE_44_1KHZ \<equiv> 44100"
abbreviation (input) AVB_AUDIO_RATE_48KHZ :: nat where "AVB_AUDIO_RATE_48KHZ \<equiv> 48000"
abbreviation (input) AVB_AUDIO_RATE_88_2KHZ :: nat where "AVB_AUDIO_RATE_88_2KHZ \<equiv> 88200"
abbreviation (input) AVB_AUDIO_RATE_96KHZ :: nat where "AVB_AUDIO_RATE_96KHZ \<equiv> 96000"
abbreviation (input) AVB_AUDIO_RATE_176_4KHZ :: nat where "AVB_AUDIO_RATE_176_4KHZ \<equiv> 176400"
abbreviation (input) AVB_AUDIO_RATE_192KHZ :: nat where "AVB_AUDIO_RATE_192KHZ \<equiv> 192000"

abbreviation (input) AVB_AUDIO_BIT_DEPTH_16BIT :: nat where "AVB_AUDIO_BIT_DEPTH_16BIT \<equiv> 16"
abbreviation (input) AVB_AUDIO_BIT_DEPTH_24BIT :: nat where "AVB_AUDIO_BIT_DEPTH_24BIT \<equiv> 24"
abbreviation (input) AVB_AUDIO_BIT_DEPTH_32BIT :: nat where "AVB_AUDIO_BIT_DEPTH_32BIT \<equiv> 32"

datatype avb_audio_type_t =
  AVB_AUDIO_TYPE_UNSPEC | AVB_AUDIO_TYPE_INT | AVB_AUDIO_TYPE_UINT | AVB_AUDIO_TYPE_FLOAT

abbreviation (input) AVB_MCR_NONE :: nat where "AVB_MCR_NONE \<equiv> 0"

abbreviation (input) U32_MOD :: nat where "U32_MOD \<equiv> 2 ^ 32"
abbreviation (input) U64_MOD :: nat where "U64_MOD \<equiv> 2 ^ 64"

subsection \<open>Session state\<close>

text \<open>\<open>pvt_data_t\<close>, field for field.\<close>

record pvt_data_t =
  itemCount :: nat
  txInterval :: nat
  packingFactor :: nat
  audioMcr :: nat
  mcrTimestampInterval :: nat
  mcrRecoveryInterval :: nat
  temporalRedundantOffsetUsec :: nat
  report_seconds :: nat
  maxTransitUsec :: nat
  aaf_rate :: nat
  aaf_format :: nat
  aaf_bit_depth :: u8
  payloadSize :: nat
  payloadSizeMaxTalker :: nat
  payloadSizeMaxListener :: nat
  isTalker :: bool
  aaf_event_field :: u8
  dataValid :: bool
  intervalCounter :: nat
  sparseMode :: avb_audio_sparse_mode_t
  mediaQItemSyncTS :: bool
  temporalRedundantOffsetSamples :: nat
  temporalRedundantOffsetPackets :: nat
  temporalRedundantQueue :: circular_queue_t
  temporalRedundantQueueFrameSize :: nat
  trStatsEntryTypeQueue :: circular_queue_t
  trStatsTotalFrames :: nat
  trStatsLostFrames :: nat
  trStatsNeededAvailable :: nat
  trStatsNeededNotAvailable :: nat
  nextReportNS :: nat

text \<open>
  \<open>media_q_pub_map_aaf_audio_info_t\<close>: the fields the mapping reads and writes. Its
  \<open>packingFactor\<close> and \<open>itemSize\<close> carry the prefix \<open>pub_\<close> here, since the
  private data and the media queue items have fields of the same names.
  \<open>intf_rx_translate_cb\<close> is the optional callback of the interface module, which
  rewrites a buffer in place.
\<close>

record media_q_pub_map_aaf_audio_info_t =
  audioRate :: nat
  audioType :: avb_audio_type_t
  audioBitDepth :: nat
  audioChannels :: nat
  framesPerPacket :: nat
  packetSampleSizeBytes :: nat
  packetFrameSizeBytes :: nat
  itemSampleSizeBytes :: nat
  itemFrameSizeBytes :: nat
  pub_packingFactor :: nat
  framesPerItem :: nat
  pub_itemSize :: nat
  presentationLatencyUSec :: nat
  intf_rx_translate_cb :: "(u8 list \<Rightarrow> u8 list) option"

subsection \<open>AVTP time and media queue\<close>

text \<open>
  Modelled from the spec: the AVTP time handle of a media queue item
  (\<open>openavb_avtp_time.c\<close> is not among the sources). It holds a time in nanoseconds and
  the two flags; \<open>addUSec\<close> and \<open>subUSec\<close> move the time, \<open>getAvtpTimestamp\<close> is its
  low 32 bits, \<open>setToTimestamp\<close> stores a received timestamp.
\<close>

record avtp_time_t =
  timeNsec :: nat
  bTimestampValid :: bool
  bTimestampUncertain :: bool

definition openavbAvtpTimeTimestampIsValid :: "avtp_time_t \<Rightarrow> bool" where
  "openavbAvtpTimeTimestampIsValid t = bTimestampValid t"

definition openavbAvtpTimeTimestampIsUncertain :: "avtp_time_t \<Rightarrow> bool" where
  "openavbAvtpTimeTimestampIsUncertain t = bTimestampUncertain t"

definition openavbAvtpTimeSetTimestampValid :: "avtp_time_t \<Rightarrow> bool \<Rightarrow> avtp_time_t" where
  "openavbAvtpTimeSetTimestampValid t b = t\<lparr>bTimestampValid := b\<rparr>"

definition openavbAvtpTimeSetTimestampUncertain :: "avtp_time_t \<Rightarrow> bool \<Rightarrow> avtp_time_t" where
  "openavbAvtpTimeSetTimestampUncertain t b = t\<lparr>bTimestampUncertain := b\<rparr>"

definition openavbAvtpTimeAddUSec :: "avtp_time_t \<Rightarrow> nat \<Rightarrow> avtp_time_t" where
  "openavbAvtpTimeAddUSec t us = t\<lparr>timeNsec := (timeNsec t + us * 1000) mod U64_MOD\<rparr>"

definition openavbAvtpTimeSubUSec :: "avtp_time_t \<Rightarrow> nat \<Rightarrow> avtp_time_t" where
  "openavbAvtpTimeSubUSec t us =
     t\<lparr>timeNsec := (timeNsec t + U64_MOD - (us * 1000) mod U64_MOD) mod U64_MOD\<rparr>"

definition openavbAvtpTimeGetAvtpTimestamp :: "avtp_time_t \<Rightarrow> u32" where
  "openavbAvtpTimeGetAvtpTimestamp t = of_nat (timeNsec t)"

definition openavbAvtpTimeSetToTimestamp :: "avtp_time_t \<Rightarrow> u32 \<Rightarrow> avtp_time_t" where
  "openavbAvtpTimeSetToTimestamp t ts = t\<lparr>timeNsec := unat ts\<rparr>"

text \<open>
  \<open>media_q_item_t\<close>. \<open>pPubData\<close> is the item's buffer of \<open>itemSize\<close> bytes, which the
  media queue allocates for every item.
\<close>

record media_q_item_t =
  pPubData :: "u8 list"
  dataLen :: nat
  itemSize :: nat
  readIdx :: nat
  pAvtpTime :: avtp_time_t

text \<open>
  Modelled from the spec: the media queue (\<open>openavb_mediaq.c\<close> is not among the
  sources), a bounded FIFO of fixed-size items. \<open>mq_ready\<close> holds the items that were
  pushed and not yet pulled, the oldest first: the tail lock returns the first of them,
  or \<open>NULL\<close> when there is none, and a tail pull removes it. \<open>mq_free\<close> holds the items
  that can still be written: the head lock returns the first of them, or \<open>NULL\<close> when
  the queue is full, and a head push makes it the newest ready item. An unlock keeps the
  item where it is, with what the holder wrote to it.
\<close>

record media_q_t =
  pPubMapInfo :: media_q_pub_map_aaf_audio_info_t
  pPvtMapInfo :: "pvt_data_t option"
  mq_ready :: "media_q_item_t list"
  mq_free :: "media_q_item_t list"

definition openavbMediaQIsAvailableBytes :: "media_q_item_t list \<Rightarrow> nat \<Rightarrow> bool" where
  "openavbMediaQIsAvailableBytes ready bytes \<longleftrightarrow>
     bytes \<le> sum_list (map (\<lambda>it. dataLen it - readIdx it) ready)"

definition openavbMediaQHeadLock :: "media_q_item_t list \<Rightarrow> media_q_item_t option" where
  "openavbMediaQHeadLock free = (case free of [] \<Rightarrow> None | it # _ \<Rightarrow> Some it)"

text \<open>The item given to unlock and push is the locked item as its holder left it.\<close>

definition openavbMediaQHeadUnlock :: "media_q_t \<Rightarrow> media_q_item_t \<Rightarrow> media_q_t" where
  "openavbMediaQHeadUnlock mq it = mq\<lparr>mq_free := it # tl (mq_free mq)\<rparr>"

definition openavbMediaQHeadPush :: "media_q_t \<Rightarrow> media_q_item_t \<Rightarrow> media_q_t" where
  "openavbMediaQHeadPush mq it = mq\<lparr>mq_free := tl (mq_free mq), mq_ready := mq_ready mq @ [it]\<rparr>"

definition openavbMediaQTailLock :: "media_q_t \<Rightarrow> media_q_item_t option" where
  "openavbMediaQTailLock mq = (case mq_ready mq of [] \<Rightarrow> None | it # _ \<Rightarrow> Some it)"

text \<open>
  Tail unlock and tail pull take the locked item as its holder left it, \<open>None\<close> when the
  lock had returned \<open>NULL\<close>; then there is nothing to unlock or to pull. A pulled item is
  empty again and can be locked at the head.
\<close>

definition openavbMediaQTailUnlock :: "media_q_t \<Rightarrow> media_q_item_t option \<Rightarrow> media_q_t" where
  "openavbMediaQTailUnlock mq locked =
     (case locked of None \<Rightarrow> mq | Some it \<Rightarrow> mq\<lparr>mq_ready := it # tl (mq_ready mq)\<rparr>)"

definition openavbMediaQTailPull :: "media_q_t \<Rightarrow> media_q_item_t option \<Rightarrow> media_q_t" where
  "openavbMediaQTailPull mq locked =
     (case locked of
        None \<Rightarrow> mq
      | Some it \<Rightarrow> mq\<lparr>mq_ready := tl (mq_ready mq),
                       mq_free := mq_free mq @ [it\<lparr>dataLen := 0, readIdx := 0\<rparr>]\<rparr>)"

definition openavbMediaQSetSize :: "media_q_t \<Rightarrow> nat \<Rightarrow> nat \<Rightarrow> media_q_t" where
  "openavbMediaQSetSize mq count sz =
     mq\<lparr>mq_ready := [],
        mq_free := replicate count
          \<lparr>pPubData = replicate sz 0, dataLen = 0, itemSize = sz, readIdx = 0,
           pAvtpTime = \<lparr>timeNsec = 0, bTimestampValid = False, bTimestampUncertain = False\<rparr>\<rparr>\<rparr>"

subsection \<open>Size calculation\<close>

text \<open>
  \<open>(U32) ((U64) usec * hz / 1000000ull)\<close>, the redundancy offset in samples.
\<close>

definition offset_samples :: "nat \<Rightarrow> nat \<Rightarrow> nat" where
  "offset_samples usec hz = ((usec * hz) mod U64_MOD div 1000000) mod U32_MOD"

text \<open>The \<open>switch\<close> on the audio rate of \<open>x_calculateSizes\<close>.\<close>

definition x_calculateSizes_rate :: "nat \<Rightarrow> pvt_data_t \<Rightarrow> pvt_data_t \<times> log_t list" where
  "x_calculateSizes_rate rate pPvtData =
     (let usec = temporalRedundantOffsetUsec pPvtData in
      if rate = AVB_AUDIO_RATE_8KHZ then
        (pPvtData\<lparr>aaf_rate := AAF_RATE_8K,
                   temporalRedundantOffsetSamples := offset_samples usec 8000\<rparr>, [])
      else if rate = AVB_AUDIO_RATE_16KHZ then
        (pPvtData\<lparr>aaf_rate := AAF_RATE_16K,
                   temporalRedundantOffsetSamples := offset_samples usec 16000\<rparr>, [])
      else if rate = AVB_AUDIO_RATE_24KHZ then
        (pPvtData\<lparr>aaf_rate := AAF_RATE_24K,
                   temporalRedundantOffsetSamples := offset_samples usec 24000\<rparr>, [])
      else if rate = AVB_AUDIO_RATE_32KHZ then
        (pPvtData\<lparr>aaf_rate := AAF_RATE_32K,
                   temporalRedundantOffsetSamples := offset_samples usec 32000\<rparr>, [])
      else if rate = AVB_AUDIO_RATE_44_1KHZ then
        (pPvtData\<lparr>aaf_rate := AAF_RATE_44K1,
                   temporalRedundantOffsetSamples := offset_samples usec 44100\<rparr>, [])
      else if rate = AVB_AUDIO_RATE_48KHZ then
        (pPvtData\<lparr>aaf_rate := AAF_RATE_48K,
                   temporalRedundantOffsetSamples := offset_samples usec 48000\<rparr>, [])
      else if rate = AVB_AUDIO_RATE_88_2KHZ then
        (pPvtData\<lparr>aaf_rate := AAF_RATE_88K2,
                   temporalRedundantOffsetSamples := offset_samples usec 88200\<rparr>, [])
      else if rate = AVB_AUDIO_RATE_96KHZ then
        (pPvtData\<lparr>aaf_rate := AAF_RATE_96K,
                   temporalRedundantOffsetSamples := offset_samples usec 96000\<rparr>, [])
      else if rate = AVB_AUDIO_RATE_176_4KHZ then
        (pPvtData\<lparr>aaf_rate := AAF_RATE_176K4,
                   temporalRedundantOffsetSamples := offset_samples usec 176400\<rparr>, [])
      else if rate = AVB_AUDIO_RATE_192KHZ then
        (pPvtData\<lparr>aaf_rate := AAF_RATE_192K,
                   temporalRedundantOffsetSamples := offset_samples usec 192000\<rparr>, [])
      else
        (pPvtData\<lparr>aaf_rate := AAF_RATE_UNSPEC\<rparr>,
         [(AVB_LOG_ERROR, ''Invalid audio frequency configured'')]))"

text \<open>The two \<open>switch\<close>es on the bit depth, for float and for integer audio.\<close>

definition x_calculateSizes_format ::
  "media_q_pub_map_aaf_audio_info_t \<Rightarrow> pvt_data_t \<Rightarrow>
   media_q_pub_map_aaf_audio_info_t \<times> pvt_data_t \<times> log_t list" where
  "x_calculateSizes_format pPub pPvtData =
     (if audioType pPub = AVB_AUDIO_TYPE_FLOAT then
        (if audioBitDepth pPub = AVB_AUDIO_BIT_DEPTH_32BIT then
           (pPub\<lparr>itemSampleSizeBytes := 4, packetSampleSizeBytes := 4\<rparr>,
            pPvtData\<lparr>aaf_format := AAF_FORMAT_FLOAT_32, aaf_bit_depth := 32\<rparr>, [])
         else
           (pPub, pPvtData\<lparr>aaf_format := AAF_FORMAT_UNSPEC\<rparr>,
            [(AVB_LOG_ERROR, ''Invalid audio bit-depth configured for float'')]))
      else
        (if audioBitDepth pPub = AVB_AUDIO_BIT_DEPTH_32BIT then
           (pPub\<lparr>itemSampleSizeBytes := 4, packetSampleSizeBytes := 4\<rparr>,
            pPvtData\<lparr>aaf_format := AAF_FORMAT_INT_32, aaf_bit_depth := 32\<rparr>, [])
         else if audioBitDepth pPub = AVB_AUDIO_BIT_DEPTH_24BIT then
           (pPub\<lparr>itemSampleSizeBytes := 3, packetSampleSizeBytes := 3\<rparr>,
            pPvtData\<lparr>aaf_format := AAF_FORMAT_INT_24, aaf_bit_depth := 24\<rparr>, [])
         else if audioBitDepth pPub = AVB_AUDIO_BIT_DEPTH_16BIT then
           (pPub\<lparr>itemSampleSizeBytes := 2, packetSampleSizeBytes := 2\<rparr>,
            pPvtData\<lparr>aaf_format := AAF_FORMAT_INT_16, aaf_bit_depth := 16\<rparr>, [])
         else
           (pPub, pPvtData\<lparr>aaf_format := AAF_FORMAT_UNSPEC\<rparr>,
            [(AVB_LOG_ERROR, ''Invalid audio bit-depth configured'')])))"

text \<open>
  The frames per packet. The division is the unsigned C division; the code divides
  without a check, so a transmit interval of zero is outside the model.
\<close>

definition x_calculateSizes_frames ::
  "media_q_pub_map_aaf_audio_info_t \<Rightarrow> pvt_data_t \<Rightarrow>
   media_q_pub_map_aaf_audio_info_t \<times> log_t list" where
  "x_calculateSizes_frames pPub pPvtData =
     (let pub1 = pPub\<lparr>framesPerPacket := audioRate pPub div txInterval pPvtData\<rparr>
      in if audioRate pPub mod txInterval pPvtData \<noteq> 0 then
           (pub1\<lparr>framesPerPacket := (framesPerPacket pub1 + 1) mod U32_MOD\<rparr>,
            [(AVB_LOG_WARNING, ''Audio rate (%d) is not integer multiple of TX interval (%d)'')])
         else (pub1, []))"

text \<open>
  The packet, item and redundancy sizes that follow. The values are computed in the order
  of the source's assignments and stored at the end; \<open>U32\<close> products wrap.
\<close>

definition x_calculateSizes_sizes ::
  "media_q_pub_map_aaf_audio_info_t \<Rightarrow> pvt_data_t \<Rightarrow>
   media_q_pub_map_aaf_audio_info_t \<times> pvt_data_t \<times> log_t list" where
  "x_calculateSizes_sizes pPub pPvtData =
     (let packetFrameSize = (packetSampleSizeBytes pPub * audioChannels pPub) mod U32_MOD;
          payload = (framesPerPacket pPub * packetFrameSize) mod U32_MOD;
          maxListener =
            (if aaf_format pPvtData \<ge> AAF_FORMAT_INT_32 \<and> aaf_format pPvtData \<le> AAF_FORMAT_INT_16
             then (4 * audioChannels pPub * framesPerPacket pPub) mod U32_MOD
             else payload);
          perItem = (framesPerPacket pPub * packingFactor pPvtData) mod U32_MOD;
          itemFrameSize = (itemSampleSizeBytes pPub * audioChannels pPub) mod U32_MOD;
          redundant = (temporalRedundantOffsetUsec pPvtData > 0)
      in (pPub\<lparr>packetFrameSizeBytes := packetFrameSize,
                pub_packingFactor := packingFactor pPvtData,
                framesPerItem := perItem,
                itemFrameSizeBytes := itemFrameSize,
                pub_itemSize := (itemFrameSize * perItem) mod U32_MOD\<rparr>,
          pPvtData\<lparr>payloadSize := payload,
                    payloadSizeMaxTalker := (if redundant then (payload * 2) mod U32_MOD else payload),
                    payloadSizeMaxListener := (maxListener * 2) mod U32_MOD,
                    temporalRedundantQueueFrameSize := maxListener,
                    temporalRedundantOffsetPackets :=
                      (if redundant
                       then temporalRedundantOffsetSamples pPvtData div framesPerPacket pPub
                       else temporalRedundantOffsetPackets pPvtData)\<rparr>,
          [(AVB_LOG_INFO,
            ''packet: sampleSz=%d * channels=%d => frameSz=%d * %d => payloadSz=%d''),
           (AVB_LOG_INFO,
            ''item: sampleSz=%d * channels=%d => frameSz=%d * %d * packing=%d => itemSz=%d'')]
          @ (if redundant
             then [(AVB_LOG_INFO,
                    ''temporal redundancy offset=%u microseconds, %u samples, %u packets'')]
             else [])))"

text \<open>\<open>x_calculateSizes\<close>, for a media queue that is not \<open>NULL\<close>.\<close>

definition x_calculateSizes :: "media_q_t \<Rightarrow> media_q_t \<times> log_t list" where
  "x_calculateSizes pMediaQ =
     (case pPvtMapInfo pMediaQ of
        None \<Rightarrow> (pMediaQ, [(AVB_LOG_ERROR, ''Private mapping module data not allocated.'')])
      | Some pPvtData \<Rightarrow>
          (let pub0 = pPubMapInfo pMediaQ;
               (pvt1, log1) = x_calculateSizes_rate (audioRate pub0) pPvtData;
               log2 = [(AVB_LOG_INFO, ''aaf_rate=%d (%dKhz)'')];
               (pub3, pvt3, log3) = x_calculateSizes_format pub0 pvt1;
               log4 = [(AVB_LOG_INFO, ''aaf_format=%d (%s%d)'')];
               (pub5, log5) = x_calculateSizes_frames pub3 pvt3;
               log6 = [(AVB_LOG_INFO, ''Frames/packet = %d'')];
               (pub7, pvt7, log7) = x_calculateSizes_sizes pub5 pvt3
           in (pMediaQ\<lparr>pPubMapInfo := pub7, pPvtMapInfo := Some pvt7\<rparr>,
               log1 @ log2 @ log3 @ log4 @ log5 @ log6 @ log7)))"

subsection \<open>Initialisation and configuration\<close>

text \<open>
  \<open>openavbMapAVTPAudioInitialize\<close>: the private data as \<open>calloc\<close> returns it (all
  fields zero, the queue pointers \<open>NULL\<close>), then the defaults the function assigns.
\<close>

definition calloc_circular_queue :: circular_queue_t where
  "calloc_circular_queue =
     \<lparr>queueStorage = [], queueHead = 0, queueTail = 0, queueSize = 0\<rparr>"

definition calloc_pvt_data :: pvt_data_t where
  "calloc_pvt_data =
     \<lparr>itemCount = 0, txInterval = 0, packingFactor = 0, audioMcr = 0,
      mcrTimestampInterval = 0, mcrRecoveryInterval = 0, temporalRedundantOffsetUsec = 0,
      report_seconds = 0, maxTransitUsec = 0, aaf_rate = 0, aaf_format = 0,
      aaf_bit_depth = 0, payloadSize = 0, payloadSizeMaxTalker = 0,
      payloadSizeMaxListener = 0, isTalker = False, aaf_event_field = 0, dataValid = False,
      intervalCounter = 0, sparseMode = TS_SPARSE_MODE_DISABLED, mediaQItemSyncTS = False,
      temporalRedundantOffsetSamples = 0, temporalRedundantOffsetPackets = 0,
      temporalRedundantQueue = calloc_circular_queue, temporalRedundantQueueFrameSize = 0,
      trStatsEntryTypeQueue = calloc_circular_queue, trStatsTotalFrames = 0,
      trStatsLostFrames = 0, trStatsNeededAvailable = 0, trStatsNeededNotAvailable = 0,
      nextReportNS = 0\<rparr>"

definition openavbMapAVTPAudioInitialize_pvt :: "nat \<Rightarrow> pvt_data_t" where
  "openavbMapAVTPAudioInitialize_pvt inMaxTransitUsec =
     calloc_pvt_data\<lparr>itemCount := 20, txInterval := 4000, packingFactor := 1,
                      maxTransitUsec := inMaxTransitUsec, sparseMode := TS_SPARSE_MODE_DISABLED,
                      mcrTimestampInterval := 144, mcrRecoveryInterval := 512,
                      temporalRedundantOffsetUsec := 0,
                      aaf_event_field := of_nat AAF_STATIC_CHANNELS_LAYOUT,
                      intervalCounter := 0, mediaQItemSyncTS := False,
                      temporalRedundantOffsetSamples := 0\<rparr>"

text \<open>
  \<open>strtol\<close> of the C library with base 10, after the C standard: white space is
  skipped, a sign is optional, the digits that follow are the number; without a digit no
  conversion takes place, the result is 0 and the end pointer is the start of the string.
  A number outside the range of \<open>long\<close> gives \<open>LONG_MAX\<close> or \<open>LONG_MIN\<close>. The
  width of \<open>long\<close> depends on the platform and is the parameter \<open>long_bits\<close>. The
  string is the C string up to its terminating zero byte; the second component of the
  result is what is left at the end pointer, so \<open>*pEnd == '\0'\<close> means that it is
  empty.
\<close>

definition isspace_c :: "char \<Rightarrow> bool" where
  "isspace_c c \<longleftrightarrow> (of_char c :: nat) = 32 \<or> (9 \<le> (of_char c :: nat) \<and> (of_char c :: nat) \<le> 13)"

definition isdigit_c :: "char \<Rightarrow> bool" where
  "isdigit_c c \<longleftrightarrow> 48 \<le> (of_char c :: nat) \<and> (of_char c :: nat) \<le> 57"

fun strtol_digits :: "int \<Rightarrow> string \<Rightarrow> int \<times> string" where
  "strtol_digits acc [] = (acc, [])"
| "strtol_digits acc (c # cs) =
     (if isdigit_c c then strtol_digits (acc * 10 + (of_char c - 48)) cs else (acc, c # cs))"

definition strtol :: "nat \<Rightarrow> string \<Rightarrow> int \<times> string" where
  "strtol long_bits nptr =
     (let s1 = dropWhile isspace_c nptr;
          neg = (s1 \<noteq> [] \<and> hd s1 = CHR ''-'');
          s2 = (if s1 \<noteq> [] \<and> (hd s1 = CHR ''-'' \<or> hd s1 = CHR ''+'') then tl s1 else s1)
      in if s2 \<noteq> [] \<and> isdigit_c (hd s2) then
           (let (v, rest) = strtol_digits 0 s2;
                sv = (if neg then - v else v)
            in (max (- (2 ^ (long_bits - 1))) (min (2 ^ (long_bits - 1) - 1) sv), rest))
         else (0, nptr))"

text \<open>The assignment of a \<open>long\<close> to a \<open>U32\<close> variable.\<close>

definition long_to_U32 :: "int \<Rightarrow> nat" where
  "long_to_U32 v = nat (v mod 2 ^ 32)"

text \<open>
  \<open>openavbMapAVTPAudioCfgCB\<close>, on the private data of a media queue that has them.
\<close>

definition openavbMapAVTPAudioCfgCB_pvt ::
  "nat \<Rightarrow> pvt_data_t \<Rightarrow> string \<Rightarrow> string \<Rightarrow> pvt_data_t" where
  "openavbMapAVTPAudioCfgCB_pvt long_bits pPvtData name val =
     (if name = ''map_nv_item_count'' then
        pPvtData\<lparr>itemCount := long_to_U32 (fst (strtol long_bits val))\<rparr>
      else if name = ''map_nv_packing_factor'' then
        pPvtData\<lparr>packingFactor := long_to_U32 (fst (strtol long_bits val))\<rparr>
      else if name = ''map_nv_tx_rate'' \<or> name = ''map_nv_tx_interval'' then
        pPvtData\<lparr>txInterval := long_to_U32 (fst (strtol long_bits val))\<rparr>
      else if name = ''map_nv_sparse_mode'' then
        (let (v, pEnd) = strtol long_bits val;
             tmp = long_to_U32 v
         in if pEnd = [] \<and> tmp = 1 then pPvtData\<lparr>sparseMode := TS_SPARSE_MODE_ENABLED\<rparr>
            else if pEnd = [] \<and> tmp = 0 then pPvtData\<lparr>sparseMode := TS_SPARSE_MODE_DISABLED\<rparr>
            else pPvtData)
      else if name = ''map_nv_audio_mcr'' then
        pPvtData\<lparr>audioMcr := long_to_U32 (fst (strtol long_bits val))\<rparr>
      else if name = ''map_nv_mcr_timestamp_interval'' then
        pPvtData\<lparr>mcrTimestampInterval := long_to_U32 (fst (strtol long_bits val))\<rparr>
      else if name = ''map_nv_mcr_recovery_interval'' then
        pPvtData\<lparr>mcrRecoveryInterval := long_to_U32 (fst (strtol long_bits val))\<rparr>
      else if name = ''map_nv_temporal_redundant_offset''
              \<or> name = ''map_nv_max_allowed_dropout_time'' then
        pPvtData\<lparr>temporalRedundantOffsetUsec := long_to_U32 (fst (strtol long_bits val))\<rparr>
      else if name = ''map_nv_report_seconds'' then
        pPvtData\<lparr>report_seconds := long_to_U32 (fst (strtol long_bits val))\<rparr>
      else pPvtData)"

text \<open>
  The callback itself: nothing happens without a media queue, and without private data
  only an error is logged.
\<close>

definition openavbMapAVTPAudioCfgCB ::
  "nat \<Rightarrow> media_q_t option \<Rightarrow> string \<Rightarrow> string \<Rightarrow> media_q_t option \<times> log_t list" where
  "openavbMapAVTPAudioCfgCB long_bits pMediaQ name val =
     (case pMediaQ of
        None \<Rightarrow> (None, [])
      | Some mq \<Rightarrow>
          (case pPvtMapInfo mq of
             None \<Rightarrow> (Some mq, [(AVB_LOG_ERROR, ''Private mapping module data not allocated.'')])
           | Some pPvtData \<Rightarrow>
               (Some (mq\<lparr>pPvtMapInfo :=
                            Some (openavbMapAVTPAudioCfgCB_pvt long_bits pPvtData name val)\<rparr>),
                [])))"

subsection \<open>General initialisation\<close>

text \<open>
  \<open>openavbMapAVTPAudioGenInitCB\<close>, for a media queue that is not \<open>NULL\<close>. The two
  early returns of the redundancy set-up leave \<open>dataValid\<close> as it was.
\<close>

definition openavbMapAVTPAudioGenInitCB :: "media_q_t \<Rightarrow> malloc_t \<Rightarrow> media_q_t \<times> log_t list" where
  "openavbMapAVTPAudioGenInitCB pMediaQ mallocd =
     (case pPvtMapInfo pMediaQ of
        None \<Rightarrow> (pMediaQ, [(AVB_LOG_ERROR, ''Private mapping module data not allocated.'')])
      | Some _ \<Rightarrow>
          (let (mq1, log1) = x_calculateSizes pMediaQ in
           case pPvtMapInfo mq1 of
             None \<Rightarrow> (mq1, log1)
           | Some pPvtData \<Rightarrow>
               (let pPub = pPubMapInfo mq1;
                    mq2 = openavbMediaQSetSize mq1 (itemCount pPvtData) (pub_itemSize pPub)
                in if temporalRedundantOffsetUsec pPvtData > 0
                      \<and> temporalRedundantOffsetSamples pPvtData > 0 then
                     (if temporalRedundantOffsetSamples pPvtData mod framesPerPacket pPub \<noteq> 0 then
                        (mq2, log1 @ [(AVB_LOG_ERROR,
                           ''Temporal Redundancy not supported when redundant data would be split between two packets'')])
                      else
                        (let queueSize = (temporalRedundantQueueFrameSize pPvtData
                                           * ((temporalRedundantOffsetPackets pPvtData + 2) mod U32_MOD))
                                         mod U32_MOD;
                             (ok, q1) = AllocateCircularQueue
                                          (FreeCircularQueue (temporalRedundantQueue pPvtData))
                                          queueSize mallocd
                         in if \<not> ok then
                              (mq2\<lparr>pPvtMapInfo := Some (pPvtData\<lparr>temporalRedundantQueue := q1\<rparr>)\<rparr>,
                               log1 @ [(AVB_LOG_ERROR, ''Temporal Redundancy queue not allocated.''),
                                       (AVB_LOG_ERROR, ''Temporal Redundancy queue not allocated.'')])
                            else
                              (let q2 = PushBufferToCircularQueue q1 None
                                          ((temporalRedundantQueueFrameSize pPvtData
                                            * temporalRedundantOffsetPackets pPvtData) mod U32_MOD)
                               in (mq2\<lparr>pPvtMapInfo :=
                                          Some (pPvtData\<lparr>temporalRedundantQueue := q2,
                                                          dataValid := True\<rparr>)\<rparr>,
                                   log1))))
                   else (mq2\<lparr>pPvtMapInfo := Some (pPvtData\<lparr>dataValid := True\<rparr>)\<rparr>, log1))))"

text \<open>\<open>openavbMapAVTPAudioTxInitCB\<close>.\<close>

definition openavbMapAVTPAudioTxInitCB :: "media_q_t \<Rightarrow> media_q_t \<times> log_t list" where
  "openavbMapAVTPAudioTxInitCB pMediaQ =
     (case pPvtMapInfo pMediaQ of
        None \<Rightarrow> (pMediaQ, [(AVB_LOG_ERROR, ''Private mapping module data not allocated.'')])
      | Some pPvtData \<Rightarrow> (pMediaQ\<lparr>pPvtMapInfo := Some (pPvtData\<lparr>isTalker := True\<rparr>)\<rparr>, []))"

subsection \<open>Header fields\<close>

abbreviation (input) AVTP_V0_HEADER_SIZE :: nat where "AVTP_V0_HEADER_SIZE \<equiv> 12"
abbreviation (input) AAF_HEADER_SIZE :: nat where "AAF_HEADER_SIZE \<equiv> 12"
abbreviation (input) TOTAL_HEADER_SIZE :: nat where "TOTAL_HEADER_SIZE \<equiv> 24"
abbreviation (input) HIDX_AVTP_HIDE7_TV1 :: nat where "HIDX_AVTP_HIDE7_TV1 \<equiv> 1"
abbreviation (input) HIDX_AVTP_SEQ_NUM :: nat where "HIDX_AVTP_SEQ_NUM \<equiv> 2"
abbreviation (input) HIDX_AVTP_HIDE7_TU1 :: nat where "HIDX_AVTP_HIDE7_TU1 \<equiv> 3"
abbreviation (input) HIDX_STREAM_DATA_LEN16 :: nat where "HIDX_STREAM_DATA_LEN16 \<equiv> 20"
abbreviation (input) HIDX_AVTP_HIDE7_SP :: nat where "HIDX_AVTP_HIDE7_SP \<equiv> 22"
abbreviation (input) SP_M0_BIT :: u8 where "SP_M0_BIT \<equiv> 16"

text \<open>
  The four bytes that \<open>*pHdr = htonl(w)\<close> stores, and the word that \<open>ntohl(*pHdr)\<close>
  reads at an offset: network byte order, whatever the host's.
\<close>

definition be32 :: "u32 \<Rightarrow> u8 list" where
  "be32 w = [ucast (drop_bit 24 w), ucast (drop_bit 16 w), ucast (drop_bit 8 w), ucast w]"

definition from_be32 :: "u8 list \<Rightarrow> nat \<Rightarrow> u32" where
  "from_be32 buf off =
     push_bit 24 (ucast (buf ! off)) OR push_bit 16 (ucast (buf ! (off + 1)))
     OR push_bit 8 (ucast (buf ! (off + 2))) OR ucast (buf ! (off + 3))"

text \<open>\<open>ntohs(*(U16 * )(&buf[off]))\<close>.\<close>

definition from_be16 :: "u8 list \<Rightarrow> nat \<Rightarrow> nat" where
  "from_be16 buf off = unat (buf ! off) * 256 + unat (buf ! (off + 1))"

subsection \<open>Talker\<close>

datatype tx_cb_ret_t = TX_CB_RET_PACKET_NOT_READY | TX_CB_RET_PACKET_READY

text \<open>
  The timestamp part of the header, for the media queue item at hand: the three branches
  of the source. \<open>pHdr\<close> is the offset of the header word pointer in the packet.
\<close>

definition tx_timestamp ::
  "pvt_data_t \<Rightarrow> media_q_item_t \<Rightarrow> u8 list \<Rightarrow> nat \<Rightarrow> u8 list \<times> media_q_item_t \<times> log_t list" where
  "tx_timestamp pPvtData pMediaQItem pData pHdr =
     (if sparseMode pPvtData = TS_SPARSE_MODE_ENABLED
         \<and> (pData ! HIDX_AVTP_SEQ_NUM) AND 0x07 \<noteq> 0 then
        (let d1 = pData[HIDX_AVTP_HIDE7_TV1 := (pData ! HIDX_AVTP_HIDE7_TV1) AND NOT 0x01];
             d2 = d1[HIDX_AVTP_HIDE7_TU1 := (d1 ! HIDX_AVTP_HIDE7_TU1) AND NOT 0x01]
         in (write_at pHdr (be32 0) d2, pMediaQItem, []))
      else if \<not> openavbAvtpTimeTimestampIsValid (pAvtpTime pMediaQItem) then
        (let d1 = pData[HIDX_AVTP_HIDE7_TV1 := (pData ! HIDX_AVTP_HIDE7_TV1) AND NOT 0x01];
             d2 = d1[HIDX_AVTP_HIDE7_TU1 := (d1 ! HIDX_AVTP_HIDE7_TU1) AND NOT 0x01]
         in (write_at pHdr (be32 0) d2, pMediaQItem,
             [(AVB_LOG_ERROR, ''Unable to get the timestamp value'')]))
      else
        (let t1 = openavbAvtpTimeAddUSec (pAvtpTime pMediaQItem) (maxTransitUsec pPvtData);
             t2 = (if temporalRedundantOffsetUsec pPvtData > 0
                   then openavbAvtpTimeAddUSec t1 (temporalRedundantOffsetUsec pPvtData)
                   else t1);
             d1 = pData[HIDX_AVTP_HIDE7_TV1 := (pData ! HIDX_AVTP_HIDE7_TV1) OR 0x01];
             d2 = (if openavbAvtpTimeTimestampIsUncertain t2
                   then d1[HIDX_AVTP_HIDE7_TU1 := (d1 ! HIDX_AVTP_HIDE7_TU1) OR 0x01]
                   else d1[HIDX_AVTP_HIDE7_TU1 := (d1 ! HIDX_AVTP_HIDE7_TU1) AND NOT 0x01])
         in (write_at pHdr (be32 (openavbAvtpTimeGetAvtpTimestamp t2)) d2,
             pMediaQItem\<lparr>pAvtpTime := openavbAvtpTimeSetTimestampValid t2 False\<rparr>, [])))"

text \<open>
  The format-info word, \<open>format << 24 | rate << 20 | channels << 8 | bit_depth\<close>, and
  the packet-info word, \<open>payloadSize << 16 | event << 8\<close>.
\<close>

definition tx_format_info :: "pvt_data_t \<Rightarrow> media_q_pub_map_aaf_audio_info_t \<Rightarrow> u32" where
  "tx_format_info pPvtData pPub =
     push_bit 24 (of_nat (aaf_format pPvtData)) OR push_bit 20 (of_nat (aaf_rate pPvtData))
     OR push_bit 8 (of_nat (audioChannels pPub)) OR ucast (aaf_bit_depth pPvtData)"

definition tx_packet_info :: "pvt_data_t \<Rightarrow> u32" where
  "tx_packet_info pPvtData =
     push_bit 16 (of_nat (payloadSize pPvtData)) OR push_bit 8 (ucast (aaf_event_field pPvtData))"

text \<open>
  The header writes of one pass of the talker's loop: timestamp, format info, packet
  info (three words from \<open>pHdr\<close> on), then the sparse mode flag.
\<close>

definition tx_header ::
  "pvt_data_t \<Rightarrow> media_q_pub_map_aaf_audio_info_t \<Rightarrow> media_q_item_t \<Rightarrow> u8 list \<Rightarrow> nat
   \<Rightarrow> u8 list \<times> media_q_item_t \<times> log_t list" where
  "tx_header pPvtData pPub pMediaQItem pData pHdr =
     (let (d1, it1, log1) = tx_timestamp pPvtData pMediaQItem pData pHdr;
          d2 = write_at (pHdr + 4) (be32 (tx_format_info pPvtData pPub)) d1;
          d3 = write_at (pHdr + 8) (be32 (tx_packet_info pPvtData)) d2;
          d4 = (if sparseMode pPvtData = TS_SPARSE_MODE_ENABLED
                then d3[HIDX_AVTP_HIDE7_SP := (d3 ! HIDX_AVTP_HIDE7_SP) OR SP_M0_BIT]
                else d3[HIDX_AVTP_HIDE7_SP := (d3 ! HIDX_AVTP_HIDE7_SP) AND NOT SP_M0_BIT])
      in (d4, it1, log1))"

text \<open>
  The \<open>while (bytesProcessed < bytesNeeded)\<close> loop of the talker. When the tail lock
  returns \<open>NULL\<close> the pass changes nothing and the loop goes round again, so the loop need
  not end: the result \<open>None\<close> stands for a loop that does not return. The first component
  of a result tells whether the loop ran to its end (\<open>True\<close>) or left the function with
  \<open>TX_CB_RET_PACKET_NOT_READY\<close> (\<open>False\<close>).
\<close>

partial_function (option) tx_loop ::
  "pvt_data_t \<Rightarrow> media_q_pub_map_aaf_audio_info_t \<Rightarrow> nat \<Rightarrow> nat \<Rightarrow> media_q_t \<Rightarrow> u8 list \<Rightarrow> nat
   \<Rightarrow> nat \<Rightarrow> log_t list \<Rightarrow> (bool \<times> media_q_t \<times> u8 list \<times> log_t list) option" where
  "tx_loop pPvtData pPub bytesNeeded pPayload mq pData pHdr bytesProcessed logs =
     (if bytesProcessed < bytesNeeded then
        (case openavbMediaQTailLock mq of
           None \<Rightarrow>
             tx_loop pPvtData pPub bytesNeeded pPayload (openavbMediaQTailPull mq None)
               pData pHdr bytesProcessed logs
         | Some pMediaQItem \<Rightarrow>
             if dataLen pMediaQItem > 0 then
               (let (d1, it1, log1) = tx_header pPvtData pPub pMediaQItem pData pHdr in
                if (dataLen it1 + U32_MOD - readIdx it1) mod U32_MOD < payloadSize pPvtData then
                  Some (False, openavbMediaQTailPull mq (Some it1), d1,
                        logs @ log1
                        @ [(AVB_LOG_ERROR, ''Not enough data in media queue item for packet'')])
                else
                  (let d2 = write_at pPayload
                              (read_at (readIdx it1) (payloadSize pPvtData) (pPubData it1)) d1;
                       it2 = it1\<lparr>readIdx := (readIdx it1 + payloadSize pPvtData) mod U32_MOD\<rparr>;
                       mq2 = (if readIdx it2 \<ge> dataLen it2
                              then openavbMediaQTailPull mq (Some it2)
                              else openavbMediaQTailUnlock mq (Some it2))
                   in tx_loop pPvtData pPub bytesNeeded pPayload mq2 d2 (pHdr + 12)
                        ((bytesProcessed + payloadSize pPvtData) mod U32_MOD) (logs @ log1)))
             else
               tx_loop pPvtData pPub bytesNeeded pPayload
                 (openavbMediaQTailPull mq (Some pMediaQItem)) pData pHdr bytesProcessed logs)
      else Some (True, mq, pData, logs))"

declare tx_loop.simps [code]

text \<open>
  The redundancy step that follows the loop: the payload just written to the second slot
  is pushed (padded to the frame size of the queue), and the oldest frame is pulled into
  the first slot.
\<close>

definition tx_redundancy :: "pvt_data_t \<Rightarrow> u8 list \<Rightarrow> nat \<Rightarrow> pvt_data_t \<times> u8 list" where
  "tx_redundancy pPvtData pData bytesNeeded =
     (let frameSize = temporalRedundantQueueFrameSize pPvtData;
          q1 = PushBufferToCircularQueue (temporalRedundantQueue pPvtData)
                 (Some (drop (TOTAL_HEADER_SIZE + bytesNeeded) pData)) bytesNeeded;
          q2 = (if bytesNeeded < frameSize
                then PushBufferToCircularQueue q1 None (frameSize - bytesNeeded) else q1);
          (q3, primary) = PullBufferFromCircularQueue q2 bytesNeeded;
          q4 = (if bytesNeeded < frameSize
                then fst (PullBufferFromCircularQueue q3 (frameSize - bytesNeeded)) else q3)
      in (pPvtData\<lparr>temporalRedundantQueue := q4\<rparr>, write_at TOTAL_HEADER_SIZE primary pData))"

text \<open>
  \<open>openavbMapAVTPAudioTxCB\<close>, for arguments that are not \<open>NULL\<close>: the media queue, the
  packet buffer and the value \<open>pktLen\<close> of \<open>*dataLen\<close>. The result has the return code, the media
  queue, the packet buffer, the new \<open>*dataLen\<close> and the log. \<open>*dataLen - 24\<close> is an
  unsigned difference.
\<close>

definition openavbMapAVTPAudioTxCB ::
  "media_q_t \<Rightarrow> u8 list \<Rightarrow> nat
   \<Rightarrow> (tx_cb_ret_t \<times> media_q_t \<times> u8 list \<times> nat \<times> log_t list) option" where
  "openavbMapAVTPAudioTxCB pMediaQ pData pktLen =
     (let pPub = pPubMapInfo pMediaQ;
          bytesNeeded = (itemFrameSizeBytes pPub * framesPerPacket pPub) mod U32_MOD;
          room = (pktLen + U32_MOD - TOTAL_HEADER_SIZE) mod U32_MOD
      in if \<not> openavbMediaQIsAvailableBytes (mq_ready pMediaQ) bytesNeeded then
           Some (TX_CB_RET_PACKET_NOT_READY, pMediaQ, pData, pktLen, [])
         else
           (case pPvtMapInfo pMediaQ of
              None \<Rightarrow>
                Some (TX_CB_RET_PACKET_NOT_READY, pMediaQ, pData, pktLen,
                      [(AVB_LOG_ERROR, ''Private mapping module data not allocated.'')])
            | Some pPvtData \<Rightarrow>
                if room < payloadSize pPvtData then
                  Some (TX_CB_RET_PACKET_NOT_READY, pMediaQ, pData, pktLen,
                        [(AVB_LOG_ERROR, ''Not enough room in packet for payload'')])
                else if temporalRedundantOffsetUsec pPvtData > 0
                        \<and> room < (payloadSize pPvtData * 2) mod U32_MOD then
                  Some (TX_CB_RET_PACKET_NOT_READY, pMediaQ, pData, pktLen,
                        [(AVB_LOG_ERROR, ''Not enough room in packet for temporal offset payload'')])
                else if temporalRedundantOffsetUsec pPvtData > 0
                        \<and> \<not> CircularQueueIsValid (temporalRedundantQueue pPvtData) then
                  Some (TX_CB_RET_PACKET_NOT_READY, pMediaQ, pData, pktLen,
                        [(AVB_LOG_ERROR, ''No queue for temporal offset payload'')])
                else
                  (let pPayload = (if temporalRedundantOffsetUsec pPvtData > 0
                                   then TOTAL_HEADER_SIZE + bytesNeeded else TOTAL_HEADER_SIZE)
                   in case tx_loop pPvtData pPub bytesNeeded pPayload pMediaQ pData
                             AVTP_V0_HEADER_SIZE 0 [] of
                        None \<Rightarrow> None
                      | Some (finished, mq1, d1, log1) \<Rightarrow>
                          if \<not> finished then
                            Some (TX_CB_RET_PACKET_NOT_READY, mq1, d1, pktLen, log1)
                          else if temporalRedundantOffsetUsec pPvtData > 0 then
                            (let (pvt2, d2) = tx_redundancy pPvtData d1 bytesNeeded
                             in Some (TX_CB_RET_PACKET_READY, mq1\<lparr>pPvtMapInfo := Some pvt2\<rparr>, d2,
                                      (bytesNeeded + TOTAL_HEADER_SIZE + bytesNeeded) mod U32_MOD,
                                      log1))
                          else
                            Some (TX_CB_RET_PACKET_READY, mq1, d1,
                                  (bytesNeeded + TOTAL_HEADER_SIZE) mod U32_MOD, log1))))"

subsection \<open>Sample converter\<close>

text \<open>
  The two conversion loops that the listener and the loss concealer share, on the bytes
  between \<open>pInData\<close> and \<open>pInDataEnd\<close>. The padding loop copies \<open>nIn\<close> bytes of a
  sample and appends zeros up to \<open>nOut\<close>; the truncating loop copies \<open>nOut\<close> bytes and
  skips the other \<open>nIn - nOut\<close>. The lists are exact for a buffer of whole samples; the C
  loops read past \<open>pInDataEnd\<close> when the last sample is cut short. The sample lengths
  are \<open>6 - format\<close> for two integer formats, so 2, 3 or 4; a length of zero, with which
  the C loops would not advance, ends the recursion here.
\<close>

function convert_pad :: "nat \<Rightarrow> nat \<Rightarrow> u8 list \<Rightarrow> u8 list" where
  "convert_pad nInSampleLength nOutSampleLength pInData =
     (if pInData = [] \<or> nInSampleLength = 0 then []
      else take nInSampleLength pInData
           @ replicate (nOutSampleLength - nInSampleLength) 0
           @ convert_pad nInSampleLength nOutSampleLength (drop nInSampleLength pInData))"
  by pat_completeness auto
termination
  by (relation "measure (\<lambda>(nIn, nOut, pIn). length pIn)") auto

function convert_truncate :: "nat \<Rightarrow> nat \<Rightarrow> u8 list \<Rightarrow> u8 list" where
  "convert_truncate nInSampleLength nOutSampleLength pInData =
     (if pInData = [] \<or> nInSampleLength = 0 then []
      else take nOutSampleLength pInData
           @ convert_truncate nInSampleLength nOutSampleLength (drop nInSampleLength pInData))"
  by pat_completeness auto
termination
  by (relation "measure (\<lambda>(nIn, nOut, pIn). length pIn)") auto

declare convert_pad.simps [simp del] convert_truncate.simps [simp del]

definition convert_samples :: "nat \<Rightarrow> nat \<Rightarrow> u8 list \<Rightarrow> u8 list" where
  "convert_samples nInSampleLength nOutSampleLength pInData =
     (if nInSampleLength < nOutSampleLength
      then convert_pad nInSampleLength nOutSampleLength pInData
      else convert_truncate nInSampleLength nOutSampleLength pInData)"

text \<open>
  The conversion between two AAF integer formats: the sample lengths are \<open>6 - format\<close>.
\<close>

definition convert_format :: "nat \<Rightarrow> nat \<Rightarrow> u8 list \<Rightarrow> u8 list" where
  "convert_format in_format out_format pInData =
     convert_samples (6 - in_format) (6 - out_format) pInData"

subsection \<open>Listener\<close>

text \<open>
  \<open>openavbMapAVTPAudioRxInitCB\<close>; the set-up of the clock recovery hardware is left
  out. The result of the allocation of the statistics queue is not checked by the source:
  when it failed, the push that follows, of one zero byte or more, writes through the
  \<open>NULL\<close> storage and the call does not return, which is the result \<open>None\<close>.
\<close>

definition openavbMapAVTPAudioRxInitCB ::
  "media_q_t \<Rightarrow> malloc_t \<Rightarrow> (media_q_t \<times> log_t list) option" where
  "openavbMapAVTPAudioRxInitCB pMediaQ mallocd =
     (case pPvtMapInfo pMediaQ of
        None \<Rightarrow>
          Some (pMediaQ, [(AVB_LOG_ERROR, ''Private mapping module data not allocated.'')])
      | Some pPvtData \<Rightarrow>
          (let pf = packingFactor pPvtData;
               badPckFctrValue =
                 (sparseMode pPvtData = TS_SPARSE_MODE_ENABLED
                  \<and> (if pf = 0 then True
                       else if pf < 8 then and pf (pf - 1) \<noteq> 0
                       else pf mod 8 \<noteq> 0));
               log1 = (if badPckFctrValue
                       then [(AVB_LOG_WARNING,
                              ''Wrong packing factor value set (%d) for sparse timestamping mode'')]
                       else []);
               pvt1 = pPvtData\<lparr>isTalker := False\<rparr>
           in if temporalRedundantOffsetUsec pvt1 > 0 then
                (let (ok, q1) = AllocateCircularQueue
                                  (FreeCircularQueue (trStatsEntryTypeQueue pvt1))
                                  ((temporalRedundantOffsetPackets pvt1 + 10) mod U32_MOD) mallocd
                 in if cq_null_access q1 (temporalRedundantOffsetPackets pvt1) then None
                    else
                      (let q2 = PushBufferToCircularQueue q1 None
                                  (temporalRedundantOffsetPackets pvt1)
                       in Some (pMediaQ\<lparr>pPvtMapInfo :=
                             Some (pvt1\<lparr>trStatsEntryTypeQueue := q2, trStatsTotalFrames := 0,
                                         trStatsLostFrames := 0, trStatsNeededAvailable := 0,
                                         trStatsNeededNotAvailable := 0\<rparr>)\<rparr>,
                           log1 @ (if ok then []
                                   else [(AVB_LOG_ERROR,
                                          ''Temporal Redundancy queue not allocated.'')]))))
              else Some (pMediaQ\<lparr>pPvtMapInfo := Some pvt1\<rparr>, log1)))"

text \<open>
  The fields that \<open>openavbMapAVTPAudioRxCB\<close> decodes from the header: the format, rate,
  channel count and bit depth of the format-info word, the payload length and the event
  of the packet-info word (the payload length is also what \<open>payloadLen\<close> reads as the
  16-bit stream data length).
\<close>

definition rx_incoming_format :: "u8 list \<Rightarrow> nat" where
  "rx_incoming_format pData = unat (drop_bit 24 (from_be32 pData 16) AND 0xFF)"

definition rx_incoming_rate :: "u8 list \<Rightarrow> nat" where
  "rx_incoming_rate pData = unat (drop_bit 20 (from_be32 pData 16) AND 0x0F)"

definition rx_incoming_channels :: "u8 list \<Rightarrow> nat" where
  "rx_incoming_channels pData = unat (drop_bit 8 (from_be32 pData 16) AND 0x3FF)"

definition rx_incoming_bit_depth :: "u8 list \<Rightarrow> u8" where
  "rx_incoming_bit_depth pData = ucast (from_be32 pData 16 AND 0xFF)"

definition rx_incoming_payload_size :: "u8 list \<Rightarrow> nat" where
  "rx_incoming_payload_size pData = unat (drop_bit 16 (from_be32 pData 20) AND 0xFFFF)"

definition rx_incoming_event :: "u8 list \<Rightarrow> nat" where
  "rx_incoming_event pData = unat (drop_bit 8 (from_be32 pData 20) AND 0x0F)"

text \<open>
  \<open>dataConversionEnabled\<close>: the incoming format differs from the listener's and both
  are integer formats.
\<close>

definition rx_conversion_enabled :: "pvt_data_t \<Rightarrow> u8 list \<Rightarrow> bool" where
  "rx_conversion_enabled pPvtData pData \<longleftrightarrow>
     rx_incoming_format pData \<noteq> aaf_format pPvtData
     \<and> rx_incoming_format pData \<ge> AAF_FORMAT_INT_32 \<and> rx_incoming_format pData \<le> AAF_FORMAT_INT_16
     \<and> aaf_format pPvtData \<ge> AAF_FORMAT_INT_32 \<and> aaf_format pPvtData \<le> AAF_FORMAT_INT_16"

text \<open>
  The checks of the frame length, format, rate, channel count and bit depth, in the order
  of the source: whether all of them pass, and the errors of those that fail.
  \<open>dataLen - 24\<close> is an unsigned difference.
\<close>

definition rx_check_header ::
  "pvt_data_t \<Rightarrow> media_q_pub_map_aaf_audio_info_t \<Rightarrow> u8 list \<Rightarrow> nat \<Rightarrow> bool \<times> log_t list" where
  "rx_check_header pPvtData pPub pData pktLen =
     (let payloadLen = from_be16 pData HIDX_STREAM_DATA_LEN16;
          bad_len = (payloadLen > (pktLen + U32_MOD - TOTAL_HEADER_SIZE) mod U32_MOD);
          bad_format = (rx_incoming_format pData \<noteq> aaf_format pPvtData
                        \<and> \<not> rx_conversion_enabled pPvtData pData);
          bad_rate = (rx_incoming_rate pData \<noteq> aaf_rate pPvtData);
          bad_channels = (rx_incoming_channels pData \<noteq> audioChannels pPub);
          bad_depth = (rx_incoming_bit_depth pData = 0)
      in (\<not> bad_len \<and> \<not> bad_format \<and> \<not> bad_rate \<and> \<not> bad_channels \<and> \<not> bad_depth,
          (if bad_len then [(AVB_LOG_ERROR, ''header data len %d > actual data len %d'')] else [])
          @ (if bad_format
             then [(AVB_LOG_ERROR, ''Listener format %d doesn't match received data (%d)'')]
             else [])
          @ (if bad_rate
             then [(AVB_LOG_ERROR, ''Listener sample rate (%d) doesn't match received data (%d)'')]
             else [])
          @ (if bad_channels
             then [(AVB_LOG_ERROR, ''Listener channel count (%d) doesn't match received data (%d)'')]
             else [])
          @ (if bad_depth then [(AVB_LOG_ERROR, ''Listener bit depth (%d) not valid'')] else [])))"

text \<open>
  The check of the payload size. The first component tells that the branch without
  conversion sets \<open>dataValid = FALSE\<close>, the second that the branch with conversion
  does, on differing sample counts.
\<close>

definition rx_check_payload_size :: "pvt_data_t \<Rightarrow> u8 list \<Rightarrow> bool \<times> bool" where
  "rx_check_payload_size pPvtData pData =
     (let tmp = rx_incoming_payload_size pData;
          dataConversionEnabled = rx_conversion_enabled pPvtData pData;
          nInSampleLength = 6 - rx_incoming_format pData;
          nOutSampleLength = 6 - aaf_format pPvtData
      in (tmp \<noteq> payloadSize pPvtData \<and> \<not> dataConversionEnabled,
          tmp \<noteq> payloadSize pPvtData \<and> dataConversionEnabled
          \<and> tmp div nInSampleLength \<noteq> payloadSize pPvtData div nOutSampleLength))"

text \<open>
  All header checks of \<open>openavbMapAVTPAudioRxCB\<close>. Each failing check clears the local
  \<open>dataValid\<close>; the errors are logged while the stream is not muted yet. A differing
  event field is logged only. The result is the local \<open>dataValid\<close>,
  \<open>dataConversionEnabled\<close> and the log.
\<close>

definition rx_validate ::
  "pvt_data_t \<Rightarrow> media_q_pub_map_aaf_audio_info_t \<Rightarrow> u8 list \<Rightarrow> nat \<Rightarrow> bool \<times> bool \<times> log_t list" where
  "rx_validate pPvtData pPub pData pktLen =
     (let (header_ok, log1) = rx_check_header pPvtData pPub pData pktLen;
          (bad_size, bad_samples) = rx_check_payload_size pPvtData pData;
          bad_event = (rx_incoming_event pData \<noteq> unat (aaf_event_field pPvtData))
      in (header_ok \<and> \<not> bad_size \<and> \<not> bad_samples,
          rx_conversion_enabled pPvtData pData,
          if dataValid pPvtData then
            log1
            @ (if bad_size
               then [(AVB_LOG_ERROR, ''Listener payload size (%d) doesn't match received data (%d)'')]
               else [])
            @ (if bad_samples
               then [(AVB_LOG_ERROR,
                      ''Listener payload samples (%d) doesn't match received data samples (%d)'')]
               else [])
            @ (if bad_event
               then [(AVB_LOG_ERROR, ''Listener event field (%d) doesn't match received data (%d)'')]
               else [])
          else []))"

text \<open>
  The two adjustments that follow the checks: the listener takes over the sparse mode of
  the stream, and gives up temporal redundancy when the frame cannot hold two payloads.
\<close>

definition rx_adopt :: "pvt_data_t \<Rightarrow> u8 list \<Rightarrow> nat \<Rightarrow> pvt_data_t \<times> log_t list" where
  "rx_adopt pPvtData pData pktLen =
     (let listenerSparseMode = (sparseMode pPvtData = TS_SPARSE_MODE_ENABLED);
          streamSparseMode = ((pData ! HIDX_AVTP_HIDE7_SP) AND SP_M0_BIT \<noteq> 0);
          payloadLen = from_be16 pData HIDX_STREAM_DATA_LEN16;
          too_short = (temporalRedundantOffsetUsec pPvtData > 0
                       \<and> pktLen < TOTAL_HEADER_SIZE + 2 * payloadLen)
      in (pPvtData\<lparr>sparseMode := (if streamSparseMode then TS_SPARSE_MODE_ENABLED
                                      else TS_SPARSE_MODE_DISABLED),
                    temporalRedundantOffsetUsec :=
                      (if too_short then 0 else temporalRedundantOffsetUsec pPvtData)\<rparr>,
          (if streamSparseMode \<and> \<not> listenerSparseMode
           then [(AVB_LOG_INFO, ''Listener enabling sparse mode to match incoming stream'')]
           else [])
          @ (if \<not> streamSparseMode \<and> listenerSparseMode
             then [(AVB_LOG_INFO, ''Listener disabling sparse mode to match incoming stream'')]
             else [])
          @ (if too_short
             then [(AVB_LOG_WARNING, ''Listener disabling temporal redundancy due to lack of data'')]
             else [])))"

text \<open>
  The timestamp of an empty media queue item. The result is the item, the new value of
  \<open>mediaQItemSyncTS\<close> and the local \<open>dataValid\<close>.
\<close>

definition rx_timestamp ::
  "pvt_data_t \<Rightarrow> media_q_pub_map_aaf_audio_info_t \<Rightarrow> media_q_item_t \<Rightarrow> u8 list
   \<Rightarrow> media_q_item_t \<times> bool \<times> bool" where
  "rx_timestamp pPvtData pPub pMediaQItem pData =
     (if dataLen pMediaQItem = 0 then
        (let t1 = openavbAvtpTimeSetTimestampValid (pAvtpTime pMediaQItem)
                    ((pData ! HIDX_AVTP_HIDE7_TV1) AND 0x01 \<noteq> 0)
         in if openavbAvtpTimeTimestampIsValid t1 then
              (let t2 = openavbAvtpTimeSetToTimestamp t1 (from_be32 pData 12);
                   t3 = openavbAvtpTimeSubUSec t2 (presentationLatencyUSec pPub);
                   t4 = openavbAvtpTimeSetTimestampUncertain t3
                          ((pData ! HIDX_AVTP_HIDE7_TU1) AND 0x01 \<noteq> 0)
               in (pMediaQItem\<lparr>pAvtpTime := t4\<rparr>, True, True))
            else if \<not> mediaQItemSyncTS pPvtData then
              (pMediaQItem\<lparr>pAvtpTime := t1\<rparr>, mediaQItemSyncTS pPvtData, False)
            else (pMediaQItem\<lparr>pAvtpTime := t1\<rparr>, mediaQItemSyncTS pPvtData, True))
      else (pMediaQItem, mediaQItemSyncTS pPvtData, True))"

text \<open>
  The callback of the interface module rewrites \<open>n\<close> bytes of a buffer at an offset in
  place; without a callback the buffer stays as it is.
\<close>

definition rx_translate ::
  "media_q_pub_map_aaf_audio_info_t \<Rightarrow> nat \<Rightarrow> nat \<Rightarrow> u8 list \<Rightarrow> u8 list" where
  "rx_translate pPub off n buf =
     (case intf_rx_translate_cb pPub of
        None \<Rightarrow> buf
      | Some cb \<Rightarrow> write_at off (cb (read_at off n buf)) buf)"

text \<open>
  The payload is appended to the item, as it is or converted. The result is the item and
  the log.
\<close>

definition rx_payload ::
  "pvt_data_t \<Rightarrow> media_q_pub_map_aaf_audio_info_t \<Rightarrow> media_q_item_t \<Rightarrow> u8 list \<Rightarrow> bool
   \<Rightarrow> media_q_item_t \<times> log_t list" where
  "rx_payload pPvtData pPub pMediaQItem pData dataConversionEnabled =
     (if \<not> dataConversionEnabled then
        (let d1 = rx_translate pPub TOTAL_HEADER_SIZE (payloadSize pPvtData) pData;
             buf = write_at (dataLen pMediaQItem)
                     (read_at TOTAL_HEADER_SIZE (payloadSize pPvtData) d1) (pPubData pMediaQItem)
         in (pMediaQItem\<lparr>pPubData := buf,
                          dataLen := (dataLen pMediaQItem + payloadSize pPvtData) mod U32_MOD\<rparr>,
             []))
      else
        (let payloadLen = from_be16 pData HIDX_STREAM_DATA_LEN16;
             out = convert_format (rx_incoming_format pData) (aaf_format pPvtData)
                     (read_at TOTAL_HEADER_SIZE payloadLen pData);
             buf = write_at (dataLen pMediaQItem) out (pPubData pMediaQItem);
             buf2 = rx_translate pPub (dataLen pMediaQItem) (payloadSize pPvtData) buf
         in (pMediaQItem\<lparr>pPubData := buf2,
                          dataLen := (dataLen pMediaQItem + payloadSize pPvtData) mod U32_MOD\<rparr>,
             if length out \<noteq> payloadSize pPvtData
             then [(AVB_LOG_ERROR, ''Output not expected size (%d instead of %d)'')] else [])))"

text \<open>
  The statistics report of the redundancy part; \<open>nowNS\<close> is the time that
  \<open>CLOCK_GETTIME64\<close> returns, and the deadline is a 64-bit number of nanoseconds.
\<close>

abbreviation (input) NANOSECONDS_PER_SECOND :: nat where "NANOSECONDS_PER_SECOND \<equiv> 1000000000"

definition rx_report :: "pvt_data_t \<Rightarrow> nat \<Rightarrow> pvt_data_t \<times> log_t list" where
  "rx_report pPvtData nowNS =
     (if report_seconds pPvtData > 0 \<and> nowNS > nextReportNS pPvtData then
        (let period = (report_seconds pPvtData * NANOSECONDS_PER_SECOND) mod U64_MOD;
             next1 = (nextReportNS pPvtData + period) mod U64_MOD
         in (pPvtData\<lparr>trStatsTotalFrames := 0, trStatsLostFrames := 0,
                       trStatsNeededAvailable := 0, trStatsNeededNotAvailable := 0,
                       nextReportNS := (if nowNS > next1 then (nowNS + period) mod U64_MOD
                                        else next1)\<rparr>,
             [(AVB_LOG_INFO,
               ''Temporal Redundancy Total Frames=%u, Lost Frames=%u, Available When Needed=%u, Not Available When Needed=%u'')]))
      else (pPvtData, []))"

text \<open>
  The redundancy part of the listener: the format and the second payload slot of the
  packet go into the two queues (the data padded to the frame size), and the oldest
  entry of each is dropped. The comparison of the debug build, which changes nothing, is
  left out. This part comes last in the callback, after the \<open>dataValid\<close> flag is set and
  the packet is delivered, and it logs the statistics only: on a session whose queues
  have no storage the pushes of the source do not return, and the flag, the item and the
  mute events that the model reports for the call are those that the call had produced
  by then.
\<close>

definition rx_redundancy :: "pvt_data_t \<Rightarrow> u8 list \<Rightarrow> nat \<Rightarrow> pvt_data_t \<times> log_t list" where
  "rx_redundancy pPvtData pData nowNS =
     (let payloadLen = from_be16 pData HIDX_STREAM_DATA_LEN16;
          frameSize = temporalRedundantQueueFrameSize pPvtData;
          s1 = PushBufferToCircularQueue (trStatsEntryTypeQueue pPvtData)
                 (Some [of_nat (rx_incoming_format pData)]) 1;
          q1 = PushBufferToCircularQueue (temporalRedundantQueue pPvtData)
                 (Some (drop (TOTAL_HEADER_SIZE + payloadLen) pData)) payloadLen;
          q2 = (if payloadLen < frameSize
                then PushBufferToCircularQueue q1 None (frameSize - payloadLen) else q1);
          s2 = fst (PullBufferFromCircularQueue s1 1);
          q3 = fst (PullBufferFromCircularQueue q2 frameSize)
      in rx_report
           (pPvtData\<lparr>trStatsEntryTypeQueue := s2, temporalRedundantQueue := q3,
                      trStatsTotalFrames := (trStatsTotalFrames pPvtData + 1) mod U32_MOD\<rparr>)
           nowNS)"

text \<open>
  The body of \<open>openavbMapAVTPAudioRxCB\<close> for a valid packet: the stream is un-muted,
  the head item of the media queue is filled, and the redundancy queues are maintained.
  The result is the return value, the media queue with the private data in it, and the
  log.
\<close>

definition rx_deliver ::
  "media_q_t \<Rightarrow> pvt_data_t \<Rightarrow> u8 list \<Rightarrow> nat \<Rightarrow> bool \<Rightarrow> bool \<times> media_q_t \<times> log_t list" where
  "rx_deliver mq pPvtData pData nowNS dataConversionEnabled =
     (let log0 = (if \<not> dataValid pPvtData
                  then [(AVB_LOG_INFO, ''RX data valid, stream un-muted'')] else []);
          pvt1 = pPvtData\<lparr>dataValid := True\<rparr>
      in case openavbMediaQHeadLock (mq_free mq) of
           None \<Rightarrow> (False, mq\<lparr>pPvtMapInfo := Some pvt1\<rparr>, log0)
         | Some pMediaQItem \<Rightarrow>
             (let pPub = pPubMapInfo mq;
                  (it1, sync, valid) = rx_timestamp pvt1 pPub pMediaQItem pData;
                  pvt2 = pvt1\<lparr>mediaQItemSyncTS := sync\<rparr>;
                  (it2, log2) = (if valid
                                 then rx_payload pvt2 pPub it1 pData dataConversionEnabled
                                 else (it1, []));
                  mq1 = (if dataLen it2 < itemSize it2
                         then openavbMediaQHeadUnlock mq it2
                         else openavbMediaQHeadPush mq it2);
                  (pvt3, log3) = (if temporalRedundantOffsetUsec pvt2 > 0
                                  then rx_redundancy pvt2 pData nowNS else (pvt2, []))
              in (True, mq1\<lparr>pPvtMapInfo := Some pvt3\<rparr>, log0 @ log2 @ log3)))"

text \<open>
  \<open>openavbMapAVTPAudioRxCB\<close> on a media queue with its private data and a packet: the
  checks, the adjustments, then the delivery of a valid packet or the muting of the
  stream.
\<close>

definition rx_packet ::
  "media_q_t \<Rightarrow> pvt_data_t \<Rightarrow> u8 list \<Rightarrow> nat \<Rightarrow> nat \<Rightarrow> bool \<times> media_q_t \<times> log_t list" where
  "rx_packet mq pPvtData pData pktLen nowNS =
     (let (valid, dataConversionEnabled, log1) = rx_validate pPvtData (pPubMapInfo mq) pData pktLen;
          (pvt1, log2) = rx_adopt pPvtData pData pktLen
      in if valid then
           (let (r, mq1, log3) = rx_deliver mq pvt1 pData nowNS dataConversionEnabled
            in (r, mq1, log1 @ log2 @ log3))
         else if dataValid pvt1 then
           (False, mq\<lparr>pPvtMapInfo := Some (pvt1\<lparr>dataValid := False\<rparr>)\<rparr>,
            log1 @ log2 @ [(AVB_LOG_INFO, ''RX data invalid, stream muted'')])
         else (False, mq\<lparr>pPvtMapInfo := Some pvt1\<rparr>, log1 @ log2))"

text \<open>
  The callback itself; \<open>None\<close> is a \<open>NULL\<close> argument. \<open>pktLen\<close> is the argument
  \<open>dataLen\<close> and \<open>nowNS\<close> the time of the call.
\<close>

definition openavbMapAVTPAudioRxCB ::
  "media_q_t option \<Rightarrow> u8 list option \<Rightarrow> nat \<Rightarrow> nat \<Rightarrow> bool \<times> media_q_t option \<times> log_t list" where
  "openavbMapAVTPAudioRxCB pMediaQ pData pktLen nowNS =
     (case pMediaQ of
        None \<Rightarrow> (False, None, [])
      | Some mq \<Rightarrow>
          (case pData of
             None \<Rightarrow> (False, Some mq, [])
           | Some d \<Rightarrow>
               (case pPvtMapInfo mq of
                  None \<Rightarrow>
                    (False, Some mq,
                     [(AVB_LOG_ERROR, ''Private mapping module data not allocated.'')])
                | Some pPvtData \<Rightarrow>
                    (let (r, mq1, logs) = rx_packet mq pPvtData d pktLen nowNS
                     in (r, Some mq1, logs)))))"

subsection \<open>Loss concealer\<close>

text \<open>
  One pass of the \<open>while (numLost-- > 0)\<close> loop of \<open>openavbMapAVTPAudioRxLostCB\<close>.
  Nothing happens when the head lock returns \<open>NULL\<close>. \<open>s_audioBuffer\<close> holds the frame
  just pulled from the queue. The loop uses the two queues without asking
  \<open>CircularQueueIsValid\<close>; the result \<open>None\<close> is the pass that reads or writes through
  the \<open>NULL\<close> storage of one of them and does not return.
\<close>

definition rx_lost_fill ::
  "pvt_data_t \<Rightarrow> media_q_pub_map_aaf_audio_info_t \<Rightarrow> media_q_item_t \<Rightarrow> nat
   \<Rightarrow> (circular_queue_t \<times> u8 list \<times> log_t list) option" where
  "rx_lost_fill pPvtData pPub pMediaQItem dataFormat =
     (let frameSize = temporalRedundantQueueFrameSize pPvtData;
          psize = payloadSize pPvtData;
          q0 = temporalRedundantQueue pPvtData
      in if dataFormat \<noteq> AAF_FORMAT_UNSPEC \<and> dataFormat \<noteq> aaf_format pPvtData
            \<and> dataFormat \<ge> AAF_FORMAT_INT_32 \<and> dataFormat \<le> AAF_FORMAT_INT_16
            \<and> aaf_format pPvtData \<ge> AAF_FORMAT_INT_32 \<and> aaf_format pPvtData \<le> AAF_FORMAT_INT_16
         then
           (if cq_null_access q0 frameSize then None
            else
              (let payloadLen = (6 - dataFormat) * audioChannels pPub * framesPerPacket pPub;
                   (q1, s_audioBuffer) = PullBufferFromCircularQueue q0 frameSize;
                   out = convert_format dataFormat (aaf_format pPvtData)
                           (take payloadLen s_audioBuffer);
                   buf = write_at (dataLen pMediaQItem) out (pPubData pMediaQItem)
               in Some (q1, rx_translate pPub (dataLen pMediaQItem) psize buf,
                        if length out \<noteq> psize
                        then [(AVB_LOG_ERROR, ''Output not expected size (%d instead of %d)'')]
                        else [])))
         else
           (if cq_null_access q0 psize then None
            else
              (let (q1, bytes) = PullBufferFromCircularQueue q0 psize;
                   buf = write_at (dataLen pMediaQItem) bytes (pPubData pMediaQItem);
                   q2 = (if psize < frameSize
                         then fst (PullBufferFromCircularQueue q1 (frameSize - psize)) else q1)
               in Some (q2, rx_translate pPub (dataLen pMediaQItem) psize buf, []))))"

definition rx_lost_one ::
  "media_q_t \<Rightarrow> pvt_data_t \<Rightarrow> (media_q_t \<times> pvt_data_t \<times> log_t list) option" where
  "rx_lost_one mq pPvtData =
     (case openavbMediaQHeadLock (mq_free mq) of
        None \<Rightarrow> Some (mq, pPvtData, [])
      | Some pMediaQItem \<Rightarrow>
          if cq_null_access (trStatsEntryTypeQueue pPvtData) 1 then None
          else
            (let it1 = pMediaQItem\<lparr>pAvtpTime :=
                         openavbAvtpTimeSetTimestampValid (pAvtpTime pMediaQItem) False\<rparr>;
                 (s1, fmt) = PullBufferFromCircularQueue (trStatsEntryTypeQueue pPvtData) 1;
                 dataFormat = (case fmt of [] \<Rightarrow> 0 | b # _ \<Rightarrow> unat b)
             in case rx_lost_fill pPvtData (pPubMapInfo mq) it1 dataFormat of
                  None \<Rightarrow> None
                | Some (q1, buf, log1) \<Rightarrow>
                    if cq_null_access q1 (temporalRedundantQueueFrameSize pPvtData) then None
                    else
                      (let it2 = it1\<lparr>pPubData := buf,
                                   dataLen := (dataLen it1 + payloadSize pPvtData) mod U32_MOD\<rparr>;
                           mq1 = (if dataLen it2 < itemSize it2
                                  then openavbMediaQHeadUnlock mq it2
                                  else openavbMediaQHeadPush mq it2);
                           s2 = PushBufferToCircularQueue s1 (Some [of_nat AAF_FORMAT_UNSPEC]) 1;
                           q2 = PushBufferToCircularQueue q1 None
                                  (temporalRedundantQueueFrameSize pPvtData)
                       in Some (mq1,
                            pPvtData\<lparr>trStatsTotalFrames :=
                                        (trStatsTotalFrames pPvtData + 1) mod U32_MOD,
                                      trStatsLostFrames :=
                                        (trStatsLostFrames pPvtData + 1) mod U32_MOD,
                                      trStatsNeededNotAvailable :=
                                        (if dataFormat = AAF_FORMAT_UNSPEC
                                         then (trStatsNeededNotAvailable pPvtData + 1) mod U32_MOD
                                         else trStatsNeededNotAvailable pPvtData),
                                      trStatsNeededAvailable :=
                                        (if dataFormat = AAF_FORMAT_UNSPEC
                                         then trStatsNeededAvailable pPvtData
                                         else (trStatsNeededAvailable pPvtData + 1) mod U32_MOD),
                                      trStatsEntryTypeQueue := s2,
                                      temporalRedundantQueue := q2\<rparr>,
                            log1))))"

fun rx_lost_loop ::
  "nat \<Rightarrow> media_q_t \<Rightarrow> pvt_data_t \<Rightarrow> log_t list
   \<Rightarrow> (media_q_t \<times> pvt_data_t \<times> log_t list) option" where
  "rx_lost_loop 0 mq pPvtData logs = Some (mq, pPvtData, logs)"
| "rx_lost_loop (Suc numLost) mq pPvtData logs =
     (case rx_lost_one mq pPvtData of
        None \<Rightarrow> None
      | Some (mq1, pvt1, log1) \<Rightarrow> rx_lost_loop numLost mq1 pvt1 (logs @ log1))"

text \<open>
  \<open>openavbMapAVTPAudioRxLostCB\<close>; the argument \<open>None\<close> is the \<open>NULL\<close> media queue.
  The result is the return value, the media queue and the log of a call that returns,
  and \<open>None\<close> for a call that does not: the loop went through the \<open>NULL\<close> storage of a
  queue.
\<close>

definition openavbMapAVTPAudioRxLostCB ::
  "media_q_t option \<Rightarrow> nat \<Rightarrow> (bool \<times> media_q_t option \<times> log_t list) option" where
  "openavbMapAVTPAudioRxLostCB pMediaQ numLost =
     (case pMediaQ of
        None \<Rightarrow> Some (False, None, [])
      | Some mq \<Rightarrow>
          (case pPvtMapInfo mq of
             None \<Rightarrow> Some (False, Some mq, [])
           | Some pPvtData \<Rightarrow>
               if temporalRedundantOffsetUsec pPvtData > 0 \<and> dataValid pPvtData then
                 (case rx_lost_loop numLost mq pPvtData [] of
                    None \<Rightarrow> None
                  | Some (mq1, pvt1, logs) \<Rightarrow>
                      Some (False, Some (mq1\<lparr>pPvtMapInfo := Some pvt1\<rparr>), logs))
               else Some (False, Some mq, [])))"

subsection \<open>Runs of the callbacks\<close>

text \<open>
  A run of the listener is a sequence of calls of the receive callback and of the loss
  callback on one session. Between two calls the other users of the media queue may have
  taken and returned items, so every step states the ready and the free items that the
  call finds. The run collects the log. A loss callback that does not return adds
  nothing to the log and leaves the session as it found it: the run up to that call is
  the whole run.
\<close>

datatype listener_call_t = CALL_RX "u8 list option" nat nat | CALL_RX_LOST nat

definition listener_call :: "media_q_t \<Rightarrow> listener_call_t \<Rightarrow> media_q_t \<times> log_t list" where
  "listener_call mq c =
     (case c of
        CALL_RX pData pktLen nowNS \<Rightarrow>
          (case openavbMapAVTPAudioRxCB (Some mq) pData pktLen nowNS of
             (r, mq1, logs) \<Rightarrow> (case mq1 of None \<Rightarrow> mq | Some m \<Rightarrow> m, logs))
      | CALL_RX_LOST numLost \<Rightarrow>
          (case openavbMapAVTPAudioRxLostCB (Some mq) numLost of
             None \<Rightarrow> (mq, [])
           | Some (r, mq1, logs) \<Rightarrow> (case mq1 of None \<Rightarrow> mq | Some m \<Rightarrow> m, logs)))"

fun listener_run ::
  "media_q_t \<Rightarrow> (media_q_item_t list \<times> media_q_item_t list \<times> listener_call_t) list
   \<Rightarrow> media_q_t \<times> log_t list" where
  "listener_run mq [] = (mq, [])"
| "listener_run mq ((ready, free, c) # steps) =
     (let (mq1, log1) = listener_call (mq\<lparr>mq_ready := ready, mq_free := free\<rparr>) c;
          (mq2, log2) = listener_run mq1 steps
      in (mq2, log1 @ log2))"

text \<open>The \<open>dataValid\<close> flag of the session of a media queue.\<close>

definition session_dataValid :: "media_q_t \<Rightarrow> bool" where
  "session_dataValid mq = (case pPvtMapInfo mq of None \<Rightarrow> False | Some p \<Rightarrow> dataValid p)"

text \<open>
  The two log events of the mute state, the events of a log that are one of them, and
  what it means for them to alternate from a state of the flag on: from \<open>True\<close> the next
  event is "muted", from \<open>False\<close> it is "un-muted", and each event flips the state.
\<close>

abbreviation (input) LOG_MUTED :: log_t where
  "LOG_MUTED \<equiv> (AVB_LOG_INFO, ''RX data invalid, stream muted'')"

abbreviation (input) LOG_UNMUTED :: log_t where
  "LOG_UNMUTED \<equiv> (AVB_LOG_INFO, ''RX data valid, stream un-muted'')"

definition mute_events :: "log_t list \<Rightarrow> log_t list" where
  "mute_events logs = filter (\<lambda>e. e = LOG_MUTED \<or> e = LOG_UNMUTED) logs"

fun alternating :: "bool \<Rightarrow> log_t list \<Rightarrow> bool" where
  "alternating v [] = True"
| "alternating v (e # es) = (e = (if v then LOG_MUTED else LOG_UNMUTED) \<and> alternating (\<not> v) es)"




subsection \<open>Conditions of the talker properties\<close>

text \<open>
  The talker's loop takes its data from the first ready item that holds data; items with
  \<open>dataLen = 0\<close> are pulled and passed over.
\<close>

definition tx_has_data :: "media_q_item_t \<Rightarrow> bool" where
  "tx_has_data it \<longleftrightarrow> 0 < dataLen it"

text \<open>
  A step of a talker run that keeps to the contract of the callback: the packet buffer has
  the \<open>*dataLen\<close> bytes that the caller announces, these include the 24 header bytes,
  and \<open>*dataLen\<close> is a \<open>U32\<close>; in every ready item the read index is not beyond
  \<open>dataLen\<close>, which is not beyond the item's buffer and is a \<open>U32\<close>. Outside of it the
  C code writes or reads beyond a buffer.
\<close>

definition tx_step_ok :: "media_q_item_t list \<times> u8 list \<times> nat \<Rightarrow> bool" where
  "tx_step_ok step \<longleftrightarrow>
     (case step of (ready, pData, pktLen) \<Rightarrow>
        24 \<le> pktLen \<and> pktLen \<le> length pData \<and> pktLen < U32_MOD
        \<and> (\<forall>it \<in> set ready. readIdx it \<le> dataLen it \<and> dataLen it \<le> length (pPubData it)
                              \<and> dataLen it < U32_MOD))"





subsection \<open>Example sessions\<close>

text \<open>
  Concrete sessions on which the theorems below are exercised: 16-bit integer stereo
  audio at 48 kHz and at 44.1 kHz, as \<open>openavbMapAVTPAudioInitialize\<close> leaves the
  private data and with a transmit interval of 8000 packets per second configured.
\<close>

definition example_pub :: "nat \<Rightarrow> media_q_pub_map_aaf_audio_info_t" where
  "example_pub rate =
     \<lparr>audioRate = rate, audioType = AVB_AUDIO_TYPE_INT,
      audioBitDepth = AVB_AUDIO_BIT_DEPTH_16BIT, audioChannels = 2, framesPerPacket = 0,
      packetSampleSizeBytes = 0, packetFrameSizeBytes = 0, itemSampleSizeBytes = 0,
      itemFrameSizeBytes = 0, pub_packingFactor = 0, framesPerItem = 0, pub_itemSize = 0,
      presentationLatencyUSec = 0, intf_rx_translate_cb = None\<rparr>"

definition example_pvt :: pvt_data_t where
  "example_pvt = (openavbMapAVTPAudioInitialize_pvt 2000)\<lparr>txInterval := 8000\<rparr>"

definition example_mq :: "nat \<Rightarrow> media_q_t" where
  "example_mq rate =
     \<lparr>pPubMapInfo = example_pub rate, pPvtMapInfo = Some example_pvt,
      mq_ready = [], mq_free = []\<rparr>"

text \<open>
  The example session after general initialisation without redundancy, and packets for
  it: a valid one with 24 bytes of 16-bit samples, the same with the format field set to
  32-bit float, and one with 36 bytes of 24-bit samples.
\<close>

definition example_session :: media_q_t where
  "example_session = fst (openavbMapAVTPAudioGenInitCB (example_mq 48000) None)"

definition example_packet :: "u8 list" where
  "example_packet =
     [2, 1, 0, 0, 0, 0, 0, 0, 0, 0, 0, 0, 0, 0, 0, 7, 4, 0x50, 2, 16, 0, 24, 0, 0]
     @ map of_nat [0..<24]"

definition example_bad_packet :: "u8 list" where
  "example_bad_packet = example_packet[16 := 1]"

definition example_int24_packet :: "u8 list" where
  "example_int24_packet =
     [2, 1, 0, 0, 0, 0, 0, 0, 0, 0, 0, 0, 0, 0, 0, 7, 3, 0x50, 2, 24, 0, 36, 0, 0]
     @ map of_nat [0..<36]"

text \<open>
  Two listeners with temporal redundancy configured, after general and receive
  initialisation. With an offset of 125 microseconds (six samples at 48 kHz, one packet)
  the redundancy queue holds three frames of 48 bytes, one of them filled with zeros. With
  an offset of 10 microseconds the offset in samples is zero: general initialisation
  allocates no redundancy queue, but it leaves the offset positive and sets \<open>dataValid\<close>.
\<close>

definition example_redundant_listener :: media_q_t where
  "example_redundant_listener =
     fst (the (openavbMapAVTPAudioRxInitCB
       (fst (openavbMapAVTPAudioGenInitCB
          ((example_mq 48000)\<lparr>pPvtMapInfo :=
             Some (example_pvt\<lparr>temporalRedundantOffsetUsec := 125\<rparr>)\<rparr>)
          (Some (\<lambda>i. 0xAA))))
       (Some (\<lambda>i. 0xAA))))"

definition example_short_offset_session :: media_q_t where
  "example_short_offset_session =
     fst (the (openavbMapAVTPAudioRxInitCB
       (fst (openavbMapAVTPAudioGenInitCB
          ((example_mq 48000)\<lparr>pPvtMapInfo :=
             Some (example_pvt\<lparr>temporalRedundantOffsetUsec := 10\<rparr>)\<rparr>)
          (Some (\<lambda>i. 0))))
       (Some (\<lambda>i. 0))))"

text \<open>
  For the talker: a media queue item with \<open>n\<close> bytes counting up from \<open>b\<close> and a
  valid timestamp, and a packet buffer of \<open>len\<close> bytes whose header carries the sequence
  number \<open>seq\<close>. The talker session with sparse mode configured; and a talker with a
  redundancy offset of 125 microseconds at 8 kHz, which is one sample and one packet: the
  payload has 4 bytes, the frame of the queue 8, its storage 24. Its run has a call
  that finds no item between two that find one.
\<close>

definition example_item :: "nat \<Rightarrow> nat \<Rightarrow> media_q_item_t" where
  "example_item b n =
     \<lparr>pPubData = map of_nat [b..<b + n], dataLen = n, itemSize = n, readIdx = 0,
      pAvtpTime = \<lparr>timeNsec = 1000000, bTimestampValid = True, bTimestampUncertain = False\<rparr>\<rparr>"

definition example_buffer :: "u8 \<Rightarrow> nat \<Rightarrow> u8 list" where
  "example_buffer seq len = [0, 0, seq, 0] @ replicate (len - 4) 0"

definition example_sparse_session :: media_q_t where
  "example_sparse_session =
     fst (openavbMapAVTPAudioTxInitCB (fst (openavbMapAVTPAudioGenInitCB
       ((example_mq 48000)\<lparr>pPvtMapInfo :=
          Some (example_pvt\<lparr>sparseMode := TS_SPARSE_MODE_ENABLED\<rparr>)\<rparr>) None)))"




text \<open>The mute events of a change of the \<open>dataValid\<close> flag from \<open>v\<close> to \<open>v'\<close>.\<close>

definition mute_transition :: "bool \<Rightarrow> bool \<Rightarrow> log_t list" where
  "mute_transition v v' =
     (if v \<and> \<not> v' then [LOG_MUTED] else if \<not> v \<and> v' then [LOG_UNMUTED] else [])"

section \<open>Properties\<close>

subsection \<open>Circular queue: compare\<close>

text \<open>
  C6. The compare operation should return true exactly when the next \<open>n\<close> bytes at the
  tail equal \<open>src[0..n)\<close>. On a queue of capacity 4 whose tail is at offset 1, the next four
  bytes are 1, 2, 3, 9 (three up to the end of the storage, one from its start). Comparing
  with the buffer 1, 2, 3, 9 nevertheless returns false: the second phase compares the
  storage's first byte with \<open>src[1]\<close> instead of \<open>src[3]\<close>.
\<close>

theorem C6_compare_wraparound_fails:
  "cq_next_bytes \<lparr>queueStorage = [9, 1, 2, 3], queueHead = 1, queueTail = 1, queueSize = 4\<rparr> 4
     = [1, 2, 3, 9]
   \<and> CompareBufferToCircularQueue
       \<lparr>queueStorage = [9, 1, 2, 3], queueHead = 1, queueTail = 1, queueSize = 4\<rparr>
       (Some [1, 2, 3, 9]) 4 = False"
  by (simp add: cq_next_bytes_def CompareBufferToCircularQueue_def read_at_def)

subsection \<open>Size calculator: frames per packet\<close>

lemma ceiling_div_nat:
  fixes a b :: nat
  assumes "0 < b"
  shows "\<lceil>real a / real b\<rceil> = int (if a mod b = 0 then a div b else a div b + 1)"
proof -
  have "\<lceil>real a / real b\<rceil> = \<lceil>of_int (int a) / of_int (int b) :: real\<rceil>" by simp
  also have "\<dots> = - (- int a div int b)" by (rule ceiling_divide_eq_div)
  also have "\<dots> = int (if a mod b = 0 then a div b else a div b + 1)"
  proof (cases "a mod b = 0")
    case True
    then have "int b dvd int a" by (metis int_dvd_int_iff mod_eq_0_iff_dvd)
    then have "- int a div int b = - (int a div int b)" by (simp add: dvd_neg_div)
    with True show ?thesis by (simp add: zdiv_int)
  next
    case False
    then have "\<not> int b dvd int a" by (metis int_dvd_int_iff mod_eq_0_iff_dvd)
    then have "- int a div int b = - (int a div int b) - 1"
      using assms by (simp add: zdiv_zminus1_eq_if mod_eq_0_iff_dvd)
    with False show ?thesis by (simp add: zdiv_int)
  qed
  finally show ?thesis .
qed

lemma succ_div_in_range:
  fixes a b :: nat
  assumes "0 < b" "a < U32_MOD" "a mod b \<noteq> 0"
  shows "(a div b + 1) mod U32_MOD = a div b + 1"
proof -
  have "b \<noteq> 1" using assms(3) by auto
  then have "2 \<le> b" using assms(1) by simp
  then have "a div b \<le> a div 2" by (simp add: div_le_mono2)
  then have "a div b + 1 < U32_MOD" using assms(2) by simp
  then show ?thesis by simp
qed

lemma x_calculateSizes_rate_txInterval:
  "txInterval (fst (x_calculateSizes_rate r pvt)) = txInterval pvt"
  by (simp add: x_calculateSizes_rate_def Let_def)

lemma x_calculateSizes_rate_no_warning:
  "(AVB_LOG_WARNING, m) \<notin> set (snd (x_calculateSizes_rate r pvt))"
  by (simp add: x_calculateSizes_rate_def Let_def)

lemma x_calculateSizes_format_keeps:
  "audioRate (fst (x_calculateSizes_format pub pvt)) = audioRate pub"
  "txInterval (fst (snd (x_calculateSizes_format pub pvt))) = txInterval pvt"
  "(AVB_LOG_WARNING, m) \<notin> set (snd (snd (x_calculateSizes_format pub pvt)))"
  by (simp_all add: x_calculateSizes_format_def)

lemma x_calculateSizes_sizes_keeps:
  "framesPerPacket (fst (x_calculateSizes_sizes pub pvt)) = framesPerPacket pub"
  "(AVB_LOG_WARNING, m) \<notin> set (snd (snd (x_calculateSizes_sizes pub pvt)))"
  by (simp_all add: x_calculateSizes_sizes_def Let_def)

lemma x_calculateSizes_frames_result:
  "framesPerPacket (fst (x_calculateSizes_frames pub pvt)) =
     (if audioRate pub mod txInterval pvt \<noteq> 0
      then (audioRate pub div txInterval pvt + 1) mod U32_MOD
      else audioRate pub div txInterval pvt)"
  "snd (x_calculateSizes_frames pub pvt) =
     (if audioRate pub mod txInterval pvt \<noteq> 0
      then [(AVB_LOG_WARNING, ''Audio rate (%d) is not integer multiple of TX interval (%d)'')]
      else [])"
  by (simp_all add: x_calculateSizes_frames_def Let_def)

lemma x_calculateSizes_framesPerPacket:
  assumes "pPvtMapInfo mq = Some pvt"
  shows "framesPerPacket (pPubMapInfo (fst (x_calculateSizes mq))) =
     (if audioRate (pPubMapInfo mq) mod txInterval pvt \<noteq> 0
      then (audioRate (pPubMapInfo mq) div txInterval pvt + 1) mod U32_MOD
      else audioRate (pPubMapInfo mq) div txInterval pvt)"
proof -
  obtain pvt1 log1 where r: "x_calculateSizes_rate (audioRate (pPubMapInfo mq)) pvt = (pvt1, log1)"
    by (cases "x_calculateSizes_rate (audioRate (pPubMapInfo mq)) pvt")
  obtain pub3 pvt3 log3 where f: "x_calculateSizes_format (pPubMapInfo mq) pvt1 = (pub3, pvt3, log3)"
    by (cases "x_calculateSizes_format (pPubMapInfo mq) pvt1")
  obtain pub5 log5 where fr: "x_calculateSizes_frames pub3 pvt3 = (pub5, log5)"
    by (cases "x_calculateSizes_frames pub3 pvt3")
  obtain pub7 pvt7 log7 where sz: "x_calculateSizes_sizes pub5 pvt3 = (pub7, pvt7, log7)"
    by (cases "x_calculateSizes_sizes pub5 pvt3")
  have t1: "txInterval pvt1 = txInterval pvt"
    using x_calculateSizes_rate_txInterval [of "audioRate (pPubMapInfo mq)" pvt] r by simp
  have a3: "audioRate pub3 = audioRate (pPubMapInfo mq)" and t3: "txInterval pvt3 = txInterval pvt1"
    using x_calculateSizes_format_keeps(1,2) [of "pPubMapInfo mq" pvt1] f by simp_all
  have f5: "framesPerPacket pub5 = (if audioRate pub3 mod txInterval pvt3 \<noteq> 0
      then (audioRate pub3 div txInterval pvt3 + 1) mod U32_MOD
      else audioRate pub3 div txInterval pvt3)"
    using x_calculateSizes_frames_result(1) [of pub3 pvt3] fr by simp
  have f7: "framesPerPacket pub7 = framesPerPacket pub5"
    using x_calculateSizes_sizes_keeps(1) [of pub5 pvt3] sz by simp
  have "pPubMapInfo (fst (x_calculateSizes mq)) = pub7"
    using assms r f fr sz by (simp add: x_calculateSizes_def)
  then show ?thesis using f7 f5 a3 t3 t1 by simp
qed

lemma x_calculateSizes_warning:
  assumes "pPvtMapInfo mq = Some pvt"
  shows "(AVB_LOG_WARNING, ''Audio rate (%d) is not integer multiple of TX interval (%d)'')
           \<in> set (snd (x_calculateSizes mq))
         \<longleftrightarrow> audioRate (pPubMapInfo mq) mod txInterval pvt \<noteq> 0"
proof -
  let ?w = "''Audio rate (%d) is not integer multiple of TX interval (%d)''"
  obtain pvt1 log1 where r: "x_calculateSizes_rate (audioRate (pPubMapInfo mq)) pvt = (pvt1, log1)"
    by (cases "x_calculateSizes_rate (audioRate (pPubMapInfo mq)) pvt")
  obtain pub3 pvt3 log3 where f: "x_calculateSizes_format (pPubMapInfo mq) pvt1 = (pub3, pvt3, log3)"
    by (cases "x_calculateSizes_format (pPubMapInfo mq) pvt1")
  obtain pub5 log5 where fr: "x_calculateSizes_frames pub3 pvt3 = (pub5, log5)"
    by (cases "x_calculateSizes_frames pub3 pvt3")
  obtain pub7 pvt7 log7 where sz: "x_calculateSizes_sizes pub5 pvt3 = (pub7, pvt7, log7)"
    by (cases "x_calculateSizes_sizes pub5 pvt3")
  have t1: "txInterval pvt1 = txInterval pvt"
    using x_calculateSizes_rate_txInterval [of "audioRate (pPubMapInfo mq)" pvt] r by simp
  have a3: "audioRate pub3 = audioRate (pPubMapInfo mq)" and t3: "txInterval pvt3 = txInterval pvt1"
    using x_calculateSizes_format_keeps(1,2) [of "pPubMapInfo mq" pvt1] f by simp_all
  have n1: "(AVB_LOG_WARNING, ?w) \<notin> set log1"
    using x_calculateSizes_rate_no_warning [of ?w "audioRate (pPubMapInfo mq)" pvt] r by simp
  have n3: "(AVB_LOG_WARNING, ?w) \<notin> set log3"
    using x_calculateSizes_format_keeps(3) [of ?w "pPubMapInfo mq" pvt1] f by simp
  have n7: "(AVB_LOG_WARNING, ?w) \<notin> set log7"
    using x_calculateSizes_sizes_keeps(2) [of ?w pub5 pvt3] sz by simp
  have l5: "log5 = (if audioRate pub3 mod txInterval pvt3 \<noteq> 0 then [(AVB_LOG_WARNING, ?w)] else [])"
    using x_calculateSizes_frames_result(2) [of pub3 pvt3] fr by simp
  have "snd (x_calculateSizes mq) =
          log1 @ [(AVB_LOG_INFO, ''aaf_rate=%d (%dKhz)'')] @ log3 @
          [(AVB_LOG_INFO, ''aaf_format=%d (%s%d)'')] @ log5 @
          [(AVB_LOG_INFO, ''Frames/packet = %d'')] @ log7"
    using assms r f fr sz by (simp add: x_calculateSizes_def)
  then show ?thesis using n1 n3 n7 l5 a3 t3 t1 by simp
qed

text \<open>
  C8. For every configured rate and every transmit interval above zero, the size
  calculator sets \<open>framesPerPacket\<close> to the ceiling of rate / txInterval: the quotient
  when the interval divides the rate, the quotient plus one otherwise, and the warning is
  logged exactly in the second case. (The rate is a C integer, so below \<open>2^32\<close>.)
\<close>

theorem C8_framesPerPacket_is_ceiling:
  assumes "pPvtMapInfo pMediaQ = Some pPvtData"
    and "0 < txInterval pPvtData"
    and "audioRate (pPubMapInfo pMediaQ) < U32_MOD"
  shows "int (framesPerPacket (pPubMapInfo (fst (x_calculateSizes pMediaQ))))
           = \<lceil>real (audioRate (pPubMapInfo pMediaQ)) / real (txInterval pPvtData)\<rceil>
       \<and> framesPerPacket (pPubMapInfo (fst (x_calculateSizes pMediaQ)))
           = (if audioRate (pPubMapInfo pMediaQ) mod txInterval pPvtData = 0
              then audioRate (pPubMapInfo pMediaQ) div txInterval pPvtData
              else audioRate (pPubMapInfo pMediaQ) div txInterval pPvtData + 1)
       \<and> ((AVB_LOG_WARNING, ''Audio rate (%d) is not integer multiple of TX interval (%d)'')
              \<in> set (snd (x_calculateSizes pMediaQ))
            \<longleftrightarrow> audioRate (pPubMapInfo pMediaQ) mod txInterval pPvtData \<noteq> 0)"
  using x_calculateSizes_framesPerPacket [OF assms(1)] x_calculateSizes_warning [OF assms(1)]
    ceiling_div_nat [OF assms(2), of "audioRate (pPubMapInfo pMediaQ)"]
    succ_div_in_range [OF assms(2) assms(3)]
  by simp

theorem C8_framesPerPacket_witness:
  "framesPerPacket (pPubMapInfo (fst (x_calculateSizes (example_mq 48000)))) = 6
   \<and> (AVB_LOG_WARNING, ''Audio rate (%d) is not integer multiple of TX interval (%d)'')
        \<notin> set (snd (x_calculateSizes (example_mq 48000)))
   \<and> framesPerPacket (pPubMapInfo (fst (x_calculateSizes (example_mq 44100)))) = 6
   \<and> (AVB_LOG_WARNING, ''Audio rate (%d) is not integer multiple of TX interval (%d)'')
        \<in> set (snd (x_calculateSizes (example_mq 44100)))"
proof -
  have p: "pPvtMapInfo (example_mq r) = Some example_pvt" for r
    by (simp add: example_mq_def)
  have t: "0 < txInterval example_pvt"
    by (simp add: example_pvt_def)
  have a: "audioRate (pPubMapInfo (example_mq 48000)) < U32_MOD"
    "audioRate (pPubMapInfo (example_mq 44100)) < U32_MOD"
    by (simp_all add: example_mq_def example_pub_def)
  show ?thesis
    using C8_framesPerPacket_is_ceiling [OF p t a(1)] C8_framesPerPacket_is_ceiling [OF p t a(2)]
    by (simp add: example_mq_def example_pub_def example_pvt_def)
qed

subsection \<open>Example session\<close>

lemmas example_defs = example_mq_def example_pub_def example_pvt_def
  openavbMapAVTPAudioInitialize_pvt_def calloc_pvt_data_def calloc_circular_queue_def

lemma example_session_pvt:
  "pPvtMapInfo example_session =
     Some (example_pvt\<lparr>aaf_rate := 5, aaf_format := 4, aaf_bit_depth := 16, payloadSize := 24,
             payloadSizeMaxTalker := 24, payloadSizeMaxListener := 96,
             temporalRedundantQueueFrameSize := 48, dataValid := True\<rparr>)"
  "pPubMapInfo example_session =
     (example_pub 48000)\<lparr>framesPerPacket := 6, packetSampleSizeBytes := 2,
        packetFrameSizeBytes := 4, itemSampleSizeBytes := 2, itemFrameSizeBytes := 4,
        pub_packingFactor := 1, framesPerItem := 6, pub_itemSize := 24\<rparr>"
  by (simp_all add: example_session_def openavbMapAVTPAudioGenInitCB_def x_calculateSizes_def
      example_defs x_calculateSizes_rate_def x_calculateSizes_format_def
      x_calculateSizes_frames_def x_calculateSizes_sizes_def offset_samples_def Let_def
      openavbMediaQSetSize_def)

lemma example_session_dataValid: "session_dataValid example_session"
  by (simp add: session_dataValid_def example_session_pvt)

subsection \<open>Loss callback: return value\<close>

text \<open>
  The only exit of the loss callback is \<open>return FALSE\<close>: a call that returns, returns
  false, also after it has written concealment data into an item, as on the listener with
  one packet of redundancy, where the first lost packet is replaced by the 24 zero bytes
  that general initialisation queued.
\<close>

lemma rx_lost_returns_false:
  "openavbMapAVTPAudioRxLostCB pMediaQ numLost = Some (r, mq', logs) \<Longrightarrow> r = False"
  by (auto simp add: openavbMapAVTPAudioRxLostCB_def split: option.splits if_splits)

lemma example_concealment:
  "map_option (\<lambda>(r, mq, l). (r, map_option (\<lambda>m. map dataLen (mq_ready m)) mq))
     (openavbMapAVTPAudioRxLostCB (Some example_redundant_listener) 1)
   = Some (False, Some [24])"
  by code_simp

text \<open>
  Pull leaves the storage of a queue as it is and push does not empty it. So the call
  returns, for every number of lost packets, on a session whose two queues have storage.
\<close>

lemma write_at_not_Nil: "buf \<noteq> [] \<Longrightarrow> write_at off src buf \<noteq> []"
  by (cases "off = 0") (auto simp add: write_at_def)

lemma pull_keeps_storage:
  "queueStorage (fst (PullBufferFromCircularQueue q n)) = queueStorage q"
  by (simp add: PullBufferFromCircularQueue_def Let_def)

lemma push_keeps_storage_allocated:
  "queueStorage q \<noteq> [] \<Longrightarrow> queueStorage (PushBufferToCircularQueue q d n) \<noteq> []"
  by (simp add: PushBufferToCircularQueue_def Let_def write_at_not_Nil)

lemma rx_lost_fill_returns:
  assumes "queueStorage (temporalRedundantQueue p) \<noteq> []"
  shows "\<exists>q buf l. rx_lost_fill p pub it f = Some (q, buf, l)
           \<and> queueStorage q = queueStorage (temporalRedundantQueue p)"
proof -
  have n: "\<not> cq_null_access (temporalRedundantQueue p) k" for k
    using assms by (simp add: cq_null_access_def)
  obtain qa ba where a: "PullBufferFromCircularQueue (temporalRedundantQueue p)
                           (temporalRedundantQueueFrameSize p) = (qa, ba)"
    by (cases "PullBufferFromCircularQueue (temporalRedundantQueue p)
                 (temporalRedundantQueueFrameSize p)")
  obtain qb bb where b: "PullBufferFromCircularQueue (temporalRedundantQueue p) (payloadSize p)
                           = (qb, bb)"
    by (cases "PullBufferFromCircularQueue (temporalRedundantQueue p) (payloadSize p)")
  have sa: "queueStorage qa = queueStorage (temporalRedundantQueue p)"
    using pull_keeps_storage [of "temporalRedundantQueue p" "temporalRedundantQueueFrameSize p"] a
    by simp
  have sb: "queueStorage qb = queueStorage (temporalRedundantQueue p)"
    using pull_keeps_storage [of "temporalRedundantQueue p" "payloadSize p"] b by simp
  show ?thesis
    unfolding rx_lost_fill_def Let_def using n a b sa sb
    by (simp add: pull_keeps_storage)
qed

lemma rx_lost_one_returns:
  assumes "queueStorage (temporalRedundantQueue p) \<noteq> []"
    and "queueStorage (trStatsEntryTypeQueue p) \<noteq> []"
  shows "\<exists>mq' p' l. rx_lost_one mq p = Some (mq', p', l)
           \<and> queueStorage (temporalRedundantQueue p') \<noteq> []
           \<and> queueStorage (trStatsEntryTypeQueue p') \<noteq> []"
proof (cases "openavbMediaQHeadLock (mq_free mq)")
  case None
  then show ?thesis using assms by (simp add: rx_lost_one_def)
next
  case (Some it)
  let ?it1 = "it\<lparr>pAvtpTime := openavbAvtpTimeSetTimestampValid (pAvtpTime it) False\<rparr>"
  obtain s1 fmt where s: "PullBufferFromCircularQueue (trStatsEntryTypeQueue p) 1 = (s1, fmt)"
    by (cases "PullBufferFromCircularQueue (trStatsEntryTypeQueue p) 1")
  let ?f = "case fmt of [] \<Rightarrow> 0 | b # _ \<Rightarrow> unat b"
  have s1: "queueStorage s1 \<noteq> []"
    using pull_keeps_storage [of "trStatsEntryTypeQueue p" 1] s assms(2) by simp
  from rx_lost_fill_returns [OF assms(1), of "pPubMapInfo mq" ?it1 ?f] obtain q1 buf l1 where
    f: "rx_lost_fill p (pPubMapInfo mq) ?it1 ?f = Some (q1, buf, l1)"
    and q1: "queueStorage q1 \<noteq> []"
    using assms(1) by auto
  have n: "\<not> cq_null_access (trStatsEntryTypeQueue p) 1"
    "\<not> cq_null_access q1 (temporalRedundantQueueFrameSize p)"
    using assms(2) q1 by (simp_all add: cq_null_access_def)
  show ?thesis
    unfolding rx_lost_one_def Let_def Some option.case s prod.case f using n
    by (simp add: push_keeps_storage_allocated s1 q1)
qed

lemma rx_lost_loop_returns:
  "queueStorage (temporalRedundantQueue p) \<noteq> [] \<Longrightarrow>
   queueStorage (trStatsEntryTypeQueue p) \<noteq> [] \<Longrightarrow>
     \<exists>r. rx_lost_loop k mq p logs = Some r"
proof (induction k arbitrary: mq p logs)
  case 0
  then show ?case by simp
next
  case (Suc k)
  from rx_lost_one_returns [OF Suc.prems, of mq] obtain mq1 p1 l1 where
    o: "rx_lost_one mq p = Some (mq1, p1, l1)"
    and q: "queueStorage (temporalRedundantQueue p1) \<noteq> []"
      "queueStorage (trStatsEntryTypeQueue p1) \<noteq> []"
    by blast
  from Suc.IH [OF q, of mq1 "logs @ l1"] o show ?case by simp
qed

lemma rx_lost_returns:
  assumes "\<And>mq p. pMediaQ = Some mq \<Longrightarrow> pPvtMapInfo mq = Some p \<Longrightarrow>
             queueStorage (temporalRedundantQueue p) \<noteq> []
             \<and> queueStorage (trStatsEntryTypeQueue p) \<noteq> []"
  shows "\<exists>mq' logs. openavbMapAVTPAudioRxLostCB pMediaQ numLost = Some (False, mq', logs)"
proof (cases pMediaQ)
  case None
  then show ?thesis by (simp add: openavbMapAVTPAudioRxLostCB_def)
next
  case (Some mq)
  show ?thesis
  proof (cases "pPvtMapInfo mq")
    case None
    with Some show ?thesis by (simp add: openavbMapAVTPAudioRxLostCB_def)
  next
    case p: (Some p)
    from assms [OF Some p] rx_lost_loop_returns [of p numLost mq "[]"]
    obtain r where "rx_lost_loop numLost mq p [] = Some r" by blast
    then show ?thesis
      using Some p by (cases r) (simp add: openavbMapAVTPAudioRxLostCB_def)
  qed
qed

text \<open>
  Not every call returns. The loop runs when the redundancy offset is positive and the
  stream is valid, and pulls from the redundancy queue without asking whether it was
  allocated. When it was not, and a media queue item is free, the first pass reads
  through the \<open>NULL\<close> storage.
\<close>

lemma rx_lost_fill_without_queue:
  assumes "queueStorage (temporalRedundantQueue p) = []"
    and "0 < payloadSize p" and "0 < temporalRedundantQueueFrameSize p"
  shows "rx_lost_fill p pub it f = None"
  using assms by (simp add: rx_lost_fill_def cq_null_access_def Let_def)

lemma rx_lost_without_queue:
  assumes "pPvtMapInfo mq = Some p"
    and "0 < temporalRedundantOffsetUsec p" and "dataValid p"
    and "queueStorage (temporalRedundantQueue p) = []"
    and "0 < payloadSize p" and "0 < temporalRedundantQueueFrameSize p"
    and "openavbMediaQHeadLock (mq_free mq) = Some it"
  shows "openavbMapAVTPAudioRxLostCB (Some mq) (Suc n) = None"
proof -
  have "rx_lost_one mq p = None"
    using assms(7) rx_lost_fill_without_queue [OF assms(4,5,6)]
    by (simp add: rx_lost_one_def Let_def split: prod.splits)
  then show ?thesis using assms(1,2,3) by (simp add: openavbMapAVTPAudioRxLostCB_def)
qed

text \<open>
  C9. The loss callback should return false on every input. On the listener configured
  with a redundancy offset of 10 microseconds at 48 kHz it does not return at all: after
  general and receive initialisation the offset is 10, \<open>dataValid\<close> is set, the storage
  of the redundancy queue is \<open>NULL\<close> and 20 items are free, and the call for one lost
  packet copies the payload from the \<open>NULL\<close> storage.
\<close>

theorem C9_rx_lost_no_queue_no_return:
  "pPvtMapInfo example_short_offset_session \<noteq> None
   \<and> temporalRedundantOffsetUsec (the (pPvtMapInfo example_short_offset_session)) = 10
   \<and> dataValid (the (pPvtMapInfo example_short_offset_session))
   \<and> queueStorage (temporalRedundantQueue (the (pPvtMapInfo example_short_offset_session))) = []
   \<and> length (mq_free example_short_offset_session) = 20
   \<and> openavbMapAVTPAudioRxLostCB (Some example_short_offset_session) 1 = None"
proof -
  let ?S = "example_short_offset_session"
  have "\<not> Option.is_none (pPvtMapInfo ?S)" by code_simp
  then have ne: "pPvtMapInfo ?S \<noteq> None" by (simp add: Option.is_none_def)
  then have p: "pPvtMapInfo ?S = Some (the (pPvtMapInfo ?S))" by simp
  have u: "temporalRedundantOffsetUsec (the (pPvtMapInfo ?S)) = 10"
    and v: "dataValid (the (pPvtMapInfo ?S))"
    and q: "queueStorage (temporalRedundantQueue (the (pPvtMapInfo ?S))) = []"
    and z: "0 < payloadSize (the (pPvtMapInfo ?S))"
      "0 < temporalRedundantQueueFrameSize (the (pPvtMapInfo ?S))"
    and f: "length (mq_free ?S) = 20"
    by code_simp+
  obtain it where "openavbMediaQHeadLock (mq_free ?S) = Some it"
    using f by (cases "mq_free ?S") (simp_all add: openavbMediaQHeadLock_def)
  from rx_lost_without_queue [OF p _ v q z this, of 0] u
  have "openavbMapAVTPAudioRxLostCB (Some ?S) 1 = None" by simp
  then show ?thesis using ne u v q f by simp
qed

subsection \<open>Configuration: sparse mode\<close>

text \<open>
  C10. The sparse mode setting should change only for a value that parses completely
  to exactly 0 or exactly 1. With a 64-bit \<open>long\<close> the value 4294967297 parses
  completely, to 4294967297, and the assignment to the \<open>U32\<close> variable leaves 1: the
  callback enables sparse mode.
\<close>

theorem C10_sparse_mode_truncated_value:
  "strtol 64 ''4294967297'' = (4294967297, [])
   \<and> sparseMode (openavbMapAVTPAudioInitialize_pvt 0) = TS_SPARSE_MODE_DISABLED
   \<and> sparseMode (openavbMapAVTPAudioCfgCB_pvt 64 (openavbMapAVTPAudioInitialize_pvt 0)
        ''map_nv_sparse_mode'' ''4294967297'') = TS_SPARSE_MODE_ENABLED"
  by (simp add: strtol_def isspace_c_def isdigit_c_def openavbMapAVTPAudioCfgCB_pvt_def
      openavbMapAVTPAudioInitialize_pvt_def calloc_pvt_data_def long_to_U32_def)

subsection \<open>Listener: header fields\<close>

lemmas rx_decode_defs = rx_incoming_format_def rx_incoming_rate_def rx_incoming_channels_def
  rx_incoming_bit_depth_def rx_incoming_payload_size_def rx_incoming_event_def
  from_be32_def from_be16_def

subsection \<open>Listener: mute state\<close>

lemma mute_events_append [simp]: "mute_events (a @ b) = mute_events a @ mute_events b"
  by (simp add: mute_events_def)

lemma mute_events_Nil [simp]: "mute_events [] = []"
  by (simp add: mute_events_def)

lemma mute_events_error [simp]: "mute_events ((AVB_LOG_ERROR, m) # l) = mute_events l"
  "mute_events ((AVB_LOG_WARNING, m) # l) = mute_events l"
  by (simp_all add: mute_events_def)

lemma rx_check_header_no_mute: "mute_events (snd (rx_check_header p pub d n)) = []"
  by (simp add: rx_check_header_def Let_def)

lemma rx_validate_no_mute: "mute_events (snd (snd (rx_validate p pub d n))) = []"
  using rx_check_header_no_mute [of p pub d n]
  by (auto simp add: rx_validate_def Let_def split: prod.splits)

lemma rx_adopt_keeps:
  "dataValid (fst (rx_adopt p d n)) = dataValid p"
  "mute_events (snd (rx_adopt p d n)) = []"
  by (simp_all add: rx_adopt_def Let_def mute_events_def)

lemma rx_payload_no_mute: "mute_events (snd (rx_payload p pub it d c)) = []"
  by (simp add: rx_payload_def Let_def)

lemma rx_report_keeps:
  "dataValid (fst (rx_report p t)) = dataValid p"
  "mute_events (snd (rx_report p t)) = []"
  by (simp_all add: rx_report_def Let_def mute_events_def)

lemma rx_redundancy_keeps:
  "dataValid (fst (rx_redundancy p d t)) = dataValid p"
  "mute_events (snd (rx_redundancy p d t)) = []"
  by (simp_all add: rx_redundancy_def Let_def rx_report_keeps)

lemma rx_deliver_mute:
  assumes "rx_deliver mq p d t c = (r, mq', logs)"
  shows "\<exists>p'. pPvtMapInfo mq' = Some p' \<and> dataValid p'
          \<and> mute_events logs = (if dataValid p then [] else [LOG_UNMUTED])"
proof (cases "openavbMediaQHeadLock (mq_free mq)")
  case None
  with assms show ?thesis
    by (auto simp add: rx_deliver_def Let_def mute_events_def)
next
  case (Some it)
  obtain it1 sync valid where ts: "rx_timestamp (p\<lparr>dataValid := True\<rparr>) (pPubMapInfo mq) it d = (it1, sync, valid)"
    by (cases "rx_timestamp (p\<lparr>dataValid := True\<rparr>) (pPubMapInfo mq) it d")
  let ?pvt2 = "p\<lparr>dataValid := True, mediaQItemSyncTS := sync\<rparr>"
  obtain it2 log2 where pl: "(if valid then rx_payload ?pvt2 (pPubMapInfo mq) it1 d c else (it1, [])) = (it2, log2)"
    by (cases "if valid then rx_payload ?pvt2 (pPubMapInfo mq) it1 d c else (it1, [])")
  obtain pvt3 log3 where rd: "(if temporalRedundantOffsetUsec ?pvt2 > 0 then rx_redundancy ?pvt2 d t else (?pvt2, [])) = (pvt3, log3)"
    by (cases "if temporalRedundantOffsetUsec ?pvt2 > 0 then rx_redundancy ?pvt2 d t else (?pvt2, [])")
  have m2: "mute_events log2 = []"
    using pl rx_payload_no_mute [of ?pvt2 "pPubMapInfo mq" it1 d c] by (auto split: if_splits)
  have v3: "dataValid pvt3" and m3: "mute_events log3 = []"
    using rd rx_redundancy_keeps [of ?pvt2 d t] by (auto split: if_splits)
  have "(r, mq', logs) =
          (True,
           (if dataLen it2 < itemSize it2 then openavbMediaQHeadUnlock mq it2
            else openavbMediaQHeadPush mq it2)\<lparr>pPvtMapInfo := Some pvt3\<rparr>,
           (if \<not> dataValid p then [LOG_UNMUTED] else []) @ log2 @ log3)"
    unfolding assms [symmetric] rx_deliver_def Let_def Some option.case ts prod.case pl rd ..
  then have "pPvtMapInfo mq' = Some pvt3"
    and "logs = (if \<not> dataValid p then [LOG_UNMUTED] else []) @ log2 @ log3"
    by simp_all
  then show ?thesis using v3 m2 m3 by (simp add: mute_events_def)
qed

lemma rx_packet_mute:
  assumes "rx_packet mq p d n t = (r, mq', logs)"
  shows "\<exists>p'. pPvtMapInfo mq' = Some p'
          \<and> dataValid p' = fst (rx_validate p (pPubMapInfo mq) d n)
          \<and> mute_events logs =
               (if dataValid p \<and> \<not> dataValid p' then [LOG_MUTED]
                else if \<not> dataValid p \<and> dataValid p' then [LOG_UNMUTED] else [])"
proof -
  obtain valid c log1 where v: "rx_validate p (pPubMapInfo mq) d n = (valid, c, log1)"
    by (cases "rx_validate p (pPubMapInfo mq) d n")
  obtain pvt1 log2 where a: "rx_adopt p d n = (pvt1, log2)"
    by (cases "rx_adopt p d n")
  have m1: "mute_events log1 = []" using rx_validate_no_mute [of p "pPubMapInfo mq" d n] v by simp
  have d1: "dataValid pvt1 = dataValid p" and m2: "mute_events log2 = []"
    using rx_adopt_keeps [of p d n] a by simp_all
  show ?thesis
  proof (cases valid)
    case True
    obtain r3 mq3 log3 where dl: "rx_deliver mq pvt1 d t c = (r3, mq3, log3)"
      by (cases "rx_deliver mq pvt1 d t c")
    from rx_deliver_mute [OF dl] obtain p' where
      p': "pPvtMapInfo mq3 = Some p'" "dataValid p'"
      "mute_events log3 = (if dataValid pvt1 then [] else [LOG_UNMUTED])" by blast
    have "(r, mq', logs) = (r3, mq3, log1 @ log2 @ log3)"
      unfolding assms [symmetric] rx_packet_def Let_def v a prod.case dl using True by simp
    then have "mq' = mq3" "logs = log1 @ log2 @ log3" by simp_all
    then show ?thesis using p' m1 m2 d1 v True by simp
  next
    case False
    have "(r, mq', logs) =
            (if dataValid pvt1
             then (False, mq\<lparr>pPvtMapInfo := Some (pvt1\<lparr>dataValid := False\<rparr>)\<rparr>,
                   log1 @ log2 @ [LOG_MUTED])
             else (False, mq\<lparr>pPvtMapInfo := Some pvt1\<rparr>, log1 @ log2))"
      unfolding assms [symmetric] rx_packet_def Let_def v a prod.case using False by simp
    then show ?thesis using m1 m2 d1 v False
      by (cases "dataValid pvt1") (simp_all add: mute_events_def)
  qed
qed

lemma rx_lost_fill_no_mute:
  "rx_lost_fill p pub it f = Some (q, buf, l) \<Longrightarrow> mute_events l = []"
  by (auto simp add: rx_lost_fill_def Let_def split: if_splits prod.splits)

lemma rx_lost_one_keeps:
  assumes "rx_lost_one mq p = Some (mq', p', logs)"
  shows "dataValid p' = dataValid p \<and> mute_events logs = []"
proof (cases "openavbMediaQHeadLock (mq_free mq)")
  case None
  with assms show ?thesis by (simp add: rx_lost_one_def)
next
  case (Some it)
  let ?it1 = "it\<lparr>pAvtpTime := openavbAvtpTimeSetTimestampValid (pAvtpTime it) False\<rparr>"
  obtain s1 fmt where s: "PullBufferFromCircularQueue (trStatsEntryTypeQueue p) 1 = (s1, fmt)"
    by (cases "PullBufferFromCircularQueue (trStatsEntryTypeQueue p) 1")
  let ?f = "case fmt of [] \<Rightarrow> 0 | b # _ \<Rightarrow> unat b"
  have n: "\<not> cq_null_access (trStatsEntryTypeQueue p) 1"
    using assms Some by (auto simp add: rx_lost_one_def split: if_splits)
  have r: "rx_lost_one mq p =
     (case rx_lost_fill p (pPubMapInfo mq) ?it1 ?f of
        None \<Rightarrow> None
      | Some (q1, buf, log1) \<Rightarrow>
          if cq_null_access q1 (temporalRedundantQueueFrameSize p) then None
          else Some (fst (the (rx_lost_one mq p)), fst (snd (the (rx_lost_one mq p))), log1))"
    unfolding rx_lost_one_def Let_def Some option.case s prod.case using n
    by (simp split: option.splits)
  have "rx_lost_one mq p \<noteq> None" using assms by simp
  with r obtain q1 buf log1 where
    f: "rx_lost_fill p (pPubMapInfo mq) ?it1 ?f = Some (q1, buf, log1)"
    and a: "\<not> cq_null_access q1 (temporalRedundantQueueFrameSize p)"
    by (auto split: option.splits if_splits)
  have "rx_lost_one mq p
          = Some (fst (the (rx_lost_one mq p)), fst (snd (the (rx_lost_one mq p))), log1)"
    using r f a by simp
  then have l: "logs = log1" using assms by simp
  have "dataValid (fst (snd (the (rx_lost_one mq p)))) = dataValid p"
    unfolding rx_lost_one_def Let_def Some option.case s prod.case f using n a by simp
  then have "dataValid p' = dataValid p" using assms by simp
  then show ?thesis using l rx_lost_fill_no_mute [OF f] by simp
qed

lemma rx_lost_loop_keeps:
  "rx_lost_loop k mq p logs = Some (mq', p', logs') \<Longrightarrow>
     dataValid p' = dataValid p \<and> mute_events logs' = mute_events logs"
proof (induction k arbitrary: mq p logs)
  case 0
  then show ?case by simp
next
  case (Suc k)
  from Suc.prems obtain mq1 p1 l1 where o: "rx_lost_one mq p = Some (mq1, p1, l1)"
    and r: "rx_lost_loop k mq1 p1 (logs @ l1) = Some (mq', p', logs')"
    by (auto split: option.splits)
  from Suc.IH [OF r] rx_lost_one_keeps [OF o] show ?case by simp
qed

lemma rx_lost_call:
  assumes "listener_call mq (CALL_RX_LOST k) = (mq', logs)"
  shows "pPvtMapInfo mq' = None \<longleftrightarrow> pPvtMapInfo mq = None"
    and "session_dataValid mq' = session_dataValid mq" and "mute_events logs = []"
proof -
  have "(pPvtMapInfo mq' = None \<longleftrightarrow> pPvtMapInfo mq = None)
      \<and> session_dataValid mq' = session_dataValid mq \<and> mute_events logs = []"
  proof (cases "openavbMapAVTPAudioRxLostCB (Some mq) k")
    case None
    with assms show ?thesis by (simp add: listener_call_def)
  next
    case (Some res)
    show ?thesis
    proof (cases "pPvtMapInfo mq")
      case None
      with assms show ?thesis
        by (simp add: listener_call_def openavbMapAVTPAudioRxLostCB_def)
    next
      case p: (Some pvt)
      show ?thesis
      proof (cases "temporalRedundantOffsetUsec pvt > 0 \<and> dataValid pvt")
        case False
        with assms p show ?thesis
          by (auto simp add: listener_call_def openavbMapAVTPAudioRxLostCB_def)
      next
        case True
        with Some p obtain mq1 pvt1 logs1 where
          lp: "rx_lost_loop k mq pvt [] = Some (mq1, pvt1, logs1)"
          by (auto simp add: openavbMapAVTPAudioRxLostCB_def split: option.splits)
        have "mq' = mq1\<lparr>pPvtMapInfo := Some pvt1\<rparr>" "logs = logs1"
          using assms p True lp
          by (simp_all add: listener_call_def openavbMapAVTPAudioRxLostCB_def)
        with rx_lost_loop_keeps [OF lp] p show ?thesis
          by (simp add: session_dataValid_def)
      qed
    qed
  qed
  then show "pPvtMapInfo mq' = None \<longleftrightarrow> pPvtMapInfo mq = None"
    and "session_dataValid mq' = session_dataValid mq" and "mute_events logs = []"
    by blast+
qed

lemma rx_call:
  assumes "listener_call mq (CALL_RX pd n t) = (mq', logs)"
  shows "pPvtMapInfo mq' = None \<longleftrightarrow> pPvtMapInfo mq = None"
    and "mute_events logs = mute_transition (session_dataValid mq) (session_dataValid mq')"
    and "\<And>p d. pPvtMapInfo mq = Some p \<Longrightarrow> pd = Some d \<Longrightarrow>
           session_dataValid mq' = fst (rx_validate p (pPubMapInfo mq) d n)"
proof -
  have *: "(pPvtMapInfo mq' = None \<longleftrightarrow> pPvtMapInfo mq = None)
     \<and> mute_events logs = mute_transition (session_dataValid mq) (session_dataValid mq')
     \<and> (\<forall>p d. pPvtMapInfo mq = Some p \<longrightarrow> pd = Some d \<longrightarrow>
           session_dataValid mq' = fst (rx_validate p (pPubMapInfo mq) d n))"
  proof (cases pd)
    case None
    with assms show ?thesis
      by (simp add: listener_call_def openavbMapAVTPAudioRxCB_def mute_transition_def)
  next
    case (Some d)
    show ?thesis
    proof (cases "pPvtMapInfo mq")
      case None
      with assms Some show ?thesis
        by (auto simp add: listener_call_def openavbMapAVTPAudioRxCB_def mute_transition_def)
    next
      case (Some p)
      obtain r mq1 l1 where rp: "rx_packet mq p d n t = (r, mq1, l1)"
        by (cases "rx_packet mq p d n t")
      have "mq' = mq1" "logs = l1"
        using assms \<open>pd = Some d\<close> Some rp
        by (simp_all add: listener_call_def openavbMapAVTPAudioRxCB_def)
      with rx_packet_mute [OF rp] Some \<open>pd = Some d\<close> show ?thesis
        by (auto simp add: session_dataValid_def mute_transition_def)
    qed
  qed
  from * show "pPvtMapInfo mq' = None \<longleftrightarrow> pPvtMapInfo mq = None" by blast
  from * show "mute_events logs = mute_transition (session_dataValid mq) (session_dataValid mq')" by blast
  from * show "\<And>p d. pPvtMapInfo mq = Some p \<Longrightarrow> pd = Some d \<Longrightarrow>
           session_dataValid mq' = fst (rx_validate p (pPubMapInfo mq) d n)" by blast
qed

lemma listener_call_step:
  assumes "listener_call mq c = (mq', logs)"
  shows "mute_events logs = mute_transition (session_dataValid mq) (session_dataValid mq')"
proof (cases c)
  case (CALL_RX pd n t)
  with assms rx_call(2) show ?thesis by blast
next
  case (CALL_RX_LOST k)
  with assms rx_lost_call(2,3) [of mq k mq' logs] show ?thesis
    by (simp add: mute_transition_def)
qed

lemma session_dataValid_env [simp]:
  "session_dataValid (mq\<lparr>mq_ready := r, mq_free := f\<rparr>) = session_dataValid mq"
  by (simp add: session_dataValid_def)

lemma alternating_transition:
  "alternating v' es \<Longrightarrow> alternating v (mute_transition v v' @ es)"
  by (cases v; cases v') (simp_all add: mute_transition_def)

lemma count_transition:
  "int (count_list (mute_transition v v') LOG_MUTED) - int (count_list (mute_transition v v') LOG_UNMUTED)
     = (if v then 1 else 0) - (if v' then 1 else 0)"
  by (cases v; cases v') (simp_all add: mute_transition_def)

lemma count_list_mute_events:
  "count_list (mute_events l) LOG_MUTED = count_list l LOG_MUTED"
  "count_list (mute_events l) LOG_UNMUTED = count_list l LOG_UNMUTED"
  by (induction l) (auto simp add: mute_events_def)

lemma listener_run_mute:
  "listener_run mq steps = (mq', logs) \<Longrightarrow>
     alternating (session_dataValid mq) (mute_events logs)
     \<and> int (count_list (mute_events logs) LOG_MUTED) - int (count_list (mute_events logs) LOG_UNMUTED)
         = (if session_dataValid mq then 1 else 0) - (if session_dataValid mq' then 1 else 0)"
proof (induction steps arbitrary: mq mq' logs)
  case Nil
  then show ?case by simp
next
  case (Cons s steps)
  obtain ready free c where s: "s = (ready, free, c)" by (cases s)
  let ?mq0 = "mq\<lparr>mq_ready := ready, mq_free := free\<rparr>"
  obtain mq1 log1 where c1: "listener_call ?mq0 c = (mq1, log1)"
    by (cases "listener_call ?mq0 c")
  obtain mq2 log2 where r2: "listener_run mq1 steps = (mq2, log2)"
    by (cases "listener_run mq1 steps")
  from Cons.prems s c1 r2 have e: "mq' = mq2" "logs = log1 @ log2" by simp_all
  have t: "mute_events log1 = mute_transition (session_dataValid mq) (session_dataValid mq1)"
    using listener_call_step [OF c1] by simp
  from Cons.IH [OF r2] have ih: "alternating (session_dataValid mq1) (mute_events log2)"
    "int (count_list (mute_events log2) LOG_MUTED) - int (count_list (mute_events log2) LOG_UNMUTED)
         = (if session_dataValid mq1 then 1 else 0) - (if session_dataValid mq2 then 1 else 0)"
    by simp_all
  show ?case
    using e t ih alternating_transition [OF ih(1), of "session_dataValid mq"]
      count_transition [of "session_dataValid mq" "session_dataValid mq1"]
    by simp
qed

lemma example_bad_packet_invalid:
  "aaf_format p = 4 \<Longrightarrow> \<not> fst (rx_validate p pub example_bad_packet n)"
  by (simp add: rx_validate_def rx_check_header_def rx_conversion_enabled_def
      rx_incoming_format_def example_bad_packet_def example_packet_def from_be32_def Let_def
      split: prod.splits)

lemma example_bad_call:
  assumes "listener_call (example_session\<lparr>mq_ready := r, mq_free := f\<rparr>)
             (CALL_RX (Some example_bad_packet) n t) = (mq', logs)"
  shows "\<not> session_dataValid mq'" and "mute_events logs = [LOG_MUTED]"
proof -
  let ?mq = "example_session\<lparr>mq_ready := r, mq_free := f\<rparr>"
  obtain p where p: "pPvtMapInfo ?mq = Some p" "aaf_format p = 4"
    by (simp add: example_session_pvt)
  show v: "\<not> session_dataValid mq'"
    using rx_call(3) [OF assms p(1) refl] example_bad_packet_invalid [OF p(2)] by simp
  show "mute_events logs = [LOG_MUTED]"
    using rx_call(2) [OF assms] v example_session_dataValid by (simp add: mute_transition_def)
qed

text \<open>
  C4, as claimed: the counts of "muted" and "un-muted" events of a run are equal. A
  single packet with a format that the listener cannot take mutes the stream: one
  "muted" event, no "un-muted" one.
\<close>

theorem C4_counts_differ:
  "session_dataValid example_session
   \<and> count_list (snd (listener_run example_session
                        [([], [], CALL_RX (Some example_bad_packet) 48 0)])) LOG_MUTED = 1
   \<and> count_list (snd (listener_run example_session
                        [([], [], CALL_RX (Some example_bad_packet) 48 0)])) LOG_UNMUTED = 0"
proof -
  let ?c = "listener_call (example_session\<lparr>mq_ready := [], mq_free := []\<rparr>)
              (CALL_RX (Some example_bad_packet) 48 0)"
  have c: "?c = (fst ?c, snd ?c)" by simp
  have r: "snd (listener_run example_session [([], [], CALL_RX (Some example_bad_packet) 48 0)])
             = snd ?c"
    by (simp add: split_beta)
  have "count_list (mute_events (snd ?c)) LOG_MUTED = 1"
    "count_list (mute_events (snd ?c)) LOG_UNMUTED = 0"
    using example_bad_call(2) [OF c] by simp_all
  then show ?thesis
    using r example_session_dataValid by (simp add: count_list_mute_events)
qed

text \<open>
  C4, as the code has it. From a session whose \<open>dataValid\<close> flag is true, the mute
  events of every run alternate, the first being "muted", and there is one more "muted"
  than "un-muted" event exactly when the run ends muted. Every call logs "muted" exactly
  when it takes the flag from true to false and "un-muted" exactly when it takes it from
  false to true, and nothing else of the two; the loss callback never changes the flag;
  after a packet the flag is the result of the header checks.
\<close>

theorem C4_mute_state_machine:
  assumes "session_dataValid mq"
    and "listener_run mq steps = (mq', logs)"
    and "listener_call mq1 c = (mq2, logs2)"
  shows "alternating True (mute_events logs)
       \<and> count_list logs LOG_MUTED
           = count_list logs LOG_UNMUTED + (if session_dataValid mq' then 0 else 1)
       \<and> mute_events logs2
           = (if session_dataValid mq1 \<and> \<not> session_dataValid mq2 then [LOG_MUTED]
              else if \<not> session_dataValid mq1 \<and> session_dataValid mq2 then [LOG_UNMUTED]
              else [])
       \<and> (\<forall>numLost. c = CALL_RX_LOST numLost \<longrightarrow> session_dataValid mq2 = session_dataValid mq1)
       \<and> (\<forall>p d n t. pPvtMapInfo mq1 = Some p \<and> c = CALL_RX (Some d) n t
             \<longrightarrow> session_dataValid mq2 = fst (rx_validate p (pPubMapInfo mq1) d n))"
proof -
  from listener_run_mute [OF assms(2)] assms(1)
  have a: "alternating True (mute_events logs)"
    and n: "int (count_list (mute_events logs) LOG_MUTED)
              - int (count_list (mute_events logs) LOG_UNMUTED)
            = 1 - (if session_dataValid mq' then 1 else 0)"
    by simp_all
  from n have "count_list logs LOG_MUTED
           = count_list logs LOG_UNMUTED + (if session_dataValid mq' then 0 else 1)"
    by (simp add: count_list_mute_events split: if_splits)
  moreover have "mute_events logs2
           = (if session_dataValid mq1 \<and> \<not> session_dataValid mq2 then [LOG_MUTED]
              else if \<not> session_dataValid mq1 \<and> session_dataValid mq2 then [LOG_UNMUTED]
              else [])"
    using listener_call_step [OF assms(3)] by (simp add: mute_transition_def)
  moreover have "\<forall>numLost. c = CALL_RX_LOST numLost \<longrightarrow> session_dataValid mq2 = session_dataValid mq1"
    using rx_lost_call(2) assms(3) by blast
  moreover have "\<forall>p d n t. pPvtMapInfo mq1 = Some p \<and> c = CALL_RX (Some d) n t
             \<longrightarrow> session_dataValid mq2 = fst (rx_validate p (pPubMapInfo mq1) d n)"
    using rx_call(3) assms(3) by blast
  ultimately show ?thesis using a by blast
qed

theorem C4_mute_state_machine_witness:
  "alternating True (mute_events (snd (listener_run example_session
       [([], [], CALL_RX (Some example_bad_packet) 48 0),
        ([], [], CALL_RX_LOST 2),
        ([], [], CALL_RX (Some example_packet) 48 0)])))
   \<and> session_dataValid (fst (listener_call example_session (CALL_RX_LOST 2)))"
proof -
  let ?steps = "[([], [], CALL_RX (Some example_bad_packet) 48 0), ([], [], CALL_RX_LOST 2),
        ([], [], CALL_RX (Some example_packet) 48 0)]"
  have r: "listener_run example_session ?steps
             = (fst (listener_run example_session ?steps), snd (listener_run example_session ?steps))"
    by simp
  have c: "listener_call example_session (CALL_RX_LOST 2)
             = (fst (listener_call example_session (CALL_RX_LOST 2)),
                snd (listener_call example_session (CALL_RX_LOST 2)))"
    by simp
  show ?thesis
    using C4_mute_state_machine [OF example_session_dataValid r c] example_session_dataValid by simp
qed

subsection \<open>Listener: payload size check\<close>

text \<open>
  After the receive callback the \<open>dataValid\<close> flag of the session is the result of the
  checks on the packet.
\<close>

lemma RxCB_returns_queue:
  "\<exists>r mq' logs. openavbMapAVTPAudioRxCB (Some mq) (Some d) n t = (r, Some mq', logs)"
  by (auto simp add: openavbMapAVTPAudioRxCB_def split: option.splits prod.splits)

lemma RxCB_dataValid:
  assumes "openavbMapAVTPAudioRxCB (Some mq) (Some d) n t = (r, Some mq', logs)"
    and "pPvtMapInfo mq = Some p"
  shows "session_dataValid mq' = fst (rx_validate p (pPubMapInfo mq) d n)"
proof -
  have "listener_call mq (CALL_RX (Some d) n t) = (mq', logs)"
    using assms(1) by (simp add: listener_call_def)
  from rx_call(3) [OF this assms(2) refl] show ?thesis .
qed

text \<open>
  C5, as claimed: with conversion enabled, a packet whose stream data length differs from
  the payload size is marked invalid only when the sample counts differ. The 24-bit
  packet with 36 bytes of payload has the sample count of the 16-bit listener with its
  payload size of 24 (12 both), conversion is enabled, and with the rate field set to
  88.2 kHz the packet is nevertheless marked invalid: the session is muted after the call.
\<close>

theorem C5_equal_counts_still_invalid:
  "rx_incoming_payload_size (example_int24_packet[17 := 0x60]) = 36
   \<and> payloadSize (the (pPvtMapInfo example_session)) = 24
   \<and> rx_conversion_enabled (the (pPvtMapInfo example_session)) (example_int24_packet[17 := 0x60])
   \<and> rx_incoming_payload_size (example_int24_packet[17 := 0x60])
        div (6 - rx_incoming_format (example_int24_packet[17 := 0x60]))
      = payloadSize (the (pPvtMapInfo example_session))
        div (6 - aaf_format (the (pPvtMapInfo example_session)))
   \<and> \<not> session_dataValid (the (fst (snd (openavbMapAVTPAudioRxCB (Some example_session)
            (Some (example_int24_packet[17 := 0x60])) 60 0))))"
proof -
  let ?d = "example_int24_packet[17 := 0x60]"
  let ?p = "example_pvt\<lparr>aaf_rate := 5, aaf_format := 4, aaf_bit_depth := 16, payloadSize := 24,
             payloadSizeMaxTalker := 24, payloadSizeMaxListener := 96,
             temporalRedundantQueueFrameSize := 48, dataValid := True\<rparr>"
  have p: "pPvtMapInfo example_session = Some ?p" by (rule example_session_pvt(1))
  obtain r mq' l where
    c: "openavbMapAVTPAudioRxCB (Some example_session) (Some ?d) 60 0 = (r, Some mq', l)"
    using RxCB_returns_queue by blast
  have n: "rx_incoming_payload_size ?d = 36" and f: "rx_incoming_format ?d = 3"
    and rt: "rx_incoming_rate ?d = 6"
    by (simp_all add: rx_decode_defs example_int24_packet_def)
  have e: "rx_conversion_enabled ?p ?d" by (simp add: rx_conversion_enabled_def f)
  have "\<not> fst (rx_validate ?p (pPubMapInfo example_session) ?d 60)"
    by (simp add: rx_validate_def rx_check_header_def rt Let_def split: prod.splits)
  then have "\<not> session_dataValid mq'" using RxCB_dataValid [OF c p] by simp
  then show ?thesis using c p n f e by simp
qed

text \<open>
  C5, as the code has it. For a packet whose stream data length differs from the
  configured payload size, the session is marked invalid after the call in every case
  without conversion; with conversion it is marked invalid exactly when the sample counts
  differ or one of the other checks of the header fails: the stream data length exceeds
  the frame, the rate or the channel count differs, or the bit depth is zero.
\<close>

theorem C5_size_mismatch_invalid:
  assumes "openavbMapAVTPAudioRxCB (Some mq) (Some pData) pktLen nowNS = (r, Some mq', logs)"
    and "pPvtMapInfo mq = Some pPvtData"
    and "rx_incoming_payload_size pData \<noteq> payloadSize pPvtData"
  shows "(\<not> rx_conversion_enabled pPvtData pData \<longrightarrow> \<not> session_dataValid mq')
       \<and> (rx_conversion_enabled pPvtData pData \<longrightarrow>
            (\<not> session_dataValid mq' \<longleftrightarrow>
               rx_incoming_payload_size pData div (6 - rx_incoming_format pData)
                 \<noteq> payloadSize pPvtData div (6 - aaf_format pPvtData)
               \<or> from_be16 pData HIDX_STREAM_DATA_LEN16
                    > (pktLen + U32_MOD - TOTAL_HEADER_SIZE) mod U32_MOD
               \<or> rx_incoming_rate pData \<noteq> aaf_rate pPvtData
               \<or> rx_incoming_channels pData \<noteq> audioChannels (pPubMapInfo mq)
               \<or> rx_incoming_bit_depth pData = 0))"
proof -
  have v: "session_dataValid mq' = fst (rx_validate pPvtData (pPubMapInfo mq) pData pktLen)"
    by (rule RxCB_dataValid [OF assms(1,2)])
  show ?thesis
    unfolding v using assms(3)
    by (auto simp add: rx_validate_def rx_check_header_def rx_check_payload_size_def Let_def)
qed

theorem C5_size_mismatch_invalid_witness:
  "session_dataValid (the (fst (snd (openavbMapAVTPAudioRxCB (Some example_session)
        (Some example_int24_packet) 60 0))))
   \<and> \<not> session_dataValid (the (fst (snd (openavbMapAVTPAudioRxCB (Some example_session)
        (Some (example_packet[21 := 20])) 48 0))))"
proof -
  let ?p = "example_pvt\<lparr>aaf_rate := 5, aaf_format := 4, aaf_bit_depth := 16, payloadSize := 24,
             payloadSizeMaxTalker := 24, payloadSizeMaxListener := 96,
             temporalRedundantQueueFrameSize := 48, dataValid := True\<rparr>"
  have p: "pPvtMapInfo example_session = Some ?p" by (rule example_session_pvt(1))
  obtain r1 mq1 l1 where
    c1: "openavbMapAVTPAudioRxCB (Some example_session) (Some example_int24_packet) 60 0
           = (r1, Some mq1, l1)"
    using RxCB_returns_queue by blast
  obtain r2 mq2 l2 where
    c2: "openavbMapAVTPAudioRxCB (Some example_session) (Some (example_packet[21 := 20])) 48 0
           = (r2, Some mq2, l2)"
    using RxCB_returns_queue by blast
  have n1: "rx_incoming_payload_size example_int24_packet = 36"
    and f1: "rx_incoming_format example_int24_packet = 3"
    and h1: "from_be16 example_int24_packet 20 = 36"
      "rx_incoming_rate example_int24_packet = 5"
      "rx_incoming_channels example_int24_packet = 2"
      "rx_incoming_bit_depth example_int24_packet = 24"
    by (simp_all add: rx_decode_defs example_int24_packet_def)
  have n2: "rx_incoming_payload_size (example_packet[21 := 20]) = 20"
    and f2: "rx_incoming_format (example_packet[21 := 20]) = 4"
    by (simp_all add: rx_decode_defs example_packet_def)
  have s1: "rx_incoming_payload_size example_int24_packet \<noteq> payloadSize ?p"
    and s2: "rx_incoming_payload_size (example_packet[21 := 20]) \<noteq> payloadSize ?p"
    by (simp_all add: n1 n2)
  have e1: "rx_conversion_enabled ?p example_int24_packet"
    and e2: "\<not> rx_conversion_enabled ?p (example_packet[21 := 20])"
    by (simp_all add: rx_conversion_enabled_def f1 f2)
  have ch: "audioChannels (pPubMapInfo example_session) = 2"
    by (simp add: example_session_pvt(2) example_pub_def)
  have "session_dataValid mq1"
    using C5_size_mismatch_invalid [OF c1 p s1] e1 by (simp add: n1 f1 h1 ch)
  moreover have "\<not> session_dataValid mq2"
    using C5_size_mismatch_invalid [OF c2 p s2] e2 by simp
  ultimately show ?thesis using c1 c2 by simp
qed

subsection \<open>Sample converter round trip\<close>

lemma whole_samples_ge:
  assumes "length buf mod m = 0" "buf \<noteq> []" "0 < m"
  shows "m \<le> length buf"
proof -
  have "0 < length buf" using assms(2) by simp
  then show ?thesis using assms(1,3) by (metis mod_less not_le less_numeral_extra(3))
qed

lemma whole_samples_drop:
  assumes "length buf mod m = 0" "m \<le> length buf"
  shows "length (drop m buf) mod m = 0"
  using assms by (simp add: le_mod_geq)

lemma convert_truncate_chunk:
  assumes "length xs = n" "0 < n" "m \<le> n"
  shows "convert_truncate n m (xs @ ys) = take m xs @ convert_truncate n m ys"
  using assms by (subst convert_truncate.simps) auto

lemma convert_pad_chunk:
  assumes "length xs = m" "0 < m"
  shows "convert_pad m n (xs @ ys) = xs @ replicate (n - m) 0 @ convert_pad m n ys"
  using assms by (subst convert_pad.simps) auto

lemma convert_truncate_same: "0 < m \<Longrightarrow> convert_truncate m m buf = buf"
proof (induction "length buf" arbitrary: buf rule: less_induct)
  case less
  show ?case
  proof (cases "buf = [] \<or> m = 0")
    case True
    with less.prems show ?thesis
      by (subst convert_truncate.simps) auto
  next
    case False
    then have "length (drop m buf) < length buf" by simp
    from less.hyps [OF this less.prems] False show ?thesis
      by (subst convert_truncate.simps) simp
  qed
qed

lemma pad_then_truncate:
  assumes "0 < m" "m \<le> n"
  shows "length buf mod m = 0 \<Longrightarrow> convert_truncate n m (convert_pad m n buf) = buf"
proof (induction "length buf" arbitrary: buf rule: less_induct)
  case less
  show ?case
  proof (cases "buf = []")
    case True
    then show ?thesis
      by (simp add: convert_pad.simps [of m n "[]"] convert_truncate.simps [of n m "[]"])
  next
    case False
    have ge: "m \<le> length buf" using whole_samples_ge [OF less.prems False assms(1)] .
    have lt: "length (drop m buf) < length buf" using False assms(1) by simp
    have ih: "convert_truncate n m (convert_pad m n (drop m buf)) = drop m buf"
      using less.hyps [OF lt whole_samples_drop [OF less.prems ge]] .
    have p: "convert_pad m n buf
               = (take m buf @ replicate (n - m) 0) @ convert_pad m n (drop m buf)"
      using False assms(1) by (subst convert_pad.simps) simp
    have l: "length (take m buf @ replicate (n - m) 0) = n"
      using ge assms(2) by simp
    have n0: "0 < n" using assms by simp
    show ?thesis
      unfolding p convert_truncate_chunk [OF l n0 assms(2)] ih using ge by simp
  qed
qed

lemma truncate_then_pad:
  assumes "0 < m" "m \<le> n"
  shows "length buf mod n = 0 \<Longrightarrow>
     length (convert_pad m n (convert_truncate n m buf)) = length buf
     \<and> (\<forall>i < length buf. convert_pad m n (convert_truncate n m buf) ! i
                             = (if i mod n < m then buf ! i else 0))"
proof (induction "length buf" arbitrary: buf rule: less_induct)
  case less
  have n0: "0 < n" using assms by simp
  show ?case
  proof (cases "buf = []")
    case True
    then show ?thesis
      by (simp add: convert_pad.simps [of m n "[]"] convert_truncate.simps [of n m "[]"])
  next
    case False
    let ?rt = "\<lambda>b. convert_pad m n (convert_truncate n m b)"
    have ge: "n \<le> length buf" using whole_samples_ge [OF less.prems False n0] .
    have lt: "length (drop n buf) < length buf" using False n0 by simp
    have ih: "length (?rt (drop n buf)) = length (drop n buf)"
      "\<And>i. i < length (drop n buf) \<Longrightarrow>
         ?rt (drop n buf) ! i = (if i mod n < m then drop n buf ! i else 0)"
      using less.hyps [OF lt whole_samples_drop [OF less.prems ge]] by simp_all
    have t: "convert_truncate n m buf = take m buf @ convert_truncate n m (drop n buf)"
      using False n0 by (subst convert_truncate.simps) simp
    have l: "length (take m buf) = m" using ge assms(2) by simp
    have e: "?rt buf = take m buf @ replicate (n - m) 0 @ ?rt (drop n buf)"
      unfolding t convert_pad_chunk [OF l assms(1)] ..
    have len: "length (?rt buf) = length buf"
      unfolding e using ih(1) ge assms(2) by simp
    have nth: "?rt buf ! i = (if i mod n < m then buf ! i else 0)" if i: "i < length buf" for i
    proof -
      consider "i < m" | "m \<le> i" "i < n" | "n \<le> i" by linarith
      then show ?thesis
      proof cases
        case 1
        then show ?thesis unfolding e using l assms(2) by (simp add: nth_append)
      next
        case 2
        then have "i - m < n - m" "i mod n = i" by simp_all
        with 2 show ?thesis unfolding e using l by (simp add: nth_append)
      next
        case 3
        have i3: "\<not> i < m" "\<not> i - m < n - m" "i - m - (n - m) = i - n"
          using 3 assms(2) by simp_all
        have "(take m buf @ replicate (n - m) 0 @ R) ! i = R ! (i - n)" for R
          using i3 l by (simp add: nth_append)
        then have "?rt buf ! i = ?rt (drop n buf) ! (i - n)"
          unfolding e .
        also have "\<dots> = (if (i - n) mod n < m then drop n buf ! (i - n) else 0)"
          using ih(2) [of "i - n"] i 3 by simp
        also have "\<dots> = (if i mod n < m then buf ! i else 0)"
          using 3 ge by (simp add: le_mod_geq)
        finally show ?thesis .
      qed
    qed
    from len nth show ?thesis by blast
  qed
qed

text \<open>
  C7. For every buffer of whole samples in format \<open>a\<close> and every pair of integer format
  codes \<open>a\<close>, \<open>b\<close> among int32 (2), int24 (3) and int16 (4), converting from
  \<open>a\<close> to \<open>b\<close> and back gives the original bytes when \<open>a \<ge> b\<close>;
  when \<open>a < b\<close> the result has the same length, each sample keeps its first
  \<open>6 - b\<close> bytes and its remaining \<open>(6 - a) - (6 - b)\<close> bytes are zero.
\<close>

theorem C7_round_trip:
  assumes "a \<in> {AAF_FORMAT_INT_32, AAF_FORMAT_INT_24, AAF_FORMAT_INT_16}"
    and "b \<in> {AAF_FORMAT_INT_32, AAF_FORMAT_INT_24, AAF_FORMAT_INT_16}"
    and "length buf mod (6 - a) = 0"
  shows "(a \<ge> b \<longrightarrow> convert_format b a (convert_format a b buf) = buf)
       \<and> (a < b \<longrightarrow>
            length (convert_format b a (convert_format a b buf)) = length buf
            \<and> (\<forall>i < length buf.
                  convert_format b a (convert_format a b buf) ! i
                    = (if i mod (6 - a) < 6 - b then buf ! i else 0)))"
proof (intro conjI impI)
  assume ab: "a \<ge> b"
  have w: "0 < 6 - a" "6 - a \<le> 6 - b" using assms(1,2) ab by auto
  show "convert_format b a (convert_format a b buf) = buf"
  proof (cases "a = b")
    case True
    have "convert_samples (6 - a) (6 - a) (convert_samples (6 - a) (6 - a) buf) = buf"
      unfolding convert_samples_def by (simp add: convert_truncate_same [OF w(1)])
    then show ?thesis unfolding convert_format_def True [symmetric] .
  next
    case False
    then have "6 - a < 6 - b" using assms(1,2) ab by auto
    then show ?thesis
      using pad_then_truncate [OF w assms(3)]
      by (simp add: convert_format_def convert_samples_def)
  qed
next
  assume ab: "a < b"
  have w: "0 < 6 - b" "6 - b \<le> 6 - a" "6 - b < 6 - a" using assms(1,2) ab by auto
  have e: "convert_format b a (convert_format a b buf)
             = convert_pad (6 - b) (6 - a) (convert_truncate (6 - a) (6 - b) buf)"
    using w(3) by (simp add: convert_format_def convert_samples_def)
  show "length (convert_format b a (convert_format a b buf)) = length buf"
    unfolding e using truncate_then_pad [OF w(1,2) assms(3)] by blast
  show "\<forall>i < length buf.
          convert_format b a (convert_format a b buf) ! i
            = (if i mod (6 - a) < 6 - b then buf ! i else 0)"
    unfolding e using truncate_then_pad [OF w(1,2) assms(3)] by blast
qed

theorem C7_round_trip_witness:
  "convert_format 3 4 (convert_format 4 3 [1, 2, 3, 4]) = [1, 2, 3, 4]
   \<and> convert_format 4 2 (convert_format 2 4 [1, 2, 3, 4, 5, 6, 7, 8]) = [1, 2, 0, 0, 5, 6, 0, 0]"
proof -
  have a: "(4::nat) \<in> {AAF_FORMAT_INT_32, AAF_FORMAT_INT_24, AAF_FORMAT_INT_16}"
    "(3::nat) \<in> {AAF_FORMAT_INT_32, AAF_FORMAT_INT_24, AAF_FORMAT_INT_16}"
    "(2::nat) \<in> {AAF_FORMAT_INT_32, AAF_FORMAT_INT_24, AAF_FORMAT_INT_16}"
    by simp_all
  have l1: "length [1, 2, 3, 4 :: u8] mod (6 - 4) = 0" by simp
  have l2: "length [1, 2, 3, 4, 5, 6, 7, 8 :: u8] mod (6 - 2) = 0" by simp
  have "convert_format 4 2 (convert_format 2 4 [1, 2, 3, 4, 5, 6, 7, 8]) = [1, 2, 0, 0, 5, 6, 0, 0]"
    by code_simp
  then show ?thesis
    using C7_round_trip [OF a(1) a(2) l1] C7_round_trip [OF a(3) a(1) l2] by simp
qed

subsection \<open>Bytes, words and buffers\<close>




lemma length_write_at:
  "off + length src \<le> length buf \<Longrightarrow> length (write_at off src buf) = length buf"
  by (simp add: write_at_def)

lemma nth_write_at_below:
  "i < off \<Longrightarrow> off \<le> length buf \<Longrightarrow> write_at off src buf ! i = buf ! i"
  by (simp add: write_at_def nth_append)

lemma read_at_write_at_same:
  "off \<le> length buf \<Longrightarrow> length src = n \<Longrightarrow> read_at off n (write_at off src buf) = src"
  by (simp add: write_at_def read_at_def)

lemma read_at_write_at_below:
  assumes "off + n \<le> off'" "off' \<le> length buf"
  shows "read_at off n (write_at off' src buf) = read_at off n buf"
proof -
  let ?A = "take off' buf"
  have la: "length ?A = off'" using assms(2) by simp
  have 1: "take n (drop off (?A @ R)) = take n (drop off ?A)" for R
    using la assms(1) by simp
  have 2: "take n (drop off ?A) = take n (drop off buf)"
    using assms(1) by (simp add: drop_take)
  have "read_at off n (write_at off' src buf)
          = take n (drop off (?A @ (src @ drop (off' + length src) buf)))"
    by (simp only: write_at_def read_at_def)
  also have "\<dots> = take n (drop off ?A)" by (rule 1)
  also have "\<dots> = take n (drop off buf)" by (rule 2)
  finally show ?thesis by (simp only: read_at_def)
qed


lemma length_be32 [simp]: "length (be32 w) = 4"
  by (simp add: be32_def)


lemma read_at_list_update_out:
  "i < off \<or> off + n \<le> i \<Longrightarrow> read_at off n (buf[i := v]) = read_at off n buf"
  by (auto simp add: read_at_def drop_update_cancel take_update_cancel drop_update_swap)


lemma nth_write_at_low:
  "i < off \<Longrightarrow> i < length buf \<Longrightarrow> write_at off src buf ! i = buf ! i"
  by (simp add: write_at_def nth_append)

lemma length_write_at_ge: "length buf \<le> length (write_at off src buf)"
  by (simp add: write_at_def)

lemma read_at_eq_nth:
  assumes "off + n \<le> length a" "off + n \<le> length b" "\<forall>i < off + n. a ! i = b ! i"
  shows "read_at off n a = read_at off n b"
  using assms by (auto simp add: read_at_def list_eq_iff_nth_eq)






subsection \<open>Talker: the header of a packet\<close>

lemma clear_bit0 [simp]: "(x AND - 2) AND 1 = (0 :: u8)"
  by (simp add: and.assoc)

lemma set_bit0 [simp]: "(x OR 1) AND 1 = (1 :: u8)"
  by (rule bit_word_eqI) (auto simp add: bit_simps)

lemma be32_zero [simp]: "be32 0 = [0, 0, 0, 0]"
  by (simp add: be32_def)

lemma tx_timestamp_item:
  "pPubData (fst (snd (tx_timestamp pvt it d h))) = pPubData it"
  "dataLen (fst (snd (tx_timestamp pvt it d h))) = dataLen it"
  "readIdx (fst (snd (tx_timestamp pvt it d h))) = readIdx it"
  by (simp_all add: tx_timestamp_def Let_def)

lemma tx_timestamp_length:
  "24 \<le> length d \<Longrightarrow> length (fst (tx_timestamp pvt it d 12)) = length d"
  by (simp add: tx_timestamp_def Let_def length_write_at)

lemma tx_timestamp_seq:
  "24 \<le> length d \<Longrightarrow> fst (tx_timestamp pvt it d 12) ! 2 = d ! 2"
  by (simp add: tx_timestamp_def Let_def nth_write_at_below)

lemma tx_timestamp_sparse:
  assumes "24 \<le> length d" "sparseMode pvt = TS_SPARSE_MODE_ENABLED" "(d ! 2) AND 0x07 \<noteq> 0"
  shows "read_at 12 4 (fst (tx_timestamp pvt it d 12)) = [0, 0, 0, 0]"
    and "fst (tx_timestamp pvt it d 12) ! 1 AND 1 = 0"
    and "fst (tx_timestamp pvt it d 12) ! 3 AND 1 = 0"
  using assms
  by (simp_all add: tx_timestamp_def Let_def nth_write_at_below read_at_write_at_same)

lemma tx_timestamp_tv:
  assumes "24 \<le> length d" "\<not> (sparseMode pvt = TS_SPARSE_MODE_ENABLED \<and> (d ! 2) AND 0x07 \<noteq> 0)"
  shows "fst (tx_timestamp pvt it d 12) ! 1 AND 1 = 1
           \<longleftrightarrow> openavbAvtpTimeTimestampIsValid (pAvtpTime it)"
  using assms
  by (auto simp add: tx_timestamp_def Let_def nth_write_at_below)

lemma tx_header_fst:
  "fst (tx_header pvt pub it d h) =
     (let d3 = write_at (h + 8) (be32 (tx_packet_info pvt))
                 (write_at (h + 4) (be32 (tx_format_info pvt pub)) (fst (tx_timestamp pvt it d h)))
      in if sparseMode pvt = TS_SPARSE_MODE_ENABLED
         then d3[22 := (d3 ! 22) OR SP_M0_BIT] else d3[22 := (d3 ! 22) AND NOT SP_M0_BIT])"
  by (simp add: tx_header_def Let_def case_prod_beta)

lemma tx_header_snd:
  "snd (tx_header pvt pub it d h) = snd (tx_timestamp pvt it d h)"
  by (simp add: tx_header_def Let_def case_prod_beta)

lemma tx_header_item:
  "pPubData (fst (snd (tx_header pvt pub it d h))) = pPubData it"
  "dataLen (fst (snd (tx_header pvt pub it d h))) = dataLen it"
  "readIdx (fst (snd (tx_header pvt pub it d h))) = readIdx it"
  by (simp_all add: tx_header_snd tx_timestamp_item)

lemma tx_header_length:
  assumes "24 \<le> length d"
  shows "length (fst (tx_header pvt pub it d 12)) = length d"
  using tx_timestamp_length [OF assms, of pvt it] assms
  by (simp add: tx_header_fst Let_def length_write_at)

lemma tx_header_low:
  assumes "24 \<le> length d" "i < 16"
  shows "fst (tx_header pvt pub it d 12) ! i = fst (tx_timestamp pvt it d 12) ! i"
  using tx_timestamp_length [OF assms(1), of pvt it] assms
  by (simp add: tx_header_fst Let_def nth_write_at_below length_write_at)

lemma tx_header_timestamp_bytes:
  assumes "24 \<le> length d"
  shows "read_at 12 4 (fst (tx_header pvt pub it d 12)) = read_at 12 4 (fst (tx_timestamp pvt it d 12))"
  using tx_timestamp_length [OF assms(1), of pvt it] assms
  by (simp add: tx_header_fst Let_def read_at_write_at_below read_at_list_update_out length_write_at)




subsection \<open>Talker: one call\<close>

text \<open>
  When the payload size is the number of bytes that the callback asks the media queue for
  (as the size calculator leaves them), the loop ends after the first item with data:
  the packet has the header written for that item and the item's next bytes as payload.
\<close>

lemma tail_pull_keeps [simp]:
  "pPvtMapInfo (openavbMediaQTailPull mq l) = pPvtMapInfo mq"
  "pPubMapInfo (openavbMediaQTailPull mq l) = pPubMapInfo mq"
  "pPvtMapInfo (openavbMediaQTailUnlock mq l) = pPvtMapInfo mq"
  "pPubMapInfo (openavbMediaQTailUnlock mq l) = pPubMapInfo mq"
  by (simp_all add: openavbMediaQTailPull_def openavbMediaQTailUnlock_def split: option.splits)

lemma tail_pull_ready [simp]:
  "mq_ready (openavbMediaQTailPull mq (Some it)) = tl (mq_ready mq)"
  by (simp add: openavbMediaQTailPull_def)

lemma tx_loop_done:
  "\<not> bp < n \<Longrightarrow> tx_loop pvt pub n pp mq d h bp logs = Some (True, mq, d, logs)"
  by (subst tx_loop.simps) simp

lemma tx_loop_first_item:
  assumes n: "0 < n" "payloadSize pvt = n" "n < U32_MOD"
  shows "find tx_has_data ready = Some it \<Longrightarrow> mq_ready mq = ready \<Longrightarrow>
     \<exists>fin mq' d' logs'.
        tx_loop pvt pub n pp mq d h 0 logs = Some (fin, mq', d', logs')
        \<and> pPvtMapInfo mq' = pPvtMapInfo mq \<and> pPubMapInfo mq' = pPubMapInfo mq
        \<and> (fin \<longrightarrow> d' = write_at pp (read_at (readIdx it) n (pPubData it))
                              (fst (tx_header pvt pub it d h))
                    \<and> n \<le> (dataLen it + U32_MOD - readIdx it) mod U32_MOD)"
proof (induction ready arbitrary: mq)
  case Nil
  then show ?case by simp
next
  case (Cons a rest)
  have lock: "openavbMediaQTailLock mq = Some a"
    using Cons.prems(2) by (simp add: openavbMediaQTailLock_def)
  show ?case
  proof (cases "tx_has_data a")
    case False
    then have f: "find tx_has_data rest = Some it" using Cons.prems(1) by simp
    have r: "mq_ready (openavbMediaQTailPull mq (Some a)) = rest"
      using Cons.prems(2) by simp
    have u: "tx_loop pvt pub n pp mq d h 0 logs
               = tx_loop pvt pub n pp (openavbMediaQTailPull mq (Some a)) d h 0 logs"
      using n(1) lock False by (subst tx_loop.simps) (simp add: tx_has_data_def)
    from Cons.IH [OF f r] show ?thesis unfolding u by simp
  next
    case True
    then have it: "it = a" using Cons.prems(1) by simp
    obtain d1 it1 log1 where hd: "tx_header pvt pub a d h = (d1, it1, log1)"
      by (cases "tx_header pvt pub a d h")
    have i1: "pPubData it1 = pPubData a" "readIdx it1 = readIdx a" "dataLen it1 = dataLen a"
      using tx_header_item [of pvt pub a d h] hd by simp_all
    show ?thesis
    proof (cases "(dataLen it1 + U32_MOD - readIdx it1) mod U32_MOD < payloadSize pvt")
      case short: True
      have "tx_loop pvt pub n pp mq d h 0 logs
              = Some (False, openavbMediaQTailPull mq (Some it1), d1,
                      logs @ log1 @ [(AVB_LOG_ERROR, ''Not enough data in media queue item for packet'')])"
        using n(1) lock True hd short by (subst tx_loop.simps) (simp add: tx_has_data_def)
      then show ?thesis by auto
    next
      case enough: False
      let ?d2 = "write_at pp (read_at (readIdx it1) (payloadSize pvt) (pPubData it1)) d1"
      let ?it2 = "it1\<lparr>readIdx := (readIdx it1 + payloadSize pvt) mod U32_MOD\<rparr>"
      let ?mq2 = "if readIdx ?it2 \<ge> dataLen ?it2
                  then openavbMediaQTailPull mq (Some ?it2)
                  else openavbMediaQTailUnlock mq (Some ?it2)"
      have bp: "(0 + payloadSize pvt) mod U32_MOD = n" using n by simp
      have "tx_loop pvt pub n pp mq d h 0 logs
              = tx_loop pvt pub n pp ?mq2 ?d2 (h + 12) n (logs @ log1)"
        using n(1) lock True hd enough bp
        by (subst tx_loop.simps) (simp add: tx_has_data_def Let_def)
      also have "\<dots> = Some (True, ?mq2, ?d2, logs @ log1)"
        by (rule tx_loop_done) simp
      finally have "tx_loop pvt pub n pp mq d h 0 logs = Some (True, ?mq2, ?d2, logs @ log1)" .
      moreover have "pPvtMapInfo ?mq2 = pPvtMapInfo mq" "pPubMapInfo ?mq2 = pPubMapInfo mq"
        by simp_all
      moreover have "?d2 = write_at pp (read_at (readIdx it) n (pPubData it))
                              (fst (tx_header pvt pub it d h))"
        using i1 it hd n(2) by simp
      moreover have "n \<le> (dataLen it + U32_MOD - readIdx it) mod U32_MOD"
        using enough i1 it n(2) by simp
      ultimately show ?thesis by blast
    qed
  qed
qed

lemma available_has_data:
  assumes "openavbMediaQIsAvailableBytes ready n" "0 < n"
  shows "\<exists>it. find tx_has_data ready = Some it"
proof -
  have "\<exists>x\<in>set ready. 0 < dataLen x - readIdx x"
  proof (rule ccontr)
    assume "\<not> ?thesis"
    then have "sum_list (map (\<lambda>it. dataLen it - readIdx it) ready) = 0" by auto
    with assms show False by (simp add: openavbMediaQIsAvailableBytes_def)
  qed
  then obtain x where "x \<in> set ready" "tx_has_data x" by (auto simp add: tx_has_data_def)
  then show ?thesis by (cases "find tx_has_data ready") (auto simp add: find_None_iff)
qed

lemma TxCB_result:
  assumes r: "openavbMapAVTPAudioTxCB mq pData pktLen = Some (res, mq', pkt, len', logs)"
    and p: "pPvtMapInfo mq = Some pvt"
    and n: "payloadSize pvt = (itemFrameSizeBytes (pPubMapInfo mq) * framesPerPacket (pPubMapInfo mq)) mod U32_MOD"
      "0 < payloadSize pvt"
  shows "pPubMapInfo mq' = pPubMapInfo mq"
    and "res = TX_CB_RET_PACKET_NOT_READY \<Longrightarrow> pPvtMapInfo mq' = Some pvt"
    and "res = TX_CB_RET_PACKET_READY \<Longrightarrow>
          \<exists>it. find tx_has_data (mq_ready mq) = Some it
            \<and> payloadSize pvt \<le> (dataLen it + U32_MOD - readIdx it) mod U32_MOD
            \<and> (if temporalRedundantOffsetUsec pvt > 0
                then pPvtMapInfo mq' =
                       Some (fst (tx_redundancy pvt
                           (write_at (24 + payloadSize pvt)
                              (read_at (readIdx it) (payloadSize pvt) (pPubData it))
                              (fst (tx_header pvt (pPubMapInfo mq) it pData 12)))
                           (payloadSize pvt)))
                   \<and> pkt = snd (tx_redundancy pvt
                           (write_at (24 + payloadSize pvt)
                              (read_at (readIdx it) (payloadSize pvt) (pPubData it))
                              (fst (tx_header pvt (pPubMapInfo mq) it pData 12)))
                           (payloadSize pvt))
                   \<and> len' = (payloadSize pvt + 24 + payloadSize pvt) mod U32_MOD
                   \<and> payloadSize pvt * 2 mod U32_MOD \<le> (pktLen + U32_MOD - 24) mod U32_MOD
                else pkt = write_at 24 (read_at (readIdx it) (payloadSize pvt) (pPubData it))
                           (fst (tx_header pvt (pPubMapInfo mq) it pData 12))
                   \<and> pPvtMapInfo mq' = Some pvt
                   \<and> len' = (payloadSize pvt + 24) mod U32_MOD)"
proof -
  let ?n = "payloadSize pvt"
  let ?pub = "pPubMapInfo mq"
  let ?pp = "if temporalRedundantOffsetUsec pvt > 0 then 24 + ?n else 24"
  let ?G = "pPubMapInfo mq' = pPubMapInfo mq
    \<and> (res = TX_CB_RET_PACKET_NOT_READY \<longrightarrow> pPvtMapInfo mq' = Some pvt)
    \<and> (res = TX_CB_RET_PACKET_READY \<longrightarrow>
          (\<exists>it. find tx_has_data (mq_ready mq) = Some it
            \<and> payloadSize pvt \<le> (dataLen it + U32_MOD - readIdx it) mod U32_MOD
            \<and> (if temporalRedundantOffsetUsec pvt > 0
                then pPvtMapInfo mq' =
                       Some (fst (tx_redundancy pvt
                           (write_at (24 + payloadSize pvt)
                              (read_at (readIdx it) (payloadSize pvt) (pPubData it))
                              (fst (tx_header pvt (pPubMapInfo mq) it pData 12)))
                           (payloadSize pvt)))
                   \<and> pkt = snd (tx_redundancy pvt
                           (write_at (24 + payloadSize pvt)
                              (read_at (readIdx it) (payloadSize pvt) (pPubData it))
                              (fst (tx_header pvt (pPubMapInfo mq) it pData 12)))
                           (payloadSize pvt))
                   \<and> len' = (payloadSize pvt + 24 + payloadSize pvt) mod U32_MOD
                   \<and> payloadSize pvt * 2 mod U32_MOD \<le> (pktLen + U32_MOD - 24) mod U32_MOD
                else pkt = write_at 24 (read_at (readIdx it) (payloadSize pvt) (pPubData it))
                           (fst (tx_header pvt (pPubMapInfo mq) it pData 12))
                   \<and> pPvtMapInfo mq' = Some pvt
                   \<and> len' = (payloadSize pvt + 24) mod U32_MOD)))"
  have nlt: "?n < U32_MOD" using n(1) by simp
  have G: ?G
  proof (cases "openavbMediaQIsAvailableBytes (mq_ready mq) ?n")
    case False
    then show ?thesis
      using r n(1) p by (auto simp add: openavbMapAVTPAudioTxCB_def Let_def)
  next
    case avail: True
    from available_has_data [OF avail n(2)] obtain it where
      it: "find tx_has_data (mq_ready mq) = Some it" by blast
    from tx_loop_first_item [OF n(2) refl nlt it refl, of ?pub ?pp pData 12 "[]"]
    obtain fin mq1 d1 logs1 where
      l: "tx_loop pvt ?pub ?n ?pp mq pData 12 0 [] = Some (fin, mq1, d1, logs1)"
      and lp: "pPvtMapInfo mq1 = pPvtMapInfo mq" "pPubMapInfo mq1 = pPubMapInfo mq"
      and ld: "fin \<longrightarrow> d1 = write_at ?pp (read_at (readIdx it) ?n (pPubData it))
                                (fst (tx_header pvt ?pub it pData 12))
                        \<and> ?n \<le> (dataLen it + U32_MOD - readIdx it) mod U32_MOD"
      by blast
    show ?thesis
    proof (cases "temporalRedundantOffsetUsec pvt > 0")
      case True
      then have l': "tx_loop pvt ?pub ?n (24 + ?n) mq pData 12 0 [] = Some (fin, mq1, d1, logs1)"
        using l by simp
      obtain pvt2 d2 where red: "tx_redundancy pvt d1 ?n = (pvt2, d2)"
        by (cases "tx_redundancy pvt d1 ?n")
      have "(res = TX_CB_RET_PACKET_NOT_READY \<and> (mq' = mq \<or> mq' = mq1))
          \<or> (res = TX_CB_RET_PACKET_READY \<and> fin
              \<and> mq' = mq1\<lparr>pPvtMapInfo := Some pvt2\<rparr> \<and> pkt = d2
              \<and> len' = (?n + 24 + ?n) mod U32_MOD
              \<and> ?n * 2 mod U32_MOD \<le> (pktLen + U32_MOD - 24) mod U32_MOD)"
        using r p n(1) avail True l' red
        by (auto simp add: openavbMapAVTPAudioTxCB_def Let_def split: if_splits)
      then show ?thesis using it True ld red lp p by auto
    next
      case False
      then have l': "tx_loop pvt ?pub ?n 24 mq pData 12 0 [] = Some (fin, mq1, d1, logs1)"
        using l by simp
      have "(res = TX_CB_RET_PACKET_NOT_READY \<and> (mq' = mq \<or> mq' = mq1))
          \<or> (res = TX_CB_RET_PACKET_READY \<and> fin \<and> mq' = mq1 \<and> pkt = d1
              \<and> len' = (?n + 24) mod U32_MOD)"
        using r p n(1) avail False l'
        by (auto simp add: openavbMapAVTPAudioTxCB_def Let_def split: if_splits)
      then show ?thesis using it False ld lp p by auto
    qed
  qed
  from G show "pPubMapInfo mq' = pPubMapInfo mq" by blast
  from G show "res = TX_CB_RET_PACKET_NOT_READY \<Longrightarrow> pPvtMapInfo mq' = Some pvt" by blast
  from G show "res = TX_CB_RET_PACKET_READY \<Longrightarrow>
          \<exists>it. find tx_has_data (mq_ready mq) = Some it
            \<and> payloadSize pvt \<le> (dataLen it + U32_MOD - readIdx it) mod U32_MOD
            \<and> (if temporalRedundantOffsetUsec pvt > 0
                then pPvtMapInfo mq' =
                       Some (fst (tx_redundancy pvt
                           (write_at (24 + payloadSize pvt)
                              (read_at (readIdx it) (payloadSize pvt) (pPubData it))
                              (fst (tx_header pvt (pPubMapInfo mq) it pData 12)))
                           (payloadSize pvt)))
                   \<and> pkt = snd (tx_redundancy pvt
                           (write_at (24 + payloadSize pvt)
                              (read_at (readIdx it) (payloadSize pvt) (pPubData it))
                              (fst (tx_header pvt (pPubMapInfo mq) it pData 12)))
                           (payloadSize pvt))
                   \<and> len' = (payloadSize pvt + 24 + payloadSize pvt) mod U32_MOD
                   \<and> payloadSize pvt * 2 mod U32_MOD \<le> (pktLen + U32_MOD - 24) mod U32_MOD
                else pkt = write_at 24 (read_at (readIdx it) (payloadSize pvt) (pPubData it))
                           (fst (tx_header pvt (pPubMapInfo mq) it pData 12))
                   \<and> pPvtMapInfo mq' = Some pvt
                   \<and> len' = (payloadSize pvt + 24) mod U32_MOD)" by blast
qed

lemma tx_redundancy_snd:
  "snd (tx_redundancy pvt d n) =
     write_at 24 (snd (PullBufferFromCircularQueue
        (let q1 = PushBufferToCircularQueue (temporalRedundantQueue pvt) (Some (drop (24 + n) d)) n
         in if n < temporalRedundantQueueFrameSize pvt
            then PushBufferToCircularQueue q1 None (temporalRedundantQueueFrameSize pvt - n) else q1)
        n)) d"
  by (simp add: tx_redundancy_def Let_def case_prod_beta)

lemma TxCB_header:
  assumes r: "openavbMapAVTPAudioTxCB mq pData pktLen
                = Some (TX_CB_RET_PACKET_READY, mq', pkt, len', logs)"
    and p: "pPvtMapInfo mq = Some pvt"
    and n: "payloadSize pvt = (itemFrameSizeBytes (pPubMapInfo mq) * framesPerPacket (pPubMapInfo mq)) mod U32_MOD"
      "0 < payloadSize pvt"
    and len: "24 \<le> length pData"
  shows "\<exists>it. find tx_has_data (mq_ready mq) = Some it
          \<and> 24 \<le> length pkt
          \<and> (\<forall>i < 24. pkt ! i = fst (tx_header pvt (pPubMapInfo mq) it pData 12) ! i)"
proof -
  from TxCB_result(3) [OF r p n refl] obtain it where
    it: "find tx_has_data (mq_ready mq) = Some it"
    and c: "if temporalRedundantOffsetUsec pvt > 0
                then pPvtMapInfo mq' =
                       Some (fst (tx_redundancy pvt
                           (write_at (24 + payloadSize pvt)
                              (read_at (readIdx it) (payloadSize pvt) (pPubData it))
                              (fst (tx_header pvt (pPubMapInfo mq) it pData 12)))
                           (payloadSize pvt)))
                   \<and> pkt = snd (tx_redundancy pvt
                           (write_at (24 + payloadSize pvt)
                              (read_at (readIdx it) (payloadSize pvt) (pPubData it))
                              (fst (tx_header pvt (pPubMapInfo mq) it pData 12)))
                           (payloadSize pvt))
                   \<and> len' = (payloadSize pvt + 24 + payloadSize pvt) mod U32_MOD
                   \<and> payloadSize pvt * 2 mod U32_MOD \<le> (pktLen + U32_MOD - 24) mod U32_MOD
                else pkt = write_at 24 (read_at (readIdx it) (payloadSize pvt) (pPubData it))
                           (fst (tx_header pvt (pPubMapInfo mq) it pData 12))
                   \<and> pPvtMapInfo mq' = Some pvt
                   \<and> len' = (payloadSize pvt + 24) mod U32_MOD"
    by blast
  let ?H = "fst (tx_header pvt (pPubMapInfo mq) it pData 12)"
  have lh: "24 \<le> length ?H" using tx_header_length [OF len, of pvt "pPubMapInfo mq" it] len by simp
  have "24 \<le> length pkt \<and> (\<forall>i < 24. pkt ! i = ?H ! i)"
  proof (cases "temporalRedundantOffsetUsec pvt > 0")
    case True
    let ?D = "write_at (24 + payloadSize pvt)
                (read_at (readIdx it) (payloadSize pvt) (pPubData it)) ?H"
    have ld: "24 \<le> length ?D" using lh length_write_at_ge [of ?H] by (meson le_trans)
    have pk: "pkt = snd (tx_redundancy pvt ?D (payloadSize pvt))" using c True by simp
    obtain prim where pw: "pkt = write_at 24 prim ?D"
      using pk unfolding tx_redundancy_snd by blast
    have "24 \<le> length pkt" unfolding pw using ld length_write_at_ge [of ?D] by (meson le_trans)
    moreover have "pkt ! i = ?H ! i" if "i < 24" for i
      unfolding pw using that ld lh by (simp add: nth_write_at_low)
    ultimately show ?thesis by blast
  next
    case False
    then have pw: "pkt = write_at 24 (read_at (readIdx it) (payloadSize pvt) (pPubData it)) ?H"
      using c by simp
    have "24 \<le> length pkt" unfolding pw using lh length_write_at_ge [of ?H] by (meson le_trans)
    moreover have "pkt ! i = ?H ! i" if "i < 24" for i
      unfolding pw using that lh by (simp add: nth_write_at_low)
    ultimately show ?thesis by blast
  qed
  with it show ?thesis by blast
qed







lemma TxCB_result_tuple:
  assumes "map_option fst (openavbMapAVTPAudioTxCB mq d n) = Some r"
  shows "openavbMapAVTPAudioTxCB mq d n
           = Some (r, fst (snd (the (openavbMapAVTPAudioTxCB mq d n))),
                   fst (snd (snd (the (openavbMapAVTPAudioTxCB mq d n)))),
                   fst (snd (snd (snd (the (openavbMapAVTPAudioTxCB mq d n))))),
                   snd (snd (snd (snd (the (openavbMapAVTPAudioTxCB mq d n))))))"
  using assms by (cases "openavbMapAVTPAudioTxCB mq d n") auto

subsection \<open>Talker: sparse timestamps\<close>

text \<open>
  C3. A packet that the talker produces with sparse mode enabled keeps the sequence
  number that its buffer came with. When the low three bits of the sequence number are
  not all zero, the four bytes of the timestamp field (12 to 15) are zero and the bits
  \<open>tv\<close> (byte 1, bit 0) and \<open>tu\<close> (byte 3, bit 0) are zero. When they are zero, \<open>tv\<close>
  is set exactly when the timestamp of the media queue item that the packet was made of
  is valid. The payload size is the number of bytes that the callback takes from the media
  queue, as the size calculator leaves them, and the call keeps to its contract.
\<close>

theorem C3_sparse_timestamp:
  assumes "openavbMapAVTPAudioTxCB mq pData pktLen
             = Some (TX_CB_RET_PACKET_READY, mq', pkt, len', logs)"
    and "pPvtMapInfo mq = Some pPvtData"
    and "sparseMode pPvtData = TS_SPARSE_MODE_ENABLED"
    and "payloadSize pPvtData
           = (itemFrameSizeBytes (pPubMapInfo mq) * framesPerPacket (pPubMapInfo mq)) mod U32_MOD"
    and "0 < payloadSize pPvtData"
    and "tx_step_ok (mq_ready mq, pData, pktLen)"
  shows "pkt ! HIDX_AVTP_SEQ_NUM = pData ! HIDX_AVTP_SEQ_NUM
       \<and> ((pkt ! HIDX_AVTP_SEQ_NUM) AND 7 \<noteq> 0 \<longrightarrow>
            read_at 12 4 pkt = [0, 0, 0, 0]
            \<and> (pkt ! HIDX_AVTP_HIDE7_TV1) AND 1 = 0 \<and> (pkt ! HIDX_AVTP_HIDE7_TU1) AND 1 = 0)
       \<and> ((pkt ! HIDX_AVTP_SEQ_NUM) AND 7 = 0 \<longrightarrow>
            (\<exists>it. find tx_has_data (mq_ready mq) = Some it
                  \<and> ((pkt ! HIDX_AVTP_HIDE7_TV1) AND 1 = 1
                       \<longleftrightarrow> openavbAvtpTimeTimestampIsValid (pAvtpTime it))))"
proof -
  have l24: "24 \<le> length pData" using assms(6) by (simp add: tx_step_ok_def)
  from TxCB_header [OF assms(1,2,4,5) l24] obtain it where
    it: "find tx_has_data (mq_ready mq) = Some it"
    and lp: "24 \<le> length pkt"
    and hd: "\<forall>i < 24. pkt ! i = fst (tx_header pPvtData (pPubMapInfo mq) it pData 12) ! i"
    by blast
  let ?H = "fst (tx_header pPvtData (pPubMapInfo mq) it pData 12)"
  let ?T = "fst (tx_timestamp pPvtData it pData 12)"
  have lh: "24 \<le> length ?H"
    using tx_header_length [OF l24, of pPvtData "pPubMapInfo mq" it] l24 by simp
  have low: "pkt ! i = ?T ! i" if "i < 16" for i
    using hd that tx_header_low [OF l24 that, of pPvtData "pPubMapInfo mq" it] by simp
  have ts: "read_at 12 4 pkt = read_at 12 4 ?T"
  proof -
    have "read_at 12 4 pkt = read_at 12 4 ?H"
      using lp lh hd by (intro read_at_eq_nth) simp_all
    then show ?thesis
      using tx_header_timestamp_bytes [OF l24, of pPvtData "pPubMapInfo mq" it] by simp
  qed
  have seq: "pkt ! 2 = pData ! 2"
    using low [of 2] tx_timestamp_seq [OF l24, of pPvtData it] by simp
  have a: "(pkt ! 2) AND 7 \<noteq> 0 \<longrightarrow>
            read_at 12 4 pkt = [0, 0, 0, 0] \<and> (pkt ! 1) AND 1 = 0 \<and> (pkt ! 3) AND 1 = 0"
    using tx_timestamp_sparse [OF l24 assms(3), of it] seq ts low [of 1] low [of 3]
    by simp
  have b: "(pkt ! 2) AND 7 = 0 \<longrightarrow>
             ((pkt ! 1) AND 1 = 1 \<longleftrightarrow> openavbAvtpTimeTimestampIsValid (pAvtpTime it))"
    using tx_timestamp_tv [OF l24, of pPvtData it] seq low [of 1] by simp
  from seq a b it show ?thesis by blast
qed

theorem C3_sparse_timestamp_witness:
  "read_at 12 4 (fst (snd (snd (the (openavbMapAVTPAudioTxCB
        (example_sparse_session\<lparr>mq_ready := [example_item 100 24]\<rparr>)
        (example_buffer 3 48) 48)))))
     = [0, 0, 0, 0]
   \<and> (fst (snd (snd (the (openavbMapAVTPAudioTxCB
        (example_sparse_session\<lparr>mq_ready := [example_item 100 24]\<rparr>)
        (example_buffer 3 48) 48)))) ! 1)
       AND 1 = 0
   \<and> (fst (snd (snd (the (openavbMapAVTPAudioTxCB
        (example_sparse_session\<lparr>mq_ready := [example_item 100 24]\<rparr>)
        (example_buffer 3 48) 48)))) ! 3)
       AND 1 = 0
   \<and> (fst (snd (snd (the (openavbMapAVTPAudioTxCB
        (example_sparse_session\<lparr>mq_ready := [example_item 100 24]\<rparr>)
        (example_buffer 8 48) 48)))) ! 1)
       AND 1 = 1"
proof -
  let ?mq = "example_sparse_session\<lparr>mq_ready := [example_item 100 24]\<rparr>"
  let ?r3 = "the (openavbMapAVTPAudioTxCB ?mq (example_buffer 3 48) 48)"
  let ?r8 = "the (openavbMapAVTPAudioTxCB ?mq (example_buffer 8 48) 48)"
  have "map_option fst (openavbMapAVTPAudioTxCB ?mq (example_buffer 3 48) 48)
          = Some TX_CB_RET_PACKET_READY"
    "map_option fst (openavbMapAVTPAudioTxCB ?mq (example_buffer 8 48) 48)
          = Some TX_CB_RET_PACKET_READY"
    by code_simp+
  note c = this [THEN TxCB_result_tuple]
  have "\<not> Option.is_none (pPvtMapInfo ?mq)" by code_simp
  then have p: "pPvtMapInfo ?mq = Some (the (pPvtMapInfo ?mq))" by (simp add: Option.is_none_def)
  have sp: "sparseMode (the (pPvtMapInfo ?mq)) = TS_SPARSE_MODE_ENABLED"
    and sz: "payloadSize (the (pPvtMapInfo ?mq))
              = (itemFrameSizeBytes (pPubMapInfo ?mq) * framesPerPacket (pPubMapInfo ?mq)) mod U32_MOD"
    and ps: "0 < payloadSize (the (pPvtMapInfo ?mq))"
    by code_simp+
  have ok: "tx_step_ok (mq_ready ?mq, example_buffer 3 48, 48)"
    "tx_step_ok (mq_ready ?mq, example_buffer 8 48, 48)"
    by (simp_all add: tx_step_ok_def example_item_def example_buffer_def)
  have s3: "example_buffer 3 48 ! 2 = 3" and s8: "example_buffer 8 48 ! 2 = 8"
    by (simp_all add: example_buffer_def)
  have f: "find tx_has_data (mq_ready ?mq) = Some (example_item 100 24)"
    by (simp add: tx_has_data_def example_item_def)
  have v: "openavbAvtpTimeTimestampIsValid (pAvtpTime (example_item 100 24))"
    by (simp add: openavbAvtpTimeTimestampIsValid_def example_item_def)
  from C3_sparse_timestamp [OF c(1) p sp sz ps ok(1)] s3
  have a: "read_at 12 4 (fst (snd (snd ?r3))) = [0, 0, 0, 0]"
    "(fst (snd (snd ?r3)) ! 1) AND 1 = 0" "(fst (snd (snd ?r3)) ! 3) AND 1 = 0"
    by simp_all
  from C3_sparse_timestamp [OF c(2) p sp sz ps ok(2)] s8 f v
  have b: "(fst (snd (snd ?r8)) ! 1) AND 1 = 1" by simp
  from a b show ?thesis by simp
qed

subsection \<open>Talker: the rate code of a packet\<close>









subsection \<open>Talker: temporal redundancy\<close>




















end
